theory Spec2Isabelle
  imports Complex_Main "HOL-Library.Sublist"
begin

chapter \<open>wget2go: a shallow embedding of the download core\<close>

text \<open>
  The theory follows the Go sources of wget2go.  Go strings are byte sequences and are
  modelled as \<^typ>\<open>string\<close> (a list of 8-bit characters); Go's \<open>int\<close> and \<open>int64\<close> are
  modelled as \<^typ>\<open>int\<close> where the values involved cannot overflow (sizes of files and
  counts of chunks), and with the wrap-around written out where they can (\<open>CalculateETA\<close>);
  \<open>float64\<close> is rounding on the rationals.  An \<open>error\<close> value of Go is its message, a
  \<^typ>\<open>string\<close>, because the downloader classifies errors by the text of their message.
\<close>

section \<open>The URL queue (internal/core/types/types.go, internal/core/queue/manager.go)\<close>

text \<open>
  \<open>Job\<close> keeps the fields of \<open>types.Job\<close> that the queue reads or that identify a job.
\<close>

record Job =
  ID :: nat
  ParentID :: nat
  URL :: string
  Level :: int

text \<open>
  \<open>URLQueue\<close>: the slice \<open>Jobs\<close> and the Go map \<open>Index map[string]bool\<close>.  Reading a Go
  map at a missing key gives the zero value \<open>false\<close>; \<open>index_get\<close> is that read.
\<close>

record URLQueue =
  Jobs :: "Job list"
  Index :: "string \<rightharpoonup> bool"

definition index_get :: "(string \<rightharpoonup> bool) \<Rightarrow> string \<Rightarrow> bool" where
  "index_get m u = (case m u of None \<Rightarrow> False | Some b \<Rightarrow> b)"

definition NewURLQueue :: URLQueue where
  "NewURLQueue = \<lparr>Jobs = [], Index = Map.empty\<rparr>"

text \<open>\<open>URLQueue.Add\<close>: refuses a URL whose index entry is true, else appends and marks.\<close>

definition queue_Add :: "URLQueue \<Rightarrow> Job \<Rightarrow> bool \<times> URLQueue" where
  "queue_Add q job =
     (if index_get (Index q) (URL job) then (False, q)
      else (True, q\<lparr>Jobs := Jobs q @ [job], Index := (Index q)(URL job \<mapsto> True)\<rparr>))"

text \<open>\<open>URLQueue.Pop\<close>: \<open>nil\<close> on an empty queue, else the head; only \<open>Jobs\<close> changes.\<close>

definition queue_Pop :: "URLQueue \<Rightarrow> Job option \<times> URLQueue" where
  "queue_Pop q =
     (case Jobs q of
        [] \<Rightarrow> (None, q)
      | job # rest \<Rightarrow> (Some job, q\<lparr>Jobs := rest\<rparr>))"

definition queue_Contains :: "URLQueue \<Rightarrow> string \<Rightarrow> bool" where
  "queue_Contains q u = index_get (Index q) u"

text \<open>
  The queue manager: the queue, the blacklist and the visited set (both Go maps to
  \<open>bool\<close>).  The per-host robots map plays no part in the queue operations below.
\<close>

record Manager =
  queue :: URLQueue
  blacklist :: "string \<rightharpoonup> bool"
  visited :: "string \<rightharpoonup> bool"

definition NewManager :: Manager where
  "NewManager = \<lparr>queue = NewURLQueue, blacklist = Map.empty, visited = Map.empty\<rparr>"

text \<open>
  The messages of \<open>Manager.Add\<close>, as UTF-8 bytes, each followed by the URL:
  \<open>URL\<close> U+5728 U+9ED1 U+540D U+5355 U+4E2D (in the blacklist),
  \<open>URL\<close> U+5DF2 U+8BBF U+95EE (visited),
  \<open>URL\<close> U+5DF2 U+5728 U+961F U+5217 U+4E2D (in the queue).
\<close>

definition msg_in_blacklist :: string where
  "msg_in_blacklist = ''URL''
     @ [CHR 0xE5, CHR 0x9C, CHR 0xA8, CHR 0xE9, CHR 0xBB, CHR 0x91, CHR 0xE5, CHR 0x90,
        CHR 0x8D, CHR 0xE5, CHR 0x8D, CHR 0x95, CHR 0xE4, CHR 0xB8, CHR 0xAD]
     @ '': ''"

definition msg_already_visited :: string where
  "msg_already_visited = ''URL''
     @ [CHR 0xE5, CHR 0xB7, CHR 0xB2, CHR 0xE8, CHR 0xAE, CHR 0xBF, CHR 0xE9, CHR 0x97,
        CHR 0xAE]
     @ '': ''"

definition msg_already_queued :: string where
  "msg_already_queued = ''URL''
     @ [CHR 0xE5, CHR 0xB7, CHR 0xB2, CHR 0xE5, CHR 0x9C, CHR 0xA8, CHR 0xE9, CHR 0x98,
        CHR 0x9F, CHR 0xE5, CHR 0x88, CHR 0x97, CHR 0xE4, CHR 0xB8, CHR 0xAD]
     @ '': ''"

text \<open>\<open>Manager.Add\<close> returns an error message or succeeds.\<close>

definition Manager_Add :: "Manager \<Rightarrow> Job \<Rightarrow> string option \<times> Manager" where
  "Manager_Add m job =
     (if index_get (blacklist m) (URL job) then (Some (msg_in_blacklist @ URL job), m)
      else if index_get (visited m) (URL job) then (Some (msg_already_visited @ URL job), m)
      else (case queue_Add (queue m) job of
              (False, q') \<Rightarrow> (Some (msg_already_queued @ URL job), m\<lparr>queue := q'\<rparr>)
            | (True, q') \<Rightarrow> (None, m\<lparr>queue := q'\<rparr>)))"

definition Manager_Pop :: "Manager \<Rightarrow> Job option \<times> Manager" where
  "Manager_Pop m = (case queue_Pop (queue m) of (j, q') \<Rightarrow> (j, m\<lparr>queue := q'\<rparr>))"

definition Manager_Contains :: "Manager \<Rightarrow> string \<Rightarrow> bool" where
  "Manager_Contains m u = queue_Contains (queue m) u"

definition MarkVisited :: "Manager \<Rightarrow> string \<Rightarrow> Manager" where
  "MarkVisited m u = m\<lparr>visited := (visited m)(u \<mapsto> True)\<rparr>"

definition AddToBlacklist :: "Manager \<Rightarrow> string \<Rightarrow> Manager" where
  "AddToBlacklist m u = m\<lparr>blacklist := (blacklist m)(u \<mapsto> True)\<rparr>"

text \<open>
  \<open>Manager.Remove\<close>: the loop looks for the first queued job with the URL; only when it
  finds one does it cut the job out of \<open>Jobs\<close> and delete the index entry.
\<close>

fun remove_first :: "string \<Rightarrow> Job list \<Rightarrow> Job list option" where
  "remove_first u [] = None"
| "remove_first u (j # js) =
     (if URL j = u then Some js
      else (case remove_first u js of None \<Rightarrow> None | Some js' \<Rightarrow> Some (j # js')))"

definition Manager_Remove :: "Manager \<Rightarrow> string \<Rightarrow> bool \<times> Manager" where
  "Manager_Remove m u =
     (if \<not> queue_Contains (queue m) u then (False, m)
      else (case remove_first u (Jobs (queue m)) of
              None \<Rightarrow> (False, m)
            | Some js' \<Rightarrow>
                (True, m\<lparr>queue := (queue m)\<lparr>Jobs := js', Index := (Index (queue m))(u := None)\<rparr>\<rparr>)))"

text \<open>The operations a caller can apply to a manager, and a run of them.\<close>

datatype queue_op =
    OpAdd Job
  | OpPop
  | OpMarkVisited string
  | OpBlacklist string
  | OpRemove string

fun apply_queue_op :: "Manager \<Rightarrow> queue_op \<Rightarrow> Manager" where
  "apply_queue_op m (OpAdd j) = snd (Manager_Add m j)"
| "apply_queue_op m OpPop = snd (Manager_Pop m)"
| "apply_queue_op m (OpMarkVisited u) = MarkVisited m u"
| "apply_queue_op m (OpBlacklist u) = AddToBlacklist m u"
| "apply_queue_op m (OpRemove u) = snd (Manager_Remove m u)"

definition run_queue_ops :: "Manager \<Rightarrow> queue_op list \<Rightarrow> Manager" where
  "run_queue_ops m ops = foldl apply_queue_op m ops"


section \<open>Outcomes of Go code\<close>

text \<open>
  A Go function returns normally, returns an \<open>error\<close> (its message), or panics (a run-time
  panic such as an integer division by zero ends the program).
\<close>

datatype 'a go_result = Ok 'a | Err string | Panic string

text \<open>Go's integer division truncates towards zero; \<open>%\<close> is its remainder.\<close>

definition go_div :: "int \<Rightarrow> int \<Rightarrow> int" where
  "go_div a b = (if (a < 0) = (b < 0) then \<bar>a\<bar> div \<bar>b\<bar> else - (\<bar>a\<bar> div \<bar>b\<bar>))"

definition go_mod :: "int \<Rightarrow> int \<Rightarrow> int" where
  "go_mod a b = a - b * go_div a b"

section \<open>The chunk plan (downloadWithChunks, calculateNumChunks)\<close>

text \<open>
  \<open>types.TaskStatus\<close> is an \<open>int\<close> with five named values; a status read back from a state
  file can be any integer.
\<close>

type_synonym TaskStatus = int

definition TaskPending :: TaskStatus where "TaskPending = 0"
definition TaskDownloading :: TaskStatus where "TaskDownloading = 1"
definition TaskCompleted :: TaskStatus where "TaskCompleted = 2"
definition TaskFailed :: TaskStatus where "TaskFailed = 3"
definition TaskPaused :: TaskStatus where "TaskPaused = 4"

text \<open>
  \<open>types.Chunk\<close>.  The field \<open>Index\<close> is written \<open>Index_chunk\<close> here (the queue has a field
  \<open>Index\<close> of its own); \<open>Error\<close> holds the message of the chunk's error, if any.
\<close>

record Chunk =
  Index_chunk :: int
  Start :: int
  End :: int
  Size :: int
  Completed :: int
  Status :: TaskStatus
  Error :: "string option"

definition calculateNumChunks :: "int \<Rightarrow> int \<Rightarrow> int" where
  "calculateNumChunks fileSize chunkSize =
     (if chunkSize \<le> 0 then 1
      else if go_mod fileSize chunkSize \<noteq> 0 then go_div fileSize chunkSize + 1
      else go_div fileSize chunkSize)"

text \<open>The body of the loop \<open>for i := 0; i < numChunks; i++\<close> that fills \<open>chunks[i]\<close>.\<close>

definition new_chunk :: "int \<Rightarrow> int \<Rightarrow> int \<Rightarrow> int \<Rightarrow> Chunk" where
  "new_chunk numChunks chunkSize lastChunkSize i =
     (let start = i * chunkSize;
          end0 = (if i = numChunks - 1 then start + lastChunkSize - 1
                  else start + chunkSize - 1)
      in \<lparr>Index_chunk = i, Start = start, End = end0, Size = end0 - start + 1,
          Completed = 0, Status = TaskPending, Error = None\<rparr>)"

text \<open>
  The first part of \<open>downloadWithChunks\<close>: the number of chunks, capped by \<open>MaxThreads\<close>,
  the size of a chunk and of the last chunk, and the slice of chunks.  With
  \<open>numChunks = 0\<close> the division panics; with a negative \<open>numChunks\<close> it is \<open>make\<close> that
  panics.
\<close>

definition chunk_plan :: "int \<Rightarrow> int \<Rightarrow> int \<Rightarrow> Chunk list go_result" where
  "chunk_plan contentLength configChunkSize maxThreads =
     (let n0 = calculateNumChunks contentLength configChunkSize;
          numChunks = (if n0 > maxThreads then maxThreads else n0)
      in if numChunks = 0 then Panic ''integer divide by zero''
         else let chunkSize = go_div contentLength numChunks;
                  lastChunkSize = contentLength - chunkSize * (numChunks - 1)
              in if numChunks < 0 then Panic ''makeslice: len out of range''
                 else Ok (map (new_chunk numChunks chunkSize lastChunkSize) [0..numChunks - 1]))"

text \<open>The bytes a chunk asks for: the closed range from \<open>Start\<close> to \<open>End\<close>.\<close>

definition chunk_range :: "Chunk \<Rightarrow> int set" where
  "chunk_range c = {Start c..End c}"

section \<open>CalculateETA (internal/core/utils/utils.go)\<close>

text \<open>
  \<open>CalculateETA\<close> takes three \<open>int64\<close> values.  \<open>total - downloaded\<close> wraps around in
  \<open>int64\<close>.  The parameter \<open>total\<close> of the source is written \<open>tot\<close> (\<open>total\<close> is a
  constant of HOL).
\<close>

definition wrap64 :: "int \<Rightarrow> int" where
  "wrap64 x = (x + 2 ^ 63) mod 2 ^ 64 - 2 ^ 63"

definition int64 :: "int \<Rightarrow> bool" where
  "int64 x \<longleftrightarrow> - (2 ^ 63) \<le> x \<and> x < 2 ^ 63"

text \<open>
  \<open>float64\<close>: a rational number is rounded to the nearest number with 53 significant
  bits, a tie to the one with an even last bit.  \<open>float64_exponent x\<close> is the \<open>e\<close> with
  \<open>2^e \<le> |x| < 2^(e+1)\<close>, looked for between \<open>-1022\<close> and \<open>1023\<close>, the exponents of the normal
  numbers.  Zero is exact.  Outside the normal numbers (subnormal results, overflow to
  infinity) the model leaves the value as it is; \<open>CalculateETA\<close> does not get there: the
  values it rounds are zero or lie between \<open>2^-63\<close> and \<open>2^93\<close> in magnitude.
\<close>

fun exponent_up :: "nat \<Rightarrow> rat \<Rightarrow> int option" where
  "exponent_up 0 x = (if x < 2 then Some 0 else None)"
| "exponent_up (Suc n) x =
     (if x < 2 then Some 0 else map_option (\<lambda>e. e + 1) (exponent_up n (x / 2)))"

fun exponent_down :: "nat \<Rightarrow> rat \<Rightarrow> int option" where
  "exponent_down 0 x = None"
| "exponent_down (Suc n) x =
     (if 1 \<le> 2 * x then Some (- 1) else map_option (\<lambda>e. e - 1) (exponent_down n (2 * x)))"

definition float64_exponent :: "rat \<Rightarrow> int option" where
  "float64_exponent x =
     (if x = 0 then None
      else if 1 \<le> \<bar>x\<bar> then exponent_up 1023 \<bar>x\<bar>
      else exponent_down 1022 \<bar>x\<bar>)"

definition round_half_even :: "rat \<Rightarrow> int" where
  "round_half_even m =
     (let f = \<lfloor>m\<rfloor>; r = m - of_int f
      in if r < 1 / 2 then f else if 1 / 2 < r then f + 1 else if even f then f else f + 1)"

definition float64 :: "rat \<Rightarrow> rat" where
  "float64 x =
     (case float64_exponent x of
        None \<Rightarrow> x
      | Some e \<Rightarrow> sgn x * of_int (round_half_even (\<bar>x\<bar> / 2 powi (e - 52))) * 2 powi (e - 52))"

text \<open>
  The conversion of a \<open>float64\<close> to \<open>int64\<close> (here to \<open>time.Duration\<close>) truncates towards
  zero.  When the truncated value does not fit \<open>int64\<close>, Go leaves the result to the
  implementation: it is the parameter \<open>out_of_range\<close>.  On amd64 it is the least \<open>int64\<close>.
\<close>

definition float_to_int64 :: "(rat \<Rightarrow> int) \<Rightarrow> rat \<Rightarrow> int" where
  "float_to_int64 out_of_range x =
     (let t = (if 0 \<le> x then \<lfloor>x\<rfloor> else \<lceil>x\<rceil>) in if int64 t then t else out_of_range x)"

definition amd64_out_of_range :: "rat \<Rightarrow> int" where
  "amd64_out_of_range x = - (2 ^ 63)"

text \<open>
  \<open>time.Second\<close> is \<open>10^9\<close> nanoseconds.  \<open>CalculateETA\<close> computes
  \<open>float64(remaining) / float64(speed)\<close>, multiplies by \<open>float64(time.Second)\<close> and converts
  the product to \<open>time.Duration\<close>, a count of nanoseconds; every conversion to \<open>float64\<close>
  and every operation rounds.
\<close>

definition Second :: int where
  "Second = 1000000000"

definition CalculateETA :: "(rat \<Rightarrow> int) \<Rightarrow> int \<Rightarrow> int \<Rightarrow> int \<Rightarrow> int" where
  "CalculateETA out_of_range tot downloaded speed =
     (if speed \<le> 0 then 0
      else let remaining = wrap64 (tot - downloaded);
               seconds = float64 (float64 (of_int remaining) / float64 (of_int speed))
           in float_to_int64 out_of_range (float64 (seconds * float64 (of_int Second))))"

section \<open>Strings and formatting\<close>

text \<open>\<open>strings.HasPrefix\<close>, \<open>strings.HasSuffix\<close> and \<open>strings.Contains\<close> compare bytes.\<close>

definition HasPrefix :: "string \<Rightarrow> string \<Rightarrow> bool" where
  "HasPrefix s pre = prefix pre s"

definition HasSuffix :: "string \<Rightarrow> string \<Rightarrow> bool" where
  "HasSuffix s suf = suffix suf s"

fun Contains :: "string \<Rightarrow> string \<Rightarrow> bool" where
  "Contains [] sub = (sub = [])"
| "Contains (c # s) sub = (prefix sub (c # s) \<or> Contains s sub)"

text \<open>The verb \<open>%d\<close> of \<open>fmt.Sprintf\<close>: decimal digits, with a minus sign when negative.\<close>

definition digit_char :: "nat \<Rightarrow> char" where
  "digit_char d = ''0123456789'' ! d"

function show_nat :: "nat \<Rightarrow> string" where
  "show_nat n = (if n < 10 then [digit_char n] else show_nat (n div 10) @ [digit_char (n mod 10)])"
  by pat_completeness auto
termination
  by (relation "measure (\<lambda>n. n)") auto

declare show_nat.simps [simp del]

definition show_int :: "int \<Rightarrow> string" where
  "show_int i = (if i < 0 then CHR ''-'' # show_nat (nat (- i)) else show_nat (nat i))"

section \<open>Configuration and HTTP values (internal/core/types)\<close>

text \<open>The fields of \<open>types.Config\<close> that the downloader reads.\<close>

record Config =
  OutputFile :: string
  OutputDocument :: string
  Continue :: bool
  ChunkSize :: int
  MaxThreads :: int

text \<open>\<open>types.HTTPResponse\<close>, what \<open>Head\<close> reports (the time stamp is left out).\<close>

record HTTPResponse =
  StatusCode :: int
  ContentLength :: int
  ContentType :: string
  ETag :: string
  AcceptRanges :: bool

text \<open>
  A request as the server sees it, and the \<open>http.Response\<close> of the standard library:
  status, the \<open>ContentLength\<close> field (\<open>-1\<close> when unknown), the headers (a missing header reads
  as the empty string), the bytes of the body and, when reading the body breaks off after
  these bytes, the error of the read.
\<close>

record http_request =
  req_verb :: string
  req_url :: string
  req_range :: string

record http_response =
  resp_StatusCode :: int
  resp_ContentLength :: int
  resp_Header :: "string \<Rightarrow> string"
  resp_Body :: string
  resp_BodyError :: "string option"

text \<open>
  What \<open>http.NewRequestWithContext\<close> followed by \<open>http.Client.Do\<close> gives: the request
  cannot be built, the exchange fails (network, timeout, cancellation), or a response.
\<close>

datatype transport = NewRequestError string | DoError string | Response http_response

section \<open>The environment: file system and network\<close>

datatype fs_op = FsStat | FsOpen | FsCreate | FsRead | FsWrite | FsRemove | FsRename

text \<open>
  The environment of a run is fixed: \<open>refusal op p\<close> is the error of the operating system
  when it refuses \<open>op\<close> on path \<open>p\<close> (permissions and the like), \<open>server\<close> answers a request
  given the requests sent so far, \<open>url_Path\<close> is \<open>url.Parse(u).Path\<close> (\<open>None\<close> when parsing
  fails), and the decoders stand for \<open>compress/gzip\<close>, \<open>compress/zlib\<close> and
  \<open>encoding/json\<close>, which are not part of the repository.  A decompressor either rejects
  the header of the stream (\<open>Inl\<close>, the error of \<open>NewReader\<close>) or gives the decoded bytes
  and, when the stream breaks off after them, the error of the read.

  The state of a run is the content of the files and the requests sent so far.
\<close>

record ChunkState =
  st_index :: int
  st_start :: int
  st_end :: int
  st_size :: int
  st_completed :: int
  st_status :: int

record env =
  refusal :: "fs_op \<Rightarrow> string \<Rightarrow> string option"
  server :: "http_request list \<Rightarrow> http_request \<Rightarrow> transport"
  url_Path :: "string \<Rightarrow> string option"
  gzip_decode :: "string \<Rightarrow> string + string \<times> string option"
  zlib_decode :: "string \<Rightarrow> string + string \<times> string option"
  json_Unmarshal :: "string \<Rightarrow> string + ChunkState list"

record world =
  files :: "string \<rightharpoonup> string"
  sent :: "http_request list"

text \<open>
  An error of package \<open>os\<close> prints as operation, path, colon, cause.
\<close>

definition path_error :: "string \<Rightarrow> string \<Rightarrow> string \<Rightarrow> string" where
  "path_error opname p cause = opname @ '' '' @ p @ '': '' @ cause"

definition not_found :: string where
  "not_found = ''no such file or directory''"

text \<open>\<open>os.Stat\<close>: the size of the file.\<close>

definition os_Stat :: "env \<Rightarrow> world \<Rightarrow> string \<Rightarrow> string + int" where
  "os_Stat e w p =
     (case refusal e FsStat p of
        Some cause \<Rightarrow> Inl (path_error ''stat'' p cause)
      | None \<Rightarrow>
          (case files w p of
             None \<Rightarrow> Inl (path_error ''stat'' p not_found)
           | Some content \<Rightarrow> Inr (int (length content))))"

text \<open>\<open>utils.FileExists\<close>: \<open>os.Stat\<close> gave no error.  \<open>utils.GetFileSize\<close> is \<open>os.Stat\<close>.\<close>

definition FileExists :: "env \<Rightarrow> world \<Rightarrow> string \<Rightarrow> bool" where
  "FileExists e w p = (case os_Stat e w p of Inl _ \<Rightarrow> False | Inr _ \<Rightarrow> True)"

definition GetFileSize :: "env \<Rightarrow> world \<Rightarrow> string \<Rightarrow> string + int" where
  "GetFileSize e w p = os_Stat e w p"

text \<open>\<open>os.Create\<close>: creates the file or truncates it.\<close>

definition os_Create :: "env \<Rightarrow> world \<Rightarrow> string \<Rightarrow> string + world" where
  "os_Create e w p =
     (case refusal e FsCreate p of
        Some cause \<Rightarrow> Inl (path_error ''open'' p cause)
      | None \<Rightarrow> Inr (w\<lparr>files := (files w)(p \<mapsto> [])\<rparr>))"

text \<open>\<open>os.OpenFile\<close> with \<open>O_WRONLY|O_APPEND\<close>: the file must exist.\<close>

definition os_OpenFile_append :: "env \<Rightarrow> world \<Rightarrow> string \<Rightarrow> string + unit" where
  "os_OpenFile_append e w p =
     (case refusal e FsOpen p of
        Some cause \<Rightarrow> Inl (path_error ''open'' p cause)
      | None \<Rightarrow>
          (case files w p of
             None \<Rightarrow> Inl (path_error ''open'' p not_found)
           | Some _ \<Rightarrow> Inr ()))"

text \<open>\<open>os.Remove\<close> and \<open>os.Rename\<close>.\<close>

definition os_Remove :: "env \<Rightarrow> world \<Rightarrow> string \<Rightarrow> string + world" where
  "os_Remove e w p =
     (case refusal e FsRemove p of
        Some cause \<Rightarrow> Inl (path_error ''remove'' p cause)
      | None \<Rightarrow>
          (case files w p of
             None \<Rightarrow> Inl (path_error ''remove'' p not_found)
           | Some _ \<Rightarrow> Inr (w\<lparr>files := (files w)(p := None)\<rparr>)))"

definition os_Rename :: "env \<Rightarrow> world \<Rightarrow> string \<Rightarrow> string \<Rightarrow> string + world" where
  "os_Rename e w old new =
     (case refusal e FsRename old of
        Some cause \<Rightarrow> Inl (''rename '' @ old @ '' '' @ new @ '': '' @ cause)
      | None \<Rightarrow>
          (case files w old of
             None \<Rightarrow> Inl (''rename '' @ old @ '' '' @ new @ '': '' @ not_found)
           | Some content \<Rightarrow> Inr (w\<lparr>files := (files w)(old := None, new \<mapsto> content)\<rparr>)))"

text \<open>\<open>os.ReadFile\<close>.\<close>

definition os_ReadFile :: "env \<Rightarrow> world \<Rightarrow> string \<Rightarrow> string + string" where
  "os_ReadFile e w p =
     (case refusal e FsRead p of
        Some cause \<Rightarrow> Inl (path_error ''open'' p cause)
      | None \<Rightarrow>
          (case files w p of
             None \<Rightarrow> Inl (path_error ''open'' p not_found)
           | Some content \<Rightarrow> Inr content))"

text \<open>
  \<open>os.WriteFile\<close> opens the file with \<open>O_WRONLY|O_CREATE|O_TRUNC\<close>, writes the data and
  closes it.  \<open>os_WriteFile_steps\<close> lists the states of the file system the call goes
  through, one per system call that changes it: after the open the file is there and
  empty, after the write it holds the data.  A refused open changes nothing; a refused
  write leaves the truncated file.
\<close>

definition os_WriteFile_steps :: "env \<Rightarrow> world \<Rightarrow> string \<Rightarrow> string \<Rightarrow> (string + unit) \<times> world list" where
  "os_WriteFile_steps e w p content =
     (case refusal e FsCreate p of
        Some cause \<Rightarrow> (Inl (path_error ''open'' p cause), [])
      | None \<Rightarrow>
          let w1 = w\<lparr>files := (files w)(p \<mapsto> [])\<rparr> in
          (case refusal e FsWrite p of
             Some cause \<Rightarrow> (Inl (path_error ''write'' p cause), [w1])
           | None \<Rightarrow> (Inr (), [w1, w1\<lparr>files := (files w1)(p \<mapsto> content)\<rparr>])))"

definition os_WriteFile :: "env \<Rightarrow> world \<Rightarrow> string \<Rightarrow> string \<Rightarrow> (string + unit) \<times> world" where
  "os_WriteFile e w p content =
     (case os_WriteFile_steps e w p content of (r, ws) \<Rightarrow> (r, last (w # ws)))"

text \<open>
  \<open>File.WriteAt\<close>: the bytes go to the offset; a gap before the offset reads as zero
  bytes.  \<open>io.Copy\<close> to a file opened with \<open>O_APPEND\<close>, or just created, appends.
\<close>

definition write_at :: "string \<Rightarrow> nat \<Rightarrow> string \<Rightarrow> string" where
  "write_at old off content =
     take off (old @ replicate (off - length old) (CHR 0x00)) @ content
       @ drop (off + length content) old"

section \<open>The messages of the errors\<close>

text \<open>
  The Go sources write their messages in Chinese.  Each literal is given here by its
  UTF-8 bytes; the text before a definition names the function that uses the literal and
  lists its code points.
\<close>

text \<open>Download, downloadWithChunks: U+83B7 U+53D6 U+6587 U+4EF6 U+4FE1 U+606F U+5931 U+8D25, then a colon and a space.\<close>

definition msg_get_info_failed :: string where
  "msg_get_info_failed =
     [CHR 0xE8, CHR 0x8E, CHR 0xB7, CHR 0xE5, CHR 0x8F, CHR 0x96, CHR 0xE6, CHR 0x96,
      CHR 0x87, CHR 0xE4, CHR 0xBB, CHR 0xB6, CHR 0xE4, CHR 0xBF, CHR 0xA1, CHR 0xE6,
      CHR 0x81, CHR 0xAF, CHR 0xE5, CHR 0xA4, CHR 0xB1, CHR 0xE8, CHR 0xB4, CHR 0xA5,
      CHR '':'', CHR '' '']"

text \<open>getFileInfo, downloadSingle: HTTP U+9519 U+8BEF, colon, space; the status follows.\<close>

definition msg_http_error :: string where
  "msg_http_error =
     [CHR ''H'', CHR ''T'', CHR ''T'', CHR ''P'', CHR 0xE9, CHR 0x94, CHR 0x99, CHR 0xE8,
      CHR 0xAF, CHR 0xAF, CHR '':'', CHR '' '']"

text \<open>getFileInfo: U+65E0 U+6CD5 U+83B7 U+53D6 U+6587 U+4EF6 U+5927 U+5C0F.\<close>

definition msg_no_size :: string where
  "msg_no_size =
     [CHR 0xE6, CHR 0x97, CHR 0xA0, CHR 0xE6, CHR 0xB3, CHR 0x95, CHR 0xE8, CHR 0x8E,
      CHR 0xB7, CHR 0xE5, CHR 0x8F, CHR 0x96, CHR 0xE6, CHR 0x96, CHR 0x87, CHR 0xE4,
      CHR 0xBB, CHR 0xB6, CHR 0xE5, CHR 0xA4, CHR 0xA7, CHR 0xE5, CHR 0xB0, CHR 0x8F]"

text \<open>Head: U+521B U+5EFA HEAD U+8BF7 U+6C42 U+5931 U+8D25, colon, space.\<close>

definition msg_head_create_failed :: string where
  "msg_head_create_failed =
     [CHR 0xE5, CHR 0x88, CHR 0x9B, CHR 0xE5, CHR 0xBB, CHR 0xBA, CHR ''H'', CHR ''E'',
      CHR ''A'', CHR ''D'', CHR 0xE8, CHR 0xAF, CHR 0xB7, CHR 0xE6, CHR 0xB1, CHR 0x82,
      CHR 0xE5, CHR 0xA4, CHR 0xB1, CHR 0xE8, CHR 0xB4, CHR 0xA5, CHR '':'', CHR '' '']"

text \<open>Head: U+6267 U+884C HEAD U+8BF7 U+6C42 U+5931 U+8D25, colon, space.\<close>

definition msg_head_do_failed :: string where
  "msg_head_do_failed =
     [CHR 0xE6, CHR 0x89, CHR 0xA7, CHR 0xE8, CHR 0xA1, CHR 0x8C, CHR ''H'', CHR ''E'',
      CHR ''A'', CHR ''D'', CHR 0xE8, CHR 0xAF, CHR 0xB7, CHR 0xE6, CHR 0xB1, CHR 0x82,
      CHR 0xE5, CHR 0xA4, CHR 0xB1, CHR 0xE8, CHR 0xB4, CHR 0xA5, CHR '':'', CHR '' '']"

text \<open>Get: U+521B U+5EFA GET U+8BF7 U+6C42 U+5931 U+8D25, colon, space.\<close>

definition msg_get_create_failed :: string where
  "msg_get_create_failed =
     [CHR 0xE5, CHR 0x88, CHR 0x9B, CHR 0xE5, CHR 0xBB, CHR 0xBA, CHR ''G'', CHR ''E'',
      CHR ''T'', CHR 0xE8, CHR 0xAF, CHR 0xB7, CHR 0xE6, CHR 0xB1, CHR 0x82, CHR 0xE5,
      CHR 0xA4, CHR 0xB1, CHR 0xE8, CHR 0xB4, CHR 0xA5, CHR '':'', CHR '' '']"

text \<open>Get: U+6267 U+884C GET U+8BF7 U+6C42 U+5931 U+8D25, colon, space.\<close>

definition msg_get_do_failed :: string where
  "msg_get_do_failed =
     [CHR 0xE6, CHR 0x89, CHR 0xA7, CHR 0xE8, CHR 0xA1, CHR 0x8C, CHR ''G'', CHR ''E'',
      CHR ''T'', CHR 0xE8, CHR 0xAF, CHR 0xB7, CHR 0xE6, CHR 0xB1, CHR 0x82, CHR 0xE5,
      CHR 0xA4, CHR 0xB1, CHR 0xE8, CHR 0xB4, CHR 0xA5, CHR '':'', CHR '' '']"

text \<open>DownloadRange: U+670D U+52A1 U+5668 U+4E0D U+652F U+6301 U+8303 U+56F4 U+8BF7 U+6C42 U+FF0C U+72B6 U+6001 U+7801, colon, space; the status follows.\<close>

definition msg_range_unsupported :: string where
  "msg_range_unsupported =
     [CHR 0xE6, CHR 0x9C, CHR 0x8D, CHR 0xE5, CHR 0x8A, CHR 0xA1, CHR 0xE5, CHR 0x99,
      CHR 0xA8, CHR 0xE4, CHR 0xB8, CHR 0x8D, CHR 0xE6, CHR 0x94, CHR 0xAF, CHR 0xE6,
      CHR 0x8C, CHR 0x81, CHR 0xE8, CHR 0x8C, CHR 0x83, CHR 0xE5, CHR 0x9B, CHR 0xB4,
      CHR 0xE8, CHR 0xAF, CHR 0xB7, CHR 0xE6, CHR 0xB1, CHR 0x82, CHR 0xEF, CHR 0xBC,
      CHR 0x8C, CHR 0xE7, CHR 0x8A, CHR 0xB6, CHR 0xE6, CHR 0x80, CHR 0x81, CHR 0xE7,
      CHR 0xA0, CHR 0x81, CHR '':'', CHR '' '']"

text \<open>isRangeNotSupportedError, first keyword: U+670D U+52A1 U+5668 U+4E0D U+652F U+6301 U+8303 U+56F4 U+8BF7 U+6C42.\<close>

definition kw_server_no_range :: string where
  "kw_server_no_range =
     [CHR 0xE6, CHR 0x9C, CHR 0x8D, CHR 0xE5, CHR 0x8A, CHR 0xA1, CHR 0xE5, CHR 0x99,
      CHR 0xA8, CHR 0xE4, CHR 0xB8, CHR 0x8D, CHR 0xE6, CHR 0x94, CHR 0xAF, CHR 0xE6,
      CHR 0x8C, CHR 0x81, CHR 0xE8, CHR 0x8C, CHR 0x83, CHR 0xE5, CHR 0x9B, CHR 0xB4,
      CHR 0xE8, CHR 0xAF, CHR 0xB7, CHR 0xE6, CHR 0xB1, CHR 0x82]"

text \<open>isRangeNotSupportedError, third keyword: U+4E0D U+652F U+6301 U+8303 U+56F4 U+8BF7 U+6C42.\<close>

definition kw_no_range :: string where
  "kw_no_range =
     [CHR 0xE4, CHR 0xB8, CHR 0x8D, CHR 0xE6, CHR 0x94, CHR 0xAF, CHR 0xE6, CHR 0x8C,
      CHR 0x81, CHR 0xE8, CHR 0x8C, CHR 0x83, CHR 0xE5, CHR 0x9B, CHR 0xB4, CHR 0xE8,
      CHR 0xAF, CHR 0xB7, CHR 0xE6, CHR 0xB1, CHR 0x82]"

text \<open>downloadWithChunks: U+52A0 U+8F7D U+4E0B U+8F7D U+72B6 U+6001 U+5931 U+8D25, colon, space.\<close>

definition msg_load_state_failed :: string where
  "msg_load_state_failed =
     [CHR 0xE5, CHR 0x8A, CHR 0xA0, CHR 0xE8, CHR 0xBD, CHR 0xBD, CHR 0xE4, CHR 0xB8,
      CHR 0x8B, CHR 0xE8, CHR 0xBD, CHR 0xBD, CHR 0xE7, CHR 0x8A, CHR 0xB6, CHR 0xE6,
      CHR 0x80, CHR 0x81, CHR 0xE5, CHR 0xA4, CHR 0xB1, CHR 0xE8, CHR 0xB4, CHR 0xA5,
      CHR '':'', CHR '' '']"

text \<open>downloadWithChunks: U+6253 U+5F00 U+4E34 U+65F6 U+6587 U+4EF6 U+5931 U+8D25, colon, space.\<close>

definition msg_open_temp_failed :: string where
  "msg_open_temp_failed =
     [CHR 0xE6, CHR 0x89, CHR 0x93, CHR 0xE5, CHR 0xBC, CHR 0x80, CHR 0xE4, CHR 0xB8,
      CHR 0xB4, CHR 0xE6, CHR 0x97, CHR 0xB6, CHR 0xE6, CHR 0x96, CHR 0x87, CHR 0xE4,
      CHR 0xBB, CHR 0xB6, CHR 0xE5, CHR 0xA4, CHR 0xB1, CHR 0xE8, CHR 0xB4, CHR 0xA5,
      CHR '':'', CHR '' '']"

text \<open>downloadWithChunks: U+521B U+5EFA U+4E34 U+65F6 U+6587 U+4EF6 U+5931 U+8D25, colon, space.\<close>

definition msg_create_temp_failed :: string where
  "msg_create_temp_failed =
     [CHR 0xE5, CHR 0x88, CHR 0x9B, CHR 0xE5, CHR 0xBB, CHR 0xBA, CHR 0xE4, CHR 0xB8,
      CHR 0xB4, CHR 0xE6, CHR 0x97, CHR 0xB6, CHR 0xE6, CHR 0x96, CHR 0x87, CHR 0xE4,
      CHR 0xBB, CHR 0xB6, CHR 0xE5, CHR 0xA4, CHR 0xB1, CHR 0xE8, CHR 0xB4, CHR 0xA5,
      CHR '':'', CHR '' '']"

text \<open>downloadWithChunks, size check: U+6587 U+4EF6 U+5927 U+5C0F U+4E0D U+5339 U+914D, colon, space, U+671F U+671B, space.\<close>

definition msg_size_mismatch_1 :: string where
  "msg_size_mismatch_1 =
     [CHR 0xE6, CHR 0x96, CHR 0x87, CHR 0xE4, CHR 0xBB, CHR 0xB6, CHR 0xE5, CHR 0xA4,
      CHR 0xA7, CHR 0xE5, CHR 0xB0, CHR 0x8F, CHR 0xE4, CHR 0xB8, CHR 0x8D, CHR 0xE5,
      CHR 0x8C, CHR 0xB9, CHR 0xE9, CHR 0x85, CHR 0x8D, CHR '':'', CHR '' '', CHR 0xE6,
      CHR 0x9C, CHR 0x9F, CHR 0xE6, CHR 0x9C, CHR 0x9B, CHR '' '']"

text \<open>space, U+5B57 U+8282, comma, space, U+5B9E U+9645, space.\<close>

definition msg_size_mismatch_2 :: string where
  "msg_size_mismatch_2 =
     [CHR '' '', CHR 0xE5, CHR 0xAD, CHR 0x97, CHR 0xE8, CHR 0x8A, CHR 0x82, CHR '','',
      CHR '' '', CHR 0xE5, CHR 0xAE, CHR 0x9E, CHR 0xE9, CHR 0x99, CHR 0x85, CHR '' '']"

text \<open>space, U+5B57 U+8282, space, parenthesis, U+5DEE U+5F02, colon, space.\<close>

definition msg_size_mismatch_3 :: string where
  "msg_size_mismatch_3 =
     [CHR '' '', CHR 0xE5, CHR 0xAD, CHR 0x97, CHR 0xE8, CHR 0x8A, CHR 0x82, CHR '' '',
      CHR ''('', CHR 0xE5, CHR 0xB7, CHR 0xAE, CHR 0xE5, CHR 0xBC, CHR 0x82, CHR '':'',
      CHR '' '']"

text \<open>space, U+5B57 U+8282, parenthesis.\<close>

definition msg_size_mismatch_4 :: string where
  "msg_size_mismatch_4 =
     [CHR '' '', CHR 0xE5, CHR 0xAD, CHR 0x97, CHR 0xE8, CHR 0x8A, CHR 0x82, CHR '')'']"

text \<open>downloadWithChunks: U+91CD U+547D U+540D U+6587 U+4EF6 U+5931 U+8D25, colon, space.\<close>

definition msg_rename_failed :: string where
  "msg_rename_failed =
     [CHR 0xE9, CHR 0x87, CHR 0x8D, CHR 0xE5, CHR 0x91, CHR 0xBD, CHR 0xE5, CHR 0x90,
      CHR 0x8D, CHR 0xE6, CHR 0x96, CHR 0x87, CHR 0xE4, CHR 0xBB, CHR 0xB6, CHR 0xE5,
      CHR 0xA4, CHR 0xB1, CHR 0xE8, CHR 0xB4, CHR 0xA5, CHR '':'', CHR '' '']"

text \<open>downloadChunks: U+5206 U+7247, space; the index follows.\<close>

definition msg_chunk_failed_1 :: string where
  "msg_chunk_failed_1 =
     [CHR 0xE5, CHR 0x88, CHR 0x86, CHR 0xE7, CHR 0x89, CHR 0x87, CHR '' '']"

text \<open>space, U+4E0B U+8F7D U+5931 U+8D25, colon, space.\<close>

definition msg_chunk_failed_2 :: string where
  "msg_chunk_failed_2 =
     [CHR '' '', CHR 0xE4, CHR 0xB8, CHR 0x8B, CHR 0xE8, CHR 0xBD, CHR 0xBD, CHR 0xE5,
      CHR 0xA4, CHR 0xB1, CHR 0xE8, CHR 0xB4, CHR 0xA5, CHR '':'', CHR '' '']"

text \<open>downloadChunk: U+5206 U+7247 U+5927 U+5C0F U+4E0D U+5339 U+914D, colon, space, U+671F U+671B, space.\<close>

definition msg_chunk_size_1 :: string where
  "msg_chunk_size_1 =
     [CHR 0xE5, CHR 0x88, CHR 0x86, CHR 0xE7, CHR 0x89, CHR 0x87, CHR 0xE5, CHR 0xA4,
      CHR 0xA7, CHR 0xE5, CHR 0xB0, CHR 0x8F, CHR 0xE4, CHR 0xB8, CHR 0x8D, CHR 0xE5,
      CHR 0x8C, CHR 0xB9, CHR 0xE9, CHR 0x85, CHR 0x8D, CHR '':'', CHR '' '', CHR 0xE6,
      CHR 0x9C, CHR 0x9F, CHR 0xE6, CHR 0x9C, CHR 0x9B, CHR '' '']"

text \<open>comma, space, U+5B9E U+9645, space.\<close>

definition msg_actual :: string where
  "msg_actual =
     [CHR '','', CHR '' '', CHR 0xE5, CHR 0xAE, CHR 0x9E, CHR 0xE9, CHR 0x99, CHR 0x85,
      CHR '' '']"

text \<open>downloadChunk, downloadSingle: U+5199 U+5165 U+6587 U+4EF6 U+5931 U+8D25, colon, space.\<close>

definition msg_write_failed :: string where
  "msg_write_failed =
     [CHR 0xE5, CHR 0x86, CHR 0x99, CHR 0xE5, CHR 0x85, CHR 0xA5, CHR 0xE6, CHR 0x96,
      CHR 0x87, CHR 0xE4, CHR 0xBB, CHR 0xB6, CHR 0xE5, CHR 0xA4, CHR 0xB1, CHR 0xE8,
      CHR 0xB4, CHR 0xA5, CHR '':'', CHR '' '']"

text \<open>downloadChunk: U+5206 U+7247 U+5199 U+5165 U+5927 U+5C0F U+4E0D U+5339 U+914D, colon, space, U+671F U+671B, space.\<close>

definition msg_chunk_written_1 :: string where
  "msg_chunk_written_1 =
     [CHR 0xE5, CHR 0x88, CHR 0x86, CHR 0xE7, CHR 0x89, CHR 0x87, CHR 0xE5, CHR 0x86,
      CHR 0x99, CHR 0xE5, CHR 0x85, CHR 0xA5, CHR 0xE5, CHR 0xA4, CHR 0xA7, CHR 0xE5,
      CHR 0xB0, CHR 0x8F, CHR 0xE4, CHR 0xB8, CHR 0x8D, CHR 0xE5, CHR 0x8C, CHR 0xB9,
      CHR 0xE9, CHR 0x85, CHR 0x8D, CHR '':'', CHR '' '', CHR 0xE6, CHR 0x9C, CHR 0x9F,
      CHR 0xE6, CHR 0x9C, CHR 0x9B, CHR '' '']"

text \<open>comma, space, U+5B9E U+9645 U+5199 U+5165, space.\<close>

definition msg_actual_written :: string where
  "msg_actual_written =
     [CHR '','', CHR '' '', CHR 0xE5, CHR 0xAE, CHR 0x9E, CHR 0xE9, CHR 0x99, CHR 0x85,
      CHR 0xE5, CHR 0x86, CHR 0x99, CHR 0xE5, CHR 0x85, CHR 0xA5, CHR '' '']"

text \<open>downloadSingle: U+83B7 U+53D6 U+6587 U+4EF6 U+5927 U+5C0F U+5931 U+8D25, colon, space.\<close>

definition msg_file_size_failed :: string where
  "msg_file_size_failed =
     [CHR 0xE8, CHR 0x8E, CHR 0xB7, CHR 0xE5, CHR 0x8F, CHR 0x96, CHR 0xE6, CHR 0x96,
      CHR 0x87, CHR 0xE4, CHR 0xBB, CHR 0xB6, CHR 0xE5, CHR 0xA4, CHR 0xA7, CHR 0xE5,
      CHR 0xB0, CHR 0x8F, CHR 0xE5, CHR 0xA4, CHR 0xB1, CHR 0xE8, CHR 0xB4, CHR 0xA5,
      CHR '':'', CHR '' '']"

text \<open>downloadSingle: U+4E0B U+8F7D U+5931 U+8D25, colon, space.\<close>

definition msg_download_failed :: string where
  "msg_download_failed =
     [CHR 0xE4, CHR 0xB8, CHR 0x8B, CHR 0xE8, CHR 0xBD, CHR 0xBD, CHR 0xE5, CHR 0xA4,
      CHR 0xB1, CHR 0xE8, CHR 0xB4, CHR 0xA5, CHR '':'', CHR '' '']"

text \<open>downloadSingle: U+6253 U+5F00 U+6587 U+4EF6 U+5931 U+8D25, colon, space.\<close>

definition msg_open_failed :: string where
  "msg_open_failed =
     [CHR 0xE6, CHR 0x89, CHR 0x93, CHR 0xE5, CHR 0xBC, CHR 0x80, CHR 0xE6, CHR 0x96,
      CHR 0x87, CHR 0xE4, CHR 0xBB, CHR 0xB6, CHR 0xE5, CHR 0xA4, CHR 0xB1, CHR 0xE8,
      CHR 0xB4, CHR 0xA5, CHR '':'', CHR '' '']"

text \<open>downloadSingle: U+521B U+5EFA U+6587 U+4EF6 U+5931 U+8D25, colon, space.\<close>

definition msg_create_failed :: string where
  "msg_create_failed =
     [CHR 0xE5, CHR 0x88, CHR 0x9B, CHR 0xE5, CHR 0xBB, CHR 0xBA, CHR 0xE6, CHR 0x96,
      CHR 0x87, CHR 0xE4, CHR 0xBB, CHR 0xB6, CHR 0xE5, CHR 0xA4, CHR 0xB1, CHR 0xE8,
      CHR 0xB4, CHR 0xA5, CHR '':'', CHR '' '']"

text \<open>downloadSingle: U+521B U+5EFA gzip U+89E3 U+538B U+5668 U+5931 U+8D25, colon, space.\<close>

definition msg_gzip_failed :: string where
  "msg_gzip_failed =
     [CHR 0xE5, CHR 0x88, CHR 0x9B, CHR 0xE5, CHR 0xBB, CHR 0xBA, CHR ''g'', CHR ''z'',
      CHR ''i'', CHR ''p'', CHR 0xE8, CHR 0xA7, CHR 0xA3, CHR 0xE5, CHR 0x8E, CHR 0x8B,
      CHR 0xE5, CHR 0x99, CHR 0xA8, CHR 0xE5, CHR 0xA4, CHR 0xB1, CHR 0xE8, CHR 0xB4,
      CHR 0xA5, CHR '':'', CHR '' '']"

text \<open>downloadSingle: U+521B U+5EFA zlib U+89E3 U+538B U+5668 U+5931 U+8D25, colon, space.\<close>

definition msg_zlib_failed :: string where
  "msg_zlib_failed =
     [CHR 0xE5, CHR 0x88, CHR 0x9B, CHR 0xE5, CHR 0xBB, CHR 0xBA, CHR ''z'', CHR ''l'',
      CHR ''i'', CHR ''b'', CHR 0xE8, CHR 0xA7, CHR 0xA3, CHR 0xE5, CHR 0x8E, CHR 0x8B,
      CHR 0xE5, CHR 0x99, CHR 0xA8, CHR 0xE5, CHR 0xA4, CHR 0xB1, CHR 0xE8, CHR 0xB4,
      CHR 0xA5, CHR '':'', CHR '' '']"

text \<open>downloadSingle: U+4E0B U+8F7D U+5927 U+5C0F U+4E0D U+5339 U+914D, colon, space, U+671F U+671B, space.\<close>

definition msg_download_size_1 :: string where
  "msg_download_size_1 =
     [CHR 0xE4, CHR 0xB8, CHR 0x8B, CHR 0xE8, CHR 0xBD, CHR 0xBD, CHR 0xE5, CHR 0xA4,
      CHR 0xA7, CHR 0xE5, CHR 0xB0, CHR 0x8F, CHR 0xE4, CHR 0xB8, CHR 0x8D, CHR 0xE5,
      CHR 0x8C, CHR 0xB9, CHR 0xE9, CHR 0x85, CHR 0x8D, CHR '':'', CHR '' '', CHR 0xE6,
      CHR 0x9C, CHR 0x9F, CHR 0xE6, CHR 0x9C, CHR 0x9B, CHR '' '']"

section \<open>The HTTP client (package http of the repository)\<close>

text \<open>
  \<open>strconv.ParseInt(s, 10, 64)\<close> with its error dropped, as \<open>parseResponse\<close> calls it: 0 on
  a syntax error, the nearest bound of \<open>int64\<close> on a range error.
\<close>

definition is_digit :: "char \<Rightarrow> bool" where
  "is_digit c \<longleftrightarrow> c \<in> set ''0123456789''"

definition digits_value :: "string \<Rightarrow> nat" where
  "digits_value ds = foldl (\<lambda>acc c. 10 * acc + (of_char c - 48)) 0 ds"

definition ParseInt_dropping_error :: "string \<Rightarrow> int" where
  "ParseInt_dropping_error s =
     (let neg = (case s of c # _ \<Rightarrow> c = CHR ''-'' | [] \<Rightarrow> False);
          ds = (case s of c # r \<Rightarrow> (if c = CHR ''-'' \<or> c = CHR ''+'' then r else s) | [] \<Rightarrow> s);
          v = int (digits_value ds)
      in if ds = [] \<or> \<not> list_all is_digit ds then 0
         else if neg then (if v > 2 ^ 63 then - (2 ^ 63) else - v)
         else (if v > 2 ^ 63 - 1 then 2 ^ 63 - 1 else v))"

definition parseResponse :: "http_response \<Rightarrow> HTTPResponse" where
  "parseResponse resp =
     \<lparr>StatusCode = resp_StatusCode resp,
      ContentLength = ParseInt_dropping_error (resp_Header resp ''Content-Length''),
      ContentType = resp_Header resp ''Content-Type'',
      ETag = resp_Header resp ''ETag'',
      AcceptRanges = (resp_Header resp ''Accept-Ranges'' = ''bytes'')\<rparr>"

text \<open>\<open>Client.Head\<close> and \<open>Client.Get\<close>; a request that was built is recorded as sent.\<close>

definition Head :: "env \<Rightarrow> world \<Rightarrow> string \<Rightarrow> (string + HTTPResponse) \<times> world" where
  "Head e w urlStr =
     (let req = \<lparr>req_verb = ''HEAD'', req_url = urlStr, req_range = ''''\<rparr> in
      case server e (sent w) req of
        NewRequestError m \<Rightarrow> (Inl (msg_head_create_failed @ m), w)
      | DoError m \<Rightarrow> (Inl (msg_head_do_failed @ m), w\<lparr>sent := sent w @ [req]\<rparr>)
      | Response resp \<Rightarrow> (Inr (parseResponse resp), w\<lparr>sent := sent w @ [req]\<rparr>))"

definition Get :: "env \<Rightarrow> world \<Rightarrow> string \<Rightarrow> string \<Rightarrow> (string + http_response) \<times> world" where
  "Get e w urlStr rangeHeader =
     (let req = \<lparr>req_verb = ''GET'', req_url = urlStr, req_range = rangeHeader\<rparr> in
      case server e (sent w) req of
        NewRequestError m \<Rightarrow> (Inl (msg_get_create_failed @ m), w)
      | DoError m \<Rightarrow> (Inl (msg_get_do_failed @ m), w\<lparr>sent := sent w @ [req]\<rparr>)
      | Response resp \<Rightarrow> (Inr resp, w\<lparr>sent := sent w @ [req]\<rparr>))"

text \<open>
  \<open>Client.DownloadRange\<close>: a ranged GET; any status but 206 is an error whose message
  starts with \<open>msg_range_unsupported\<close> and ends with the status.  On success the caller
  gets the response (its body and its \<open>ContentLength\<close>).
\<close>

definition range_header :: "int \<Rightarrow> int \<Rightarrow> string" where
  "range_header start end0 = ''bytes='' @ show_int start @ ''-'' @ show_int end0"

definition DownloadRange ::
    "env \<Rightarrow> world \<Rightarrow> string \<Rightarrow> int \<Rightarrow> int \<Rightarrow> (string + http_response) \<times> world" where
  "DownloadRange e w urlStr start end0 =
     (case Get e w urlStr (range_header start end0) of
        (Inl err, w') \<Rightarrow> (Inl err, w')
      | (Inr resp, w') \<Rightarrow>
          (if resp_StatusCode resp \<noteq> 206
           then (Inl (msg_range_unsupported @ show_int (resp_StatusCode resp)), w')
           else (Inr resp, w')))"

text \<open>\<open>Client.GetFileNameFromURL\<close>: the last segment of the path of the URL.\<close>

definition last_segment :: "string \<Rightarrow> string" where
  "last_segment p = rev (takeWhile (\<lambda>c. c \<noteq> CHR ''/'') (rev p))"

definition GetFileNameFromURL :: "env \<Rightarrow> string \<Rightarrow> string" where
  "GetFileNameFromURL e urlStr =
     (case url_Path e urlStr of
        None \<Rightarrow> ''download''
      | Some p \<Rightarrow>
          (if p = '''' \<or> p = ''/'' then ''index.html''
           else if last_segment p = '''' then ''index.html''
           else last_segment p))"

section \<open>The chunk downloader (package chunk): classification of errors\<close>

text \<open>
  \<open>isRangeNotSupportedError\<close> looks for three keywords in the message of the error.  The
  model passes \<open>None\<close> for \<open>nil\<close>.
\<close>

definition isRangeNotSupportedError :: "string option \<Rightarrow> bool" where
  "isRangeNotSupportedError err =
     (case err of
        None \<Rightarrow> False
      | Some errStr \<Rightarrow>
          Contains errStr kw_server_no_range
        \<or> Contains errStr ''range not supported''
        \<or> Contains errStr kw_no_range)"

section \<open>The resume state (saveDownloadState, loadDownloadState, deleteStateFile)\<close>

definition createStateFileName :: "string \<Rightarrow> string" where
  "createStateFileName outputPath = outputPath @ ''.wget2go.state''"

text \<open>
  \<open>json.MarshalIndent(states, "", "  ")\<close> on a slice of \<open>ChunkState\<close>: a \<open>nil\<close> slice (no
  chunk was appended) encodes as \<open>null\<close>, any other as an array with one object per chunk,
  indented by two spaces, the keys in the order of the fields.
\<close>

definition json_field :: "string \<Rightarrow> int \<Rightarrow> bool \<Rightarrow> string" where
  "json_field name v comma =
     ''    '' @ [CHR 0x22] @ name @ [CHR 0x22] @ '': '' @ show_int v
       @ (if comma then '','' else '''') @ [CHR 0x0A]"

definition json_ChunkState :: "ChunkState \<Rightarrow> string" where
  "json_ChunkState st =
     ''  {'' @ [CHR 0x0A]
       @ json_field ''index'' (st_index st) True
       @ json_field ''start'' (st_start st) True
       @ json_field ''end'' (st_end st) True
       @ json_field ''size'' (st_size st) True
       @ json_field ''completed'' (st_completed st) True
       @ json_field ''status'' (st_status st) False
       @ ''  }''"

fun join_with :: "string \<Rightarrow> string list \<Rightarrow> string" where
  "join_with sep [] = []"
| "join_with sep [x] = x"
| "join_with sep (x # y # ys) = x @ sep @ join_with sep (y # ys)"

definition json_MarshalIndent :: "ChunkState list \<Rightarrow> string" where
  "json_MarshalIndent states =
     (if states = [] then ''null''
      else ''['' @ [CHR 0x0A] @ join_with ('','' @ [CHR 0x0A]) (map json_ChunkState states)
             @ [CHR 0x0A] @ '']'')"

definition chunk_state :: "Chunk \<Rightarrow> ChunkState" where
  "chunk_state c =
     \<lparr>st_index = Index_chunk c, st_start = Start c, st_end = End c, st_size = Size c,
      st_completed = Completed c, st_status = Status c\<rparr>"

text \<open>
  \<open>saveDownloadState\<close>: the records of the chunks, encoded, written with \<open>os.WriteFile\<close>
  to the state file itself.  \<open>saveDownloadState_steps\<close> lists the states of the file
  system on the way.
\<close>

definition saveDownloadState_steps ::
    "env \<Rightarrow> world \<Rightarrow> string \<Rightarrow> Chunk list \<Rightarrow> (string + unit) \<times> world list" where
  "saveDownloadState_steps e w outputPath chunks =
     os_WriteFile_steps e w (createStateFileName outputPath)
       (json_MarshalIndent (map chunk_state chunks))"

definition saveDownloadState ::
    "env \<Rightarrow> world \<Rightarrow> string \<Rightarrow> Chunk list \<Rightarrow> (string + unit) \<times> world" where
  "saveDownloadState e w outputPath chunks =
     os_WriteFile e w (createStateFileName outputPath)
       (json_MarshalIndent (map chunk_state chunks))"

text \<open>
  \<open>loadDownloadState\<close>: \<open>stateMap\<close> keeps, for an index, the last record with that index.
\<close>

definition stateMap_lookup :: "ChunkState list \<Rightarrow> int \<Rightarrow> ChunkState option" where
  "stateMap_lookup states i = find (\<lambda>st. st_index st = i) (rev states)"

definition restore_chunk :: "ChunkState list \<Rightarrow> Chunk \<Rightarrow> Chunk" where
  "restore_chunk states c =
     (case stateMap_lookup states (Index_chunk c) of
        None \<Rightarrow> c
      | Some st \<Rightarrow>
          (if Start c = st_start st \<and> End c = st_end st
           then c\<lparr>Completed := st_completed st, Status := st_status st\<rparr>
           else c\<lparr>Completed := 0, Status := TaskPending\<rparr>))"

definition loadDownloadState ::
    "env \<Rightarrow> world \<Rightarrow> string \<Rightarrow> Chunk list \<Rightarrow> (string + bool) \<times> Chunk list" where
  "loadDownloadState e w outputPath chunks =
     (if \<not> FileExists e w (createStateFileName outputPath) then (Inr False, chunks)
      else (case os_ReadFile e w (createStateFileName outputPath) of
              Inl err \<Rightarrow> (Inl err, chunks)
            | Inr content \<Rightarrow>
                (case json_Unmarshal e content of
                   Inl err \<Rightarrow> (Inl err, chunks)
                 | Inr states \<Rightarrow> (Inr True, map (restore_chunk states) chunks))))"

text \<open>\<open>deleteStateFile\<close> returns the error of \<open>os.Remove\<close>; its callers drop it.\<close>

definition deleteStateFile :: "env \<Rightarrow> world \<Rightarrow> string \<Rightarrow> string option \<times> world" where
  "deleteStateFile e w outputPath =
     (if FileExists e w (createStateFileName outputPath)
      then (case os_Remove e w (createStateFileName outputPath) of
              Inl err \<Rightarrow> (Some err, w)
            | Inr w' \<Rightarrow> (None, w'))
      else (None, w))"

section \<open>Fetching the chunks (downloadChunk, downloadChunks)\<close>

text \<open>
  An open file: its path and whether it was opened with \<open>O_APPEND\<close>.  \<open>File.WriteAt\<close> of
  the standard library refuses a file opened with \<open>O_APPEND\<close> and a negative offset.
\<close>

record file_handle =
  h_path :: string
  h_append :: bool

definition File_WriteAt ::
    "env \<Rightarrow> world \<Rightarrow> file_handle \<Rightarrow> string \<Rightarrow> int \<Rightarrow> (string + nat) \<times> world" where
  "File_WriteAt e w f content off =
     (if h_append f
      then (Inl ''os: invalid use of WriteAt on file opened with O_APPEND'', w)
      else if off < 0
      then (Inl (path_error ''writeat'' (h_path f) ''negative offset''), w)
      else (case refusal e FsWrite (h_path f) of
              Some cause \<Rightarrow> (Inl (path_error ''write'' (h_path f) cause), w)
            | None \<Rightarrow>
                (case files w (h_path f) of
                   None \<Rightarrow> (Inr (length content), w)
                 | Some old \<Rightarrow>
                     (Inr (length content),
                      w\<lparr>files := (files w)(h_path f \<mapsto> write_at old (nat off) content)\<rparr>))))"

text \<open>
  \<open>io.Copy\<close> into the \<open>writeAtWriter\<close>: the bytes of the body are written at the offset;
  the result is the error, if any, and the number of bytes written.  An empty body
  makes no write.  (The standard library copies in buffers of 32 KiB; the model writes
  the body in one piece.)
\<close>

definition copy_at ::
    "env \<Rightarrow> world \<Rightarrow> file_handle \<Rightarrow> int \<Rightarrow> http_response \<Rightarrow> (string option \<times> nat) \<times> world" where
  "copy_at e w f off resp =
     (if resp_Body resp = [] then ((resp_BodyError resp, 0), w)
      else (case File_WriteAt e w f (resp_Body resp) off of
              (Inl err, w') \<Rightarrow> ((Some err, 0), w')
            | (Inr n, w') \<Rightarrow> ((resp_BodyError resp, n), w')))"

definition downloadChunk ::
    "env \<Rightarrow> world \<Rightarrow> string \<Rightarrow> file_handle \<Rightarrow> Chunk \<Rightarrow> (string option \<times> Chunk) \<times> world" where
  "downloadChunk e w urlStr f c =
     (if Status c = TaskCompleted then ((None, c), w)
      else let start = Start c + Completed c; end0 = End c in
        if start > end0 then ((None, c\<lparr>Status := TaskCompleted\<rparr>), w)
        else (case DownloadRange e w urlStr start end0 of
                (Inl err, w1) \<Rightarrow> ((Some err, c), w1)
              | (Inr resp, w1) \<Rightarrow>
                  let expectedSize = end0 - start + 1 in
                  if resp_ContentLength resp \<noteq> expectedSize
                  then ((Some (msg_chunk_size_1 @ show_int expectedSize @ msg_actual
                                 @ show_int (resp_ContentLength resp)), c), w1)
                  else (case copy_at e w1 f start resp of
                          ((copyErr, written), w2) \<Rightarrow>
                            let c' = c\<lparr>Completed := Completed c + int written\<rparr> in
                            (case copyErr of
                               Some err \<Rightarrow> ((Some (msg_write_failed @ err), c'), w2)
                             | None \<Rightarrow>
                                 if int written \<noteq> expectedSize
                                 then ((Some (msg_chunk_written_1 @ show_int expectedSize
                                                @ msg_actual_written @ show_int (int written)), c'), w2)
                                 else ((None, c'\<lparr>Status := TaskCompleted\<rparr>), w2)))))"

text \<open>
  \<open>downloadChunks\<close> starts one goroutine per chunk and waits for all of them.  The model
  runs them one after the other in the order of the slice, one of the schedules the
  semaphore allows.  A failed chunk sends its error to the channel and is marked
  \<open>TaskFailed\<close>; a finished chunk is marked \<open>TaskCompleted\<close> and the state is saved (an
  error of the save is only printed).  The result is the first error sent, if any.
\<close>

fun downloadChunks_from ::
    "env \<Rightarrow> string \<Rightarrow> file_handle \<Rightarrow> string \<Rightarrow> nat list
      \<Rightarrow> world \<times> Chunk list \<times> string list \<Rightarrow> world \<times> Chunk list \<times> string list" where
  "downloadChunks_from e urlStr f outputPath [] s = s"
| "downloadChunks_from e urlStr f outputPath (i # rest) (w, chunks, errs) =
     (case downloadChunk e w urlStr f (chunks ! i) of
        ((Some err, c), w1) \<Rightarrow>
          downloadChunks_from e urlStr f outputPath rest
            (w1, chunks[i := c\<lparr>Status := TaskFailed, Error := Some err\<rparr>],
             errs @ [msg_chunk_failed_1 @ show_int (Index_chunk c) @ msg_chunk_failed_2 @ err])
      | ((None, c), w1) \<Rightarrow>
          (let chunks1 = chunks[i := c\<lparr>Status := TaskCompleted\<rparr>]
           in downloadChunks_from e urlStr f outputPath rest
                (snd (saveDownloadState e w1 outputPath chunks1), chunks1, errs)))"

definition downloadChunks ::
    "env \<Rightarrow> world \<Rightarrow> string \<Rightarrow> file_handle \<Rightarrow> Chunk list \<Rightarrow> string
      \<Rightarrow> (string option \<times> Chunk list) \<times> world" where
  "downloadChunks e w urlStr f chunks outputPath =
     (case downloadChunks_from e urlStr f outputPath [0..<length chunks] (w, chunks, []) of
        (w', chunks', errs) \<Rightarrow>
          ((case errs of [] \<Rightarrow> None | err # _ \<Rightarrow> Some err, chunks'), w'))"

section \<open>The chunked download (downloadWithChunks)\<close>

text \<open>
  The middle part of \<open>downloadWithChunks\<close>: the temporary file \<open>outputPath + ".tmp"\<close> is
  opened for appending when a download is resumed (\<open>Continue\<close>, the temporary file exists
  and a state was loaded), else it is created afresh after the stale state file was
  deleted.  The errors of \<open>os.Remove\<close> and \<open>deleteStateFile\<close> are dropped, as in the source.
\<close>

definition downloadWithChunks_open ::
    "env \<Rightarrow> Config \<Rightarrow> world \<Rightarrow> string \<Rightarrow> Chunk list
      \<Rightarrow> (string + file_handle \<times> Chunk list) \<times> world" where
  "downloadWithChunks_open e cfg w outputPath chunks =
     (let tempPath = outputPath @ ''.tmp'' in
      if Continue cfg \<and> FileExists e w tempPath then
        (case loadDownloadState e w outputPath chunks of
           (Inl err, _) \<Rightarrow> (Inl (msg_load_state_failed @ err), w)
         | (Inr stateLoaded, chunks') \<Rightarrow>
             if stateLoaded then
               (case os_OpenFile_append e w tempPath of
                  Inl err \<Rightarrow> (Inl (msg_open_temp_failed @ err), w)
                | Inr _ \<Rightarrow>
                    (case os_Stat e w tempPath of
                       Inl err \<Rightarrow> (Inl (msg_get_info_failed @ err), w)
                     | Inr _ \<Rightarrow> (Inr (\<lparr>h_path = tempPath, h_append = True\<rparr>, chunks'), w)))
             else
               (let w1 = (case os_Remove e w tempPath of Inl _ \<Rightarrow> w | Inr w' \<Rightarrow> w');
                    w2 = snd (deleteStateFile e w1 outputPath)
                in case os_Create e w2 tempPath of
                     Inl err \<Rightarrow> (Inl (msg_create_temp_failed @ err), w2)
                   | Inr w3 \<Rightarrow> (Inr (\<lparr>h_path = tempPath, h_append = False\<rparr>, chunks'), w3)))
      else
        (let w1 = snd (deleteStateFile e w outputPath)
         in case os_Create e w1 tempPath of
              Inl err \<Rightarrow> (Inl (msg_create_temp_failed @ err), w1)
            | Inr w2 \<Rightarrow> (Inr (\<lparr>h_path = tempPath, h_append = False\<rparr>, chunks), w2)))"

text \<open>
  The last part of \<open>downloadWithChunks\<close>, run when \<open>downloadChunks\<close> returned no error: the
  size of the temporary file is compared with the \<open>ContentLength\<close> of the \<open>HEAD\<close> request;
  then the state file is deleted (the error of \<open>deleteStateFile\<close> is dropped) and the
  temporary file is renamed to the output path.
\<close>

definition size_mismatch :: "int \<Rightarrow> int \<Rightarrow> string" where
  "size_mismatch expectedSize actualSize =
     msg_size_mismatch_1 @ show_int expectedSize @ msg_size_mismatch_2 @ show_int actualSize
       @ msg_size_mismatch_3 @ show_int (expectedSize - actualSize) @ msg_size_mismatch_4"

definition downloadWithChunks_finish ::
    "env \<Rightarrow> world \<Rightarrow> string \<Rightarrow> int \<Rightarrow> unit go_result \<times> world" where
  "downloadWithChunks_finish e w outputPath contentLength =
     (let tempPath = outputPath @ ''.tmp'' in
      case os_Stat e w tempPath of
        Inl err \<Rightarrow> (Err (msg_get_info_failed @ err), w)
      | Inr actualSize \<Rightarrow>
          if actualSize \<noteq> contentLength
          then (Err (size_mismatch contentLength actualSize), w)
          else (let w1 = snd (deleteStateFile e w outputPath)
                in case os_Rename e w1 tempPath outputPath of
                     Inl err \<Rightarrow> (Err (msg_rename_failed @ err), w1)
                   | Inr w2 \<Rightarrow> (Ok (), w2)))"

definition downloadWithChunks ::
    "env \<Rightarrow> Config \<Rightarrow> world \<Rightarrow> string \<Rightarrow> string \<Rightarrow> HTTPResponse \<Rightarrow> unit go_result \<times> world" where
  "downloadWithChunks e cfg w urlStr outputPath fileInfo =
     (case chunk_plan (ContentLength fileInfo) (ChunkSize cfg) (MaxThreads cfg) of
        Panic m \<Rightarrow> (Panic m, w)
      | Err m \<Rightarrow> (Err m, w)
      | Ok chunks \<Rightarrow>
          (case downloadWithChunks_open e cfg w outputPath chunks of
             (Inl err, w1) \<Rightarrow> (Err err, w1)
           | (Inr (tempFile, chunks1), w1) \<Rightarrow>
               (case downloadChunks e w1 urlStr tempFile chunks1 outputPath of
                  ((Some err, _), w2) \<Rightarrow> (Err err, w2)
                | ((None, _), w2) \<Rightarrow>
                    downloadWithChunks_finish e w2 outputPath (ContentLength fileInfo))))"

section \<open>The single-stream download (downloadSingle)\<close>

text \<open>
  \<open>strings.ToLower\<close> on ASCII strings, where it lowers the letters \<open>A\<close> to \<open>Z\<close>.  On a
  string with bytes outside ASCII Go lowers by Unicode code point and replaces invalid
  UTF-8; that part is not modelled (the model leaves such bytes as they are), and the
  theorems that depend on \<open>ToLower\<close> are stated for ASCII strings.
\<close>

definition lower_char :: "char \<Rightarrow> char" where
  "lower_char c =
     (case map_of (zip ''ABCDEFGHIJKLMNOPQRSTUVWXYZ'' ''abcdefghijklmnopqrstuvwxyz'') c of
        Some l \<Rightarrow> l
      | None \<Rightarrow> c)"

definition ToLower :: "string \<Rightarrow> string" where
  "ToLower s = map lower_char s"

text \<open>
  \<open>io.Copy\<close> to the output file: the file was opened with \<open>O_APPEND\<close> or was just
  created empty, so the bytes are appended to its content.  An empty stream makes no
  write.  The result is the error, if any, and the number of bytes copied.
\<close>

definition copy_append ::
    "env \<Rightarrow> world \<Rightarrow> string \<Rightarrow> string \<Rightarrow> string option \<Rightarrow> (string option \<times> nat) \<times> world" where
  "copy_append e w p content readErr =
     (if content = [] then ((readErr, 0), w)
      else (case refusal e FsWrite p of
              Some cause \<Rightarrow> ((Some (path_error ''write'' p cause), 0), w)
            | None \<Rightarrow>
                (case files w p of
                   None \<Rightarrow> ((readErr, length content), w)
                 | Some old \<Rightarrow>
                     ((readErr, length content),
                      w\<lparr>files := (files w)(p \<mapsto> old @ content)\<rparr>))))"

text \<open>
  The stream that \<open>downloadSingle\<close> copies, by \<open>Content-Encoding\<close>: \<open>Inl\<close> is the error of
  creating the decompressor, else the bytes, the error that ends the stream early (if
  any), and whether the content was decompressed.
\<close>

definition body_stream ::
    "env \<Rightarrow> http_response \<Rightarrow> string + (string \<times> string option \<times> bool)" where
  "body_stream e resp =
     (let enc = ToLower (resp_Header resp ''Content-Encoding'') in
      if enc = ''gzip'' \<or> enc = ''x-gzip'' then
        (case gzip_decode e (resp_Body resp) of
           Inl err \<Rightarrow> Inl (msg_gzip_failed @ err)
         | Inr (content, err) \<Rightarrow> Inr (content, err, True))
      else if enc = ''deflate'' then
        (case zlib_decode e (resp_Body resp) of
           Inl err \<Rightarrow> Inl (msg_zlib_failed @ err)
         | Inr (content, err) \<Rightarrow> Inr (content, err, True))
      else Inr (resp_Body resp, resp_BodyError resp, False))"

text \<open>
  The first part of \<open>downloadSingle\<close>: with \<open>Continue\<close> and an existing output file of
  positive size the request carries \<open>Range: bytes=<size>-\<close>.
\<close>

definition downloadSingle_range :: "env \<Rightarrow> Config \<Rightarrow> world \<Rightarrow> string \<Rightarrow> string + int \<times> string" where
  "downloadSingle_range e cfg w outputPath =
     (if Continue cfg \<and> FileExists e w outputPath then
        (case GetFileSize e w outputPath of
           Inl err \<Rightarrow> Inl (msg_file_size_failed @ err)
         | Inr fileSize \<Rightarrow>
             Inr (fileSize, if fileSize > 0 then ''bytes='' @ show_int fileSize @ ''-'' else ''''))
      else Inr (0, ''''))"

text \<open>
  The check of the status: after a ranged request 206 keeps the size of the file, 200
  resets it to 0 (the file will be overwritten), anything else is an error; without a
  range only 200 is accepted.  The result is the \<open>fileSize\<close> that decides how the file
  is opened.
\<close>

definition downloadSingle_status :: "string \<Rightarrow> int \<Rightarrow> int \<Rightarrow> string + int" where
  "downloadSingle_status rangeHeader fileSize status =
     (if rangeHeader \<noteq> '''' then
        (if status = 206 then Inr fileSize
         else if status = 200 then Inr 0
         else Inl (msg_http_error @ show_int status))
      else (if status \<noteq> 200 then Inl (msg_http_error @ show_int status) else Inr fileSize))"

text \<open>
  The second part of \<open>downloadSingle\<close>, from the check of the status on: the file is
  opened for appending or created, the stream is copied, and the number of bytes copied
  is compared with \<open>ContentLength\<close> when that is positive and nothing was decompressed.
\<close>

definition downloadSingle_response ::
    "env \<Rightarrow> world \<Rightarrow> string \<Rightarrow> string \<Rightarrow> int \<Rightarrow> http_response \<Rightarrow> unit go_result \<times> world" where
  "downloadSingle_response e w1 outputPath rangeHeader fileSize0 resp =
     (case downloadSingle_status rangeHeader fileSize0 (resp_StatusCode resp) of
        Inl err \<Rightarrow> (Err err, w1)
      | Inr fileSize \<Rightarrow>
          (case (if fileSize > 0
                 then (case os_OpenFile_append e w1 outputPath of
                         Inl err \<Rightarrow> Inl (msg_open_failed @ err)
                       | Inr _ \<Rightarrow> Inr w1)
                 else (case os_Create e w1 outputPath of
                         Inl err \<Rightarrow> Inl (msg_create_failed @ err)
                       | Inr w' \<Rightarrow> Inr w')) of
             Inl err \<Rightarrow> (Err err, w1)
           | Inr w2 \<Rightarrow>
               (case body_stream e resp of
                  Inl err \<Rightarrow> (Err err, w2)
                | Inr (content, readErr, isCompressed) \<Rightarrow>
                    (case copy_append e w2 outputPath content readErr of
                       ((Some err, _), w3) \<Rightarrow> (Err (msg_write_failed @ err), w3)
                     | ((None, copied), w3) \<Rightarrow>
                         if resp_ContentLength resp > 0 \<and> \<not> isCompressed
                            \<and> int copied \<noteq> resp_ContentLength resp
                         then (Err (msg_download_size_1
                                      @ show_int (resp_ContentLength resp) @ msg_actual
                                      @ show_int (int copied)), w3)
                         else (Ok (), w3)))))"

definition downloadSingle ::
    "env \<Rightarrow> Config \<Rightarrow> world \<Rightarrow> string \<Rightarrow> string \<Rightarrow> unit go_result \<times> world" where
  "downloadSingle e cfg w urlStr outputPath =
     (case downloadSingle_range e cfg w outputPath of
        Inl err \<Rightarrow> (Err err, w)
      | Inr (fileSize0, rangeHeader) \<Rightarrow>
          (case Get e w urlStr rangeHeader of
             (Inl err, w1) \<Rightarrow> (Err (msg_download_failed @ err), w1)
           | (Inr resp, w1) \<Rightarrow>
               downloadSingle_response e w1 outputPath rangeHeader fileSize0 resp))"

text \<open>A response whose \<open>Content-Encoding\<close> names no compression the code decodes.\<close>

definition identity_encoded :: "http_response \<Rightarrow> bool" where
  "identity_encoded resp \<longleftrightarrow>
     ToLower (resp_Header resp ''Content-Encoding'') \<noteq> ''gzip''
   \<and> ToLower (resp_Header resp ''Content-Encoding'') \<noteq> ''x-gzip''
   \<and> ToLower (resp_Header resp ''Content-Encoding'') \<noteq> ''deflate''"

section \<open>Download: the choice between the chunked and the single-stream path\<close>

definition getFileInfo :: "env \<Rightarrow> world \<Rightarrow> string \<Rightarrow> (string + HTTPResponse) \<times> world" where
  "getFileInfo e w urlStr =
     (case Head e w urlStr of
        (Inl err, w') \<Rightarrow> (Inl err, w')
      | (Inr resp, w') \<Rightarrow>
          (if StatusCode resp \<noteq> 200 then (Inl (msg_http_error @ show_int (StatusCode resp)), w')
           else if ContentLength resp \<le> 0 then (Inl msg_no_size, w')
           else (Inr resp, w')))"

definition getOutputPath :: "env \<Rightarrow> Config \<Rightarrow> string \<Rightarrow> string \<Rightarrow> string" where
  "getOutputPath e cfg outputPath urlStr =
     (if outputPath \<noteq> '''' then outputPath
      else if OutputFile cfg \<noteq> '''' then OutputFile cfg
      else if OutputDocument cfg \<noteq> '''' then OutputDocument cfg
      else GetFileNameFromURL e urlStr)"

definition shouldUseChunks :: "Config \<Rightarrow> HTTPResponse \<Rightarrow> bool" where
  "shouldUseChunks cfg fileInfo \<longleftrightarrow>
     ChunkSize cfg > 0 \<and> ContentLength fileInfo > ChunkSize cfg \<and> AcceptRanges fileInfo"

text \<open>
  The two places where \<open>Download\<close> falls back: after the probe and after the chunked
  attempt.  \<open>Download_chunked\<close> is the attempt with its fallback.
\<close>

definition Download_chunked ::
    "env \<Rightarrow> Config \<Rightarrow> world \<Rightarrow> string \<Rightarrow> string \<Rightarrow> HTTPResponse \<Rightarrow> unit go_result \<times> world" where
  "Download_chunked e cfg w urlStr finalOutputPath fileInfo =
     (case downloadWithChunks e cfg w urlStr finalOutputPath fileInfo of
        (Err err, w1) \<Rightarrow>
          (if isRangeNotSupportedError (Some err)
           then downloadSingle e cfg w1 urlStr finalOutputPath
           else (Err err, w1))
      | (r, w1) \<Rightarrow> (r, w1))"

definition Download ::
    "env \<Rightarrow> Config \<Rightarrow> world \<Rightarrow> string \<Rightarrow> string \<Rightarrow> unit go_result \<times> world" where
  "Download e cfg w urlStr outputPath =
     (case getFileInfo e w urlStr of
        (Inl err, w0) \<Rightarrow> (Err (msg_get_info_failed @ err), w0)
      | (Inr fileInfo, w0) \<Rightarrow>
          (let finalOutputPath = getOutputPath e cfg outputPath urlStr in
           if shouldUseChunks cfg fileInfo then
             (case DownloadRange e w0 urlStr 0 0 of
                (Inl rangeErr, w1) \<Rightarrow>
                  (if isRangeNotSupportedError (Some rangeErr)
                   then downloadSingle e cfg w1 urlStr finalOutputPath
                   else Download_chunked e cfg w1 urlStr finalOutputPath fileInfo)
              | (Inr _, w1) \<Rightarrow> Download_chunked e cfg w1 urlStr finalOutputPath fileInfo)
           else downloadSingle e cfg w0 urlStr finalOutputPath))"

section \<open>Example data for the closed theorems\<close>

text \<open>
  An environment in which the operating system refuses nothing and no server answers,
  and a finished chunk of ten bytes.
\<close>

definition quiet_env :: env where
  "quiet_env =
     \<lparr>refusal = (\<lambda>_ _. None),
      server = (\<lambda>_ _. DoError ''connection refused''),
      url_Path = (\<lambda>_. None),
      gzip_decode = (\<lambda>_. Inl ''gzip: invalid header''),
      zlib_decode = (\<lambda>_. Inl ''zlib: invalid header''),
      json_Unmarshal = (\<lambda>_. Inl ''unexpected end of JSON input'')\<rparr>"

definition one_chunk :: Chunk where
  "one_chunk = \<lparr>Index_chunk = 0, Start = 0, End = 9, Size = 10, Completed = 10,
     Status = 2, Error = None\<rparr>"

text \<open>
  A server that holds one resource and honours ranges: \<open>HEAD\<close> reports the length and
  \<open>Accept-Ranges: bytes\<close>; a \<open>GET\<close> without a range gets 200 and the resource; a \<open>GET\<close>
  with \<open>Range: bytes=a-b\<close> or \<open>bytes=a-\<close> gets 206 and that part, or 416 when \<open>a\<close> is past
  the end.
\<close>

definition parse_nat :: "string \<Rightarrow> nat option" where
  "parse_nat s = (if s \<noteq> [] \<and> list_all is_digit s then Some (digits_value s) else None)"

definition parse_range :: "string \<Rightarrow> (nat \<times> nat option) option" where
  "parse_range s =
     (if \<not> prefix ''bytes='' s then None
      else let r = drop 6 s;
               a = takeWhile (\<lambda>c. c \<noteq> CHR ''-'') r;
               b = drop (Suc (length a)) r
           in if length a = length r then None
              else (case parse_nat a of
                      None \<Rightarrow> None
                    | Some x \<Rightarrow>
                        if b = [] then Some (x, None)
                        else (case parse_nat b of None \<Rightarrow> None | Some y \<Rightarrow> Some (x, Some y))))"

definition header_table :: "(string \<times> string) list \<Rightarrow> string \<Rightarrow> string" where
  "header_table kvs k = (case map_of kvs k of None \<Rightarrow> '''' | Some v \<Rightarrow> v)"

definition plain_response :: "int \<Rightarrow> nat \<Rightarrow> string \<Rightarrow> http_response" where
  "plain_response status len body =
     \<lparr>resp_StatusCode = status, resp_ContentLength = int len,
      resp_Header = header_table
        [(''Content-Length'', show_int (int len)), (''Accept-Ranges'', ''bytes'')],
      resp_Body = body, resp_BodyError = None\<rparr>"

definition range_server :: "string \<Rightarrow> http_request list \<Rightarrow> http_request \<Rightarrow> transport" where
  "range_server resource hist req =
     (if req_verb req = ''HEAD'' then Response (plain_response 200 (length resource) [])
      else if req_range req = '''' then Response (plain_response 200 (length resource) resource)
      else (case parse_range (req_range req) of
              None \<Rightarrow> Response (plain_response 200 (length resource) resource)
            | Some (a, None) \<Rightarrow>
                if a < length resource
                then Response (plain_response 206 (length resource - a) (drop a resource))
                else Response (plain_response 416 0 [])
            | Some (a, Some b) \<Rightarrow>
                if a < length resource \<and> a \<le> b
                then Response (plain_response 206 (length (take (Suc b - a) (drop a resource)))
                                 (take (Suc b - a) (drop a resource)))
                else Response (plain_response 416 0 [])))"

text \<open>
  A run against such a server: chunks of at most four bytes, two threads, nothing on
  disk.  In \<open>sticky_env\<close> the operating system refuses to remove the state file of
  \<open>out\<close> (as it does for a file in a sticky directory that belongs to another user, or,
  on Windows, for a file another process holds open).
\<close>

definition ten_env :: env where
  "ten_env = quiet_env\<lparr>server := range_server ''0123456789''\<rparr>"

definition sticky_env :: env where
  "sticky_env =
     ten_env\<lparr>refusal := (\<lambda>op p. if op = FsRemove \<and> p = ''out.wget2go.state''
                                  then Some ''operation not permitted'' else None)\<rparr>"

definition small_cfg :: Config where
  "small_cfg =
     \<lparr>OutputFile = '''', OutputDocument = '''', Continue = False, ChunkSize = 4, MaxThreads = 2\<rparr>"

definition empty_world :: world where
  "empty_world = \<lparr>files = Map.empty, sent = []\<rparr>"

definition ten_info :: HTTPResponse where
  "ten_info =
     \<lparr>StatusCode = 200, ContentLength = 10, ContentType = '''', ETag = '''', AcceptRanges = True\<rparr>"

definition resume_cfg :: Config where
  "resume_cfg = small_cfg\<lparr>Continue := True, ChunkSize := 0\<rparr>"

definition partial_world :: world where
  "partial_world = \<lparr>files = [''out'' \<mapsto> ''0123''], sent = []\<rparr>"

text \<open>
  A URL whose query holds the words \<open>range not supported\<close>, and a network on which every
  ranged \<open>GET\<close> of it fails to connect while \<open>HEAD\<close> and a plain \<open>GET\<close> get through.  The
  error of \<open>http.Client.Do\<close> quotes the URL, as \<open>url.Error\<close> prints it.
\<close>

definition worded_url :: string where
  "worded_url = ''http://h/f?q=range not supported''"

definition refused_connection :: string where
  "refused_connection =
     ''Get '' @ [CHR 0x22] @ worded_url @ [CHR 0x22]
       @ '': dial tcp 192.0.2.1:80: connect: connection refused''"

definition flaky_env :: env where
  "flaky_env =
     quiet_env\<lparr>server := (\<lambda>hist req.
        if req_verb req = ''GET'' \<and> req_range req \<noteq> '''' then DoError refused_connection
        else range_server ''0123456789'' hist req)\<rparr>"

text \<open>
  A server that announces \<open>Accept-Ranges: bytes\<close> on \<open>HEAD\<close> but answers every \<open>GET\<close>,
  ranged or not, with 200 and the whole resource.
\<close>

definition norange_env :: env where
  "norange_env =
     quiet_env\<lparr>server := (\<lambda>hist req.
        if req_verb req = ''HEAD'' then Response (plain_response 200 10 [])
        else Response (plain_response 200 10 ''0123456789''))\<rparr>"

section \<open>Regular expressions of the standard library, as far as the robots rules need them\<close>

text \<open>
  \<open>matchPath\<close> builds a regular expression from a rule and hands it to package \<open>regexp\<close>
  (RE2 syntax, Perl flags: \<open>^\<close> and \<open>$\<close> match only at the start and the end of the text,
  \<open>.\<close> matches any character but a line feed).  The model covers the expressions made of
  ASCII literals, \<open>.\<close>, \<open>.*\<close>, \<open>^\<close> and \<open>$\<close>.  For these \<open>regexp_compile\<close> gives the list of
  items.  A closing parenthesis that was never opened is an error of \<open>regexp.Compile\<close>,
  and so is, at the end of an expression that has no other fault, an opening parenthesis
  that is never closed; the model gives the code of the error.  Every other
  expression (other operators, escapes, classes, bytes outside ASCII) is outside the
  model: \<open>Unmodelled\<close>.
\<close>

datatype rx_item = Lit char | AnyChar | AnyStar | BeginText | EndText

datatype compiled = Compiled "rx_item list" | CompileError string | Unmodelled

definition rx_meta :: "char \<Rightarrow> bool" where
  "rx_meta c \<longleftrightarrow> c \<in> set (''.+*?()|[]{}^$'' @ [CHR 0x5C])"

definition ascii :: "char \<Rightarrow> bool" where
  "ascii c \<longleftrightarrow> (of_char c :: nat) < 128"

definition rx_repeat :: "string \<Rightarrow> bool" where
  "rx_repeat s = (case s of [] \<Rightarrow> False | c # _ \<Rightarrow> c \<in> set ''*+?{'')"

definition rx_cons :: "rx_item \<Rightarrow> compiled \<Rightarrow> compiled" where
  "rx_cons x r = (case r of Compiled xs \<Rightarrow> Compiled (x # xs) | other \<Rightarrow> other)"

fun regexp_compile :: "string \<Rightarrow> compiled" where
  "regexp_compile [] = Compiled []"
| "regexp_compile (c # cs) =
     (if c = CHR ''.'' then
        (case cs of
           d # ds \<Rightarrow>
             if d = CHR ''*'' then (if rx_repeat ds then Unmodelled else rx_cons AnyStar (regexp_compile ds))
             else if rx_repeat cs then Unmodelled
             else rx_cons AnyChar (regexp_compile cs)
         | [] \<Rightarrow> Compiled [AnyChar])
      else if c = CHR ''^'' then
        (if rx_repeat cs then Unmodelled else rx_cons BeginText (regexp_compile cs))
      else if c = CHR ''$'' then
        (if rx_repeat cs then Unmodelled else rx_cons EndText (regexp_compile cs))
      else if c = CHR ''('' \<and> CHR '')'' \<notin> set cs then
        (case regexp_compile cs of
           Compiled re \<Rightarrow> CompileError ''missing closing )''
         | other \<Rightarrow> other)
      else if c = CHR '')'' then CompileError ''unexpected )''
      else if rx_meta c \<or> \<not> ascii c then Unmodelled
      else if rx_repeat cs then Unmodelled
      else rx_cons (Lit c) (regexp_compile cs))"

text \<open>
  The width in bytes of the first character of a text, as \<open>utf8.DecodeRune\<close> finds it: a
  well-formed UTF-8 sequence counts as one character, any other byte as a character of
  its own.
\<close>

definition in_range :: "nat \<Rightarrow> nat \<Rightarrow> char \<Rightarrow> bool" where
  "in_range lo hi c \<longleftrightarrow> lo \<le> of_char c \<and> (of_char c :: nat) \<le> hi"

definition continues :: "nat \<Rightarrow> nat \<Rightarrow> nat \<Rightarrow> string \<Rightarrow> bool" where
  "continues n lo hi r \<longleftrightarrow>
     n \<le> length r \<and> r \<noteq> [] \<and> in_range lo hi (hd r) \<and> list_all (in_range 0x80 0xBF) (take (n - 1) (tl r))"

definition rune_width :: "string \<Rightarrow> nat" where
  "rune_width s =
     (case s of
        [] \<Rightarrow> 0
      | b0 # r \<Rightarrow>
          if in_range 0xC2 0xDF b0 \<and> continues 1 0x80 0xBF r then 2
          else if in_range 0xE0 0xEF b0
                  \<and> continues 2 (if b0 = CHR 0xE0 then 0xA0 else 0x80)
                                  (if b0 = CHR 0xED then 0x9F else 0xBF) r then 3
          else if in_range 0xF0 0xF4 b0
                  \<and> continues 3 (if b0 = CHR 0xF0 then 0x90 else 0x80)
                                  (if b0 = CHR 0xF4 then 0x8F else 0xBF) r then 4
          else 1)"

text \<open>
  Matching a list of items against the start of a text; \<open>at_start\<close> says whether the text
  is the whole input.  \<open>regexp_MatchString\<close> looks for a match at every position, as
  \<open>Regexp.MatchString\<close> does.
\<close>

function rx_match_here :: "rx_item list \<Rightarrow> bool \<Rightarrow> string \<Rightarrow> bool" where
  "rx_match_here [] at_start s = True"
| "rx_match_here (Lit c # r) at_start s =
     (case s of [] \<Rightarrow> False | x # xs \<Rightarrow> x = c \<and> rx_match_here r False xs)"
| "rx_match_here (AnyChar # r) at_start s =
     (case s of
        [] \<Rightarrow> False
      | x # xs \<Rightarrow> x \<noteq> CHR 0x0A \<and> rx_match_here r False (drop (rune_width s - 1) xs))"
| "rx_match_here (AnyStar # r) at_start s =
     (rx_match_here r at_start s
      \<or> (case s of
            [] \<Rightarrow> False
          | x # xs \<Rightarrow>
              x \<noteq> CHR 0x0A \<and> rx_match_here (AnyStar # r) False (drop (rune_width s - 1) xs)))"
| "rx_match_here (BeginText # r) at_start s = (at_start \<and> rx_match_here r at_start s)"
| "rx_match_here (EndText # r) at_start s = (s = [] \<and> rx_match_here r at_start s)"
  by pat_completeness auto
termination
  by (relation "measures [\<lambda>(r, b, s). length s, \<lambda>(r, b, s). length r]") auto

function regexp_search :: "rx_item list \<Rightarrow> bool \<Rightarrow> string \<Rightarrow> bool" where
  "regexp_search r at_start s =
     (rx_match_here r at_start s
      \<or> (case s of [] \<Rightarrow> False | x # xs \<Rightarrow> regexp_search r False (drop (rune_width s - 1) xs)))"
  by pat_completeness auto
termination
  by (relation "measure (\<lambda>(r, b, s). length s)") auto

declare regexp_search.simps [simp del]

definition regexp_MatchString :: "rx_item list \<Rightarrow> string \<Rightarrow> bool" where
  "regexp_MatchString r s = regexp_search r True s"

section \<open>The robots.txt parser\<close>

text \<open>
  \<open>strings.TrimSpace\<close> removes the Unicode white space at both ends of a string; the table
  lists the UTF-8 encodings of the characters \<open>unicode.IsSpace\<close> accepts.  \<open>ToLower\<close> above is
  exact on ASCII strings.
\<close>

definition unicode_spaces :: "string list" where
  "unicode_spaces =
     [[CHR 0x09], [CHR 0x0A], [CHR 0x0B], [CHR 0x0C], [CHR 0x0D], [CHR 0x20],
      [CHR 0xC2, CHR 0x85], [CHR 0xC2, CHR 0xA0],
      [CHR 0xE1, CHR 0x9A, CHR 0x80],
      [CHR 0xE2, CHR 0x80, CHR 0x80], [CHR 0xE2, CHR 0x80, CHR 0x81],
      [CHR 0xE2, CHR 0x80, CHR 0x82], [CHR 0xE2, CHR 0x80, CHR 0x83],
      [CHR 0xE2, CHR 0x80, CHR 0x84], [CHR 0xE2, CHR 0x80, CHR 0x85],
      [CHR 0xE2, CHR 0x80, CHR 0x86], [CHR 0xE2, CHR 0x80, CHR 0x87],
      [CHR 0xE2, CHR 0x80, CHR 0x88], [CHR 0xE2, CHR 0x80, CHR 0x89],
      [CHR 0xE2, CHR 0x80, CHR 0x8A],
      [CHR 0xE2, CHR 0x80, CHR 0xA8], [CHR 0xE2, CHR 0x80, CHR 0xA9],
      [CHR 0xE2, CHR 0x80, CHR 0xAF], [CHR 0xE2, CHR 0x81, CHR 0x9F],
      [CHR 0xE3, CHR 0x80, CHR 0x80]]"

definition space_width :: "string \<Rightarrow> nat" where
  "space_width s = (case find (\<lambda>w. prefix w s) unicode_spaces of Some w \<Rightarrow> length w | None \<Rightarrow> 0)"

definition space_width_end :: "string \<Rightarrow> nat" where
  "space_width_end s = (case find (\<lambda>w. suffix w s) unicode_spaces of Some w \<Rightarrow> length w | None \<Rightarrow> 0)"

function TrimLeft :: "string \<Rightarrow> string" where
  "TrimLeft s = (if space_width s = 0 then s else TrimLeft (drop (space_width s) s))"
  by pat_completeness auto
termination
  apply (relation "measure length")
   apply simp
  apply (case_tac s)
   apply (simp add: space_width_def unicode_spaces_def)
  apply simp
  done

function TrimRight :: "string \<Rightarrow> string" where
  "TrimRight s = (if space_width_end s = 0 then s else TrimRight (take (length s - space_width_end s) s))"
  by pat_completeness auto
termination
  apply (relation "measure length")
   apply simp
  apply (case_tac s)
   apply (simp add: space_width_end_def unicode_spaces_def)
  apply simp
  done

declare TrimLeft.simps [simp del] TrimRight.simps [simp del]

definition TrimSpace :: "string \<Rightarrow> string" where
  "TrimSpace s = TrimRight (TrimLeft s)"

definition ReplaceAll_star :: "string \<Rightarrow> string" where
  "ReplaceAll_star pattern = concat (map (\<lambda>c. if c = CHR ''*'' then ''.*'' else [c]) pattern)"

text \<open>
  \<open>bufio.Scanner\<close> with the default line splitter: the input is cut at line feeds, a last
  line without a line feed counts when it is not empty, one carriage return at the end of
  a line is dropped, and the scan stops without a word at the first line of 65536 bytes
  or more (\<open>Parse\<close> never looks at \<open>scanner.Err()\<close>).
\<close>

fun split_lines :: "string \<Rightarrow> string \<Rightarrow> string list" where
  "split_lines cur [] = (if cur = [] then [] else [rev cur])"
| "split_lines cur (c # cs) =
     (if c = CHR 0x0A then rev cur # split_lines [] cs else split_lines (c # cur) cs)"

definition dropCR :: "string \<Rightarrow> string" where
  "dropCR l = (if l \<noteq> [] \<and> last l = CHR 0x0D then butlast l else l)"

definition MaxScanTokenSize :: int where
  "MaxScanTokenSize = 64 * 1024"

definition scanner_lines :: "string \<Rightarrow> string list" where
  "scanner_lines data = map dropCR (takeWhile (\<lambda>l. int (length l) < MaxScanTokenSize) (split_lines [] data))"

text \<open>
  \<open>fmt.Sscanf(value, "%d", &delay)\<close> on a value without white space at its ends: an
  optional sign, then the longest run of decimal digits, whatever follows; the variable
  keeps its zero when there is no digit or when the number does not fit 64 bits.
\<close>

definition Sscanf_d :: "string \<Rightarrow> int" where
  "Sscanf_d v =
     (let neg = (v \<noteq> [] \<and> hd v = CHR ''-'');
          body = (if v \<noteq> [] \<and> hd v \<in> set ''+-'' then tl v else v);
          tok = takeWhile is_digit body;
          n = (if neg then - int (digits_value tok) else int (digits_value tok))
      in if tok = [] \<or> n < - (2 ^ 63) \<or> 2 ^ 63 \<le> n then 0 else n)"

record RobotsRules =
  UserAgent :: string
  Disallow :: "string list"
  Allow :: "string list"
  CrawlDelay :: int
  Sitemaps :: "string list"

text \<open>
  The parser holds pointers to its rules, and \<open>defaults\<close> points to one of them: here the
  rules are the list and \<open>defaults\<close> is a position in it, so that a directive written through
  \<open>currentRule\<close> is seen through both.  \<open>currentRule\<close> is always the rule appended last, and
  it is set exactly when \<open>inRecord\<close> is.
\<close>

record Parser =
  rules :: "RobotsRules list"
  defaults :: "nat option"
  sitemaps :: "string list"

definition NewParser :: Parser where
  "NewParser = \<lparr>rules = [], defaults = None, sitemaps = []\<rparr>"

definition new_rule :: "string \<Rightarrow> RobotsRules" where
  "new_rule ua = \<lparr>UserAgent = ua, Disallow = [], Allow = [], CrawlDelay = 0, Sitemaps = []\<rparr>"

definition update_current :: "(RobotsRules \<Rightarrow> RobotsRules) \<Rightarrow> Parser \<Rightarrow> Parser" where
  "update_current f p = p\<lparr>rules := (rules p)[length (rules p) - 1 := f (last (rules p))]\<rparr>"

definition SplitN2 :: "string \<Rightarrow> (string \<times> string) option" where
  "SplitN2 line =
     (if CHR '':'' \<in> set line
      then Some (takeWhile (\<lambda>c. c \<noteq> CHR '':'') line, tl (dropWhile (\<lambda>c. c \<noteq> CHR '':'') line))
      else None)"

definition parse_line :: "Parser \<times> bool \<Rightarrow> string \<Rightarrow> Parser \<times> bool" where
  "parse_line st raw =
     (let p = fst st; inRecord = snd st; line = TrimSpace raw in
      if line = [] \<or> HasPrefix line ''#'' then st
      else case SplitN2 line of
        None \<Rightarrow> st
      | Some (k, v) \<Rightarrow>
          let key = TrimSpace (ToLower k); val = TrimSpace v in
          if key = ''user-agent'' then
            (let ua = ToLower val in
             (p\<lparr>rules := rules p @ [new_rule ua],
                defaults := (if ua = ''*'' then Some (length (rules p)) else defaults p)\<rparr>, True))
          else if key = ''disallow'' then
            (if inRecord
             then (if val = []
                   then (update_current (\<lambda>r. r\<lparr>Disallow := []\<rparr>) p, inRecord)
                   else (update_current (\<lambda>r. r\<lparr>Disallow := Disallow r @ [val]\<rparr>) p, inRecord))
             else st)
          else if key = ''allow'' then
            (if inRecord then (update_current (\<lambda>r. r\<lparr>Allow := Allow r @ [val]\<rparr>) p, inRecord) else st)
          else if key = ''crawl-delay'' then
            (if inRecord then (update_current (\<lambda>r. r\<lparr>CrawlDelay := Sscanf_d val\<rparr>) p, inRecord) else st)
          else if key = ''sitemap'' then (p\<lparr>sitemaps := sitemaps p @ [val]\<rparr>, inRecord)
          else st)"

definition Parse :: "Parser \<Rightarrow> string \<Rightarrow> string \<Rightarrow> string option \<times> Parser" where
  "Parse p data userAgent = (None, fst (foldl parse_line (p, False) (scanner_lines data)))"

definition getRule :: "Parser \<Rightarrow> string \<Rightarrow> RobotsRules option" where
  "getRule p userAgent =
     (case find (\<lambda>rule. UserAgent rule \<noteq> ''*'' \<and> Contains (ToLower userAgent) (UserAgent rule)) (rules p) of
        Some rule \<Rightarrow> Some rule
      | None \<Rightarrow> (case defaults p of None \<Rightarrow> None | Some k \<Rightarrow> Some (rules p ! k)))"

datatype 'a outcome = Returns 'a | Panicked string | NotModelled

text \<open>
  \<open>regexp.MustCompile\<close> panics on an error of \<open>Compile\<close> with a message that quotes the
  expression twice, in backquotes when \<open>strconv.CanBackquote\<close> allows it (on ASCII: no
  backquote, no control character but the tab); the other quoting is outside the model.
\<close>

definition CanBackquote :: "string \<Rightarrow> bool" where
  "CanBackquote s =
     list_all (\<lambda>c. ascii c \<and> c \<noteq> CHR 0x60 \<and> c \<noteq> CHR 0x7F
                   \<and> ((32::nat) \<le> of_char c \<or> c = CHR 0x09)) s"

definition MustCompile_message :: "string \<Rightarrow> string \<Rightarrow> string" where
  "MustCompile_message str code =
     ''regexp: Compile('' @ [CHR 0x60] @ str @ [CHR 0x60] @ ''): error parsing regexp: ''
     @ code @ '': '' @ [CHR 0x60] @ str @ [CHR 0x60]"

definition matchPath :: "string \<Rightarrow> string \<Rightarrow> bool outcome" where
  "matchPath path pattern =
     (let pattern1 = ReplaceAll_star pattern;
          pattern2 = (if \<not> HasSuffix pattern1 ''$'' then pattern1 @ ''.*'' else pattern1);
          str = ''^'' @ pattern2 @ ''$''
      in case regexp_compile str of
           Compiled re \<Rightarrow> Returns (regexp_MatchString re path)
         | CompileError code \<Rightarrow>
             if CanBackquote str then Panicked (MustCompile_message str code) else NotModelled
         | Unmodelled \<Rightarrow> NotModelled)"

fun match_first :: "string \<Rightarrow> string list \<Rightarrow> bool outcome" where
  "match_first path [] = Returns False"
| "match_first path (pattern # more_patterns) =
     (case matchPath path pattern of
        Returns True \<Rightarrow> Returns True
      | Returns False \<Rightarrow> match_first path more_patterns
      | other \<Rightarrow> other)"

definition rule_allows :: "RobotsRules \<Rightarrow> string \<Rightarrow> bool outcome" where
  "rule_allows rule path =
     (case match_first path (Allow rule) of
        Returns True \<Rightarrow> Returns True
      | Returns False \<Rightarrow>
          (case match_first path (Disallow rule) of
             Returns True \<Rightarrow> Returns False
           | Returns False \<Rightarrow> Returns True
           | other \<Rightarrow> other)
      | other \<Rightarrow> other)"

definition IsPathAllowed :: "Parser \<Rightarrow> string \<Rightarrow> string \<Rightarrow> bool outcome" where
  "IsPathAllowed p path userAgent =
     (case getRule p userAgent of None \<Rightarrow> Returns True | Some rule \<Rightarrow> rule_allows rule path)"

text \<open>
  Package \<open>net/url\<close> is a parameter: \<open>url_Parse\<close> gives the error message or the parsed URL,
  of which the fields below are read.
\<close>

record URL =
  Scheme :: string
  Opaque :: string
  Host :: string
  Path :: string
  RawQuery :: string
  Fragment :: string

record url_lib =
  url_Parse :: "string \<Rightarrow> string + URL"
  url_Hostname :: "URL \<Rightarrow> string"
  url_ResolveReference :: "URL \<Rightarrow> URL \<Rightarrow> URL"
  url_String :: "URL \<Rightarrow> string"


text \<open>
  The queue manager keeps, for each host, the rules the crawler parsed
  (\<open>types.RobotsParser\<close>), and has a query of its own, which reads nothing of the manager
  but this map: it tries every \<open>Disallow\<close> value of every rule as a prefix of the path.
\<close>

record RobotsParser =
  Rules :: "RobotsRules list"
  Default :: "RobotsRules option"
  Sitemaps_of :: "string list"

definition GetHost :: "url_lib \<Rightarrow> string \<Rightarrow> string + string" where
  "GetHost lib urlStr =
     (case url_Parse lib urlStr of Inl err \<Rightarrow> Inl err | Inr u \<Rightarrow> Inr (url_Hostname lib u))"

definition IsAllowedByRobots ::
  "url_lib \<Rightarrow> (string \<rightharpoonup> RobotsParser) \<Rightarrow> string \<Rightarrow> string \<Rightarrow> bool" where
  "IsAllowedByRobots lib hostMap urlStr userAgent =
     (case GetHost lib urlStr of
        Inl err \<Rightarrow> True
      | Inr host \<Rightarrow>
          (case hostMap host of
             None \<Rightarrow> True
           | Some parser \<Rightarrow>
               (case url_Parse lib urlStr of
                  Inl err \<Rightarrow> True
                | Inr u \<Rightarrow>
                    \<not> list_ex (\<lambda>rule. list_ex (\<lambda>disallow. HasPrefix (Path u) disallow) (Disallow rule))
                         (Rules parser))))"

text \<open>What the crawler stores for a host after parsing its robots.txt (\<open>downloadRobotsTxt\<close>).\<close>

definition stored_parser :: "Parser \<Rightarrow> RobotsParser" where
  "stored_parser p = \<lparr>Rules = rules p, Default = None, Sitemaps_of = sitemaps p\<rparr>"







definition robots_open_paren :: string where
  "robots_open_paren = ''User-agent: *'' @ [CHR 0x0A] @ ''Disallow: /(draft'' @ [CHR 0x0A]"



section \<open>The HTML link extractor\<close>

text \<open>
  \<open>Parser.extractURLs\<close> works on one element node of the tree that \<open>html.Parse\<close> built:
  its tag name and its attributes.  \<open>Parser.Parse\<close> calls it on every element node whose
  tag is not ignored.  The regular expression that finds \<open>url(...)\<close> in a style attribute is
  a parameter, \<open>style_urls\<close>: the first group of every match, in order.
  \<open>strings.EqualFold\<close> is modelled on ASCII names.
\<close>

record Attribute =
  Namespace :: string
  Key :: string
  Val :: string

record Node =
  Data :: string
  Attr :: "Attribute list"

record ParsedURL =
  pu_URL :: string
  pu_Attr :: string
  pu_Tag :: string
  pu_Position :: int

record ParsedResult =
  URLs :: "ParsedURL list"
  Follow :: bool
  Encoding :: string
  Links :: "string \<rightharpoonup> string"

definition new_ParsedResult :: ParsedResult where
  "new_ParsedResult = \<lparr>URLs = [], Follow = True, Encoding = ''utf-8'', Links = Map.empty\<rparr>"

text \<open>normalizeURL: U+7A7A URL, and U+76F8 U+5BF9 URL U+9700 U+8981 baseURL.\<close>

definition msg_empty_url :: string where
  "msg_empty_url = [CHR 0xE7, CHR 0xA9, CHR 0xBA] @ ''URL''"

definition msg_need_base :: string where
  "msg_need_base =
     [CHR 0xE7, CHR 0x9B, CHR 0xB8, CHR 0xE5, CHR 0xAF, CHR 0xB9] @ ''URL''
     @ [CHR 0xE9, CHR 0x9C, CHR 0x80, CHR 0xE8, CHR 0xA6, CHR 0x81] @ ''baseURL''"

definition IsAbs :: "URL \<Rightarrow> bool" where
  "IsAbs u \<longleftrightarrow> Scheme u \<noteq> []"

definition normalizeURL :: "url_lib \<Rightarrow> string \<Rightarrow> string \<Rightarrow> string + string" where
  "normalizeURL lib urlStr baseURL =
     (if urlStr = [] then Inl msg_empty_url
      else case url_Parse lib urlStr of
        Inl err \<Rightarrow> Inl err
      | Inr u \<Rightarrow>
          if \<not> IsAbs u then
            (if baseURL = [] then Inl msg_need_base
             else case url_Parse lib baseURL of
               Inl err \<Rightarrow> Inl err
             | Inr base \<Rightarrow> Inr (url_String lib (url_ResolveReference lib base u)))
          else Inr (url_String lib u))"

definition urlAttrs :: "(string \<times> string) list" where
  "urlAttrs =
     [(''a'', ''href''), (''link'', ''href''), (''img'', ''src''), (''script'', ''src''),
      (''iframe'', ''src''), (''frame'', ''src''), (''embed'', ''src''), (''object'', ''data''),
      (''area'', ''href''), (''base'', ''href''), (''body'', ''background''), (''input'', ''src''),
      (''form'', ''action''), (''blockquote'', ''cite''), (''q'', ''cite''), (''ins'', ''cite''),
      (''del'', ''cite'')]"

definition EqualFold :: "string \<Rightarrow> string \<Rightarrow> bool" where
  "EqualFold s t \<longleftrightarrow> ToLower s = ToLower t"

definition add_url :: "ParsedResult \<Rightarrow> string \<Rightarrow> string \<Rightarrow> string \<Rightarrow> string \<Rightarrow> ParsedResult" where
  "add_url result urlStr normalizedURL attrName tag =
     result\<lparr>URLs := URLs result
                @ [\<lparr>pu_URL = normalizedURL, pu_Attr = attrName, pu_Tag = tag, pu_Position = 0\<rparr>],
            Links := (Links result)(urlStr \<mapsto> normalizedURL)\<rparr>"

definition extract_attr ::
  "url_lib \<Rightarrow> string \<Rightarrow> string \<Rightarrow> string \<Rightarrow> ParsedResult \<Rightarrow> Attribute \<Rightarrow> ParsedResult" where
  "extract_attr lib tag attrName baseURL result attr =
     (if EqualFold (Key attr) attrName then
        (let urlStr = TrimSpace (Val attr) in
         if urlStr = [] \<or> urlStr = ''#'' \<or> HasPrefix urlStr ''javascript:'' \<or> HasPrefix urlStr ''data:''
         then result
         else if attrName = ''action'' \<or> attrName = ''formaction'' then result
         else case normalizeURL lib urlStr baseURL of
           Inl err \<Rightarrow> result
         | Inr normalizedURL \<Rightarrow> add_url result urlStr normalizedURL attrName tag)
      else result)"

text \<open>
  \<open>processSrcSet\<close> takes the first field of every comma-separated part;
  \<open>strings.Fields(part)[0]\<close> panics on a part without a field.
\<close>

fun Split_comma :: "string \<Rightarrow> string \<Rightarrow> string list" where
  "Split_comma cur [] = [rev cur]"
| "Split_comma cur (c # cs) =
     (if c = CHR '','' then rev cur # Split_comma [] cs else Split_comma (c # cur) cs)"

fun take_field :: "string \<Rightarrow> string" where
  "take_field [] = []"
| "take_field (c # cs) = (if 0 < space_width (c # cs) then [] else c # take_field cs)"

definition first_field :: "string \<Rightarrow> string option" where
  "first_field part = (let t = TrimLeft part in if t = [] then None else Some (take_field t))"

fun processSrcSet_parts :: "url_lib \<Rightarrow> string \<Rightarrow> ParsedResult \<Rightarrow> string list \<Rightarrow> ParsedResult go_result" where
  "processSrcSet_parts lib baseURL result [] = Ok result"
| "processSrcSet_parts lib baseURL result (part # parts) =
     (case first_field part of
        None \<Rightarrow> Panic ''index out of range [0] with length 0''
      | Some urlPart \<Rightarrow>
          (let urlStr = TrimSpace urlPart in
           if urlStr = [] then processSrcSet_parts lib baseURL result parts
           else case normalizeURL lib urlStr baseURL of
             Inl err \<Rightarrow> processSrcSet_parts lib baseURL result parts
           | Inr normalizedURL \<Rightarrow>
               processSrcSet_parts lib baseURL
                 (add_url result urlStr normalizedURL ''srcset'' ''img'') parts))"

definition processSrcSet :: "url_lib \<Rightarrow> string \<Rightarrow> string \<Rightarrow> ParsedResult \<Rightarrow> ParsedResult go_result" where
  "processSrcSet lib srcset baseURL result =
     processSrcSet_parts lib baseURL result (Split_comma [] srcset)"

definition processStyleURLs ::
  "url_lib \<Rightarrow> (string \<Rightarrow> string list) \<Rightarrow> string \<Rightarrow> string \<Rightarrow> ParsedResult \<Rightarrow> ParsedResult" where
  "processStyleURLs lib style_urls style baseURL result =
     foldl (\<lambda>res urlStr.
              case normalizeURL lib urlStr baseURL of
                Inl err \<Rightarrow> res
              | Inr normalizedURL \<Rightarrow> add_url res urlStr normalizedURL ''style'' ''*'')
           result (style_urls style)"

fun srcset_attrs :: "url_lib \<Rightarrow> string \<Rightarrow> ParsedResult \<Rightarrow> Attribute list \<Rightarrow> ParsedResult go_result" where
  "srcset_attrs lib baseURL result [] = Ok result"
| "srcset_attrs lib baseURL result (attr # attrs) =
     (if EqualFold (Key attr) ''srcset''
      then (case processSrcSet lib (Val attr) baseURL result of
              Ok result' \<Rightarrow> srcset_attrs lib baseURL result' attrs
            | failure \<Rightarrow> failure)
      else srcset_attrs lib baseURL result attrs)"

definition extractURLs ::
  "url_lib \<Rightarrow> (string \<Rightarrow> string list) \<Rightarrow> Node \<Rightarrow> string \<Rightarrow> ParsedResult \<Rightarrow> ParsedResult go_result" where
  "extractURLs lib style_urls n baseURL result =
     (let tag = ToLower (Data n) in
      case map_of urlAttrs tag of
        None \<Rightarrow> Ok result
      | Some attrName \<Rightarrow>
          (let result1 = foldl (extract_attr lib tag attrName baseURL) result (Attr n) in
           case (if tag = ''img'' then srcset_attrs lib baseURL result1 (Attr n) else Ok result1) of
             Ok result2 \<Rightarrow>
               Ok (foldl (\<lambda>res attr.
                            if EqualFold (Key attr) ''style''
                            then processStyleURLs lib style_urls (Val attr) baseURL res
                            else res)
                         result2 (Attr n))
           | failure \<Rightarrow> failure))"

text \<open>
  The other extractor of the repository, \<open>HTMLExtractor\<close>, resolves an attribute value with
  \<open>resolveURL\<close>; the empty string is its sign for a value to skip.
\<close>

definition resolveURL :: "url_lib \<Rightarrow> URL \<Rightarrow> string \<Rightarrow> string" where
  "resolveURL lib baseURL relativeURL =
     (if relativeURL = [] then []
      else if HasPrefix (ToLower relativeURL) ''javascript:''
              \<or> HasPrefix (ToLower relativeURL) ''mailto:''
              \<or> HasPrefix (ToLower relativeURL) ''tel:''
              \<or> HasPrefix (ToLower relativeURL) ''#'' then []
      else case url_Parse lib relativeURL of
        Inl err \<Rightarrow> []
      | Inr parsed \<Rightarrow>
          if IsAbs parsed then url_String lib parsed
          else url_String lib (url_ResolveReference lib baseURL parsed))"

text \<open>
  What \<open>net/url\<close> gives on the URLs of the examples: \<open>mailto:user@example.com\<close> and
  \<open>tel:+15551234\<close> have a scheme and an opaque rest, the others a host and a path.  No
  example resolves a relative reference.
\<close>

definition opaque_url :: "string \<Rightarrow> string \<Rightarrow> URL" where
  "opaque_url scheme rest =
     \<lparr>Scheme = scheme, Opaque = rest, Host = [], Path = [], RawQuery = [], Fragment = []\<rparr>"

definition http_url :: "string \<Rightarrow> string \<Rightarrow> URL" where
  "http_url host path =
     \<lparr>Scheme = ''http'', Opaque = [], Host = host, Path = path, RawQuery = [], Fragment = []\<rparr>"

definition example_urls :: "(string \<times> URL) list" where
  "example_urls =
     [(''mailto:user@example.com'', opaque_url ''mailto'' ''user@example.com''),
      (''tel:+15551234'', opaque_url ''tel'' ''+15551234''),
      (''http://example.com/'', http_url ''example.com'' ''/''),
      (''http://example.com/x/a'', http_url ''example.com'' ''/x/a''),
      (''http://example.com/x/pub/a'', http_url ''example.com'' ''/x/pub/a'')]"

definition example_lib :: url_lib where
  "example_lib =
     \<lparr>url_Parse = (\<lambda>s. case map_of example_urls s of
                          Some u \<Rightarrow> Inr u
                        | None \<Rightarrow> Inl ''not among the examples''),
      url_Hostname = Host,
      url_ResolveReference = (\<lambda>base ref. ref),
      url_String = (\<lambda>u. if Opaque u \<noteq> [] then Scheme u @ '':'' @ Opaque u
                         else Scheme u @ ''://'' @ Host u @ Path u)\<rparr>"

definition mailto_link :: Node where
  "mailto_link =
     \<lparr>Data = ''a'', Attr = [\<lparr>Namespace = [], Key = ''href'', Val = ''mailto:user@example.com''\<rparr>]\<rparr>"

definition tel_link :: Node where
  "tel_link =
     \<lparr>Data = ''a'', Attr = [\<lparr>Namespace = [], Key = ''href'', Val = ''tel:+15551234''\<rparr>]\<rparr>"






chapter \<open>Verification\<close>

section \<open>The dedup index of the URL queue\<close>

lemma index_kept_by_op:
  assumes "index_get (Index (queue m)) u" and "op \<noteq> OpRemove u"
  shows "index_get (Index (queue (apply_queue_op m op))) u"
proof (cases op)
  case (OpAdd j)
  with assms(1) show ?thesis
    by (auto simp: Manager_Add_def queue_Add_def index_get_def split: prod.splits bool.splits)
next
  case OpPop
  with assms(1) show ?thesis
    by (auto simp: Manager_Pop_def queue_Pop_def split: list.splits)
next
  case (OpMarkVisited x)
  with assms(1) show ?thesis by (simp add: MarkVisited_def)
next
  case (OpBlacklist x)
  with assms(1) show ?thesis by (simp add: AddToBlacklist_def)
next
  case (OpRemove x)
  with assms have "x \<noteq> u" by simp
  with assms(1) OpRemove show ?thesis
    by (auto simp: Manager_Remove_def index_get_def split: option.splits)
qed

lemma index_kept_by_run:
  assumes "index_get (Index (queue m)) u" and "\<forall>op \<in> set ops. op \<noteq> OpRemove u"
  shows "index_get (Index (queue (run_queue_ops m ops))) u"
  using assms unfolding run_queue_ops_def
proof (induction ops arbitrary: m)
  case Nil
  then show ?case by simp
next
  case (Cons op ops)
  then show ?case by (simp add: index_kept_by_op)
qed

lemma Manager_Add_marks:
  assumes "Manager_Add m j = (None, m1)"
  shows "index_get (Index (queue m1)) (URL j)" and "j \<in> set (Jobs (queue m1))"
  using assms
  by (auto simp: Manager_Add_def queue_Add_def index_get_def
      split: if_splits prod.splits bool.splits)

lemma remove_first_finds: "j \<in> set js \<Longrightarrow> remove_first (URL j) js \<noteq> None"
  by (induction js) (auto split: option.splits)

text \<open>
  Claim C9.  Once \<open>Add\<close> has accepted a job with URL \<open>u\<close>, the index entry of \<open>u\<close> stays:
  after any run of \<open>Add\<close>, \<open>Pop\<close>, \<open>MarkVisited\<close>, \<open>AddToBlacklist\<close> and \<open>Remove\<close> of other
  URLs, \<open>Contains u\<close> is true and both \<open>URLQueue.Add\<close> and \<open>Manager.Add\<close> refuse every job
  with URL \<open>u\<close>, whether or not the job was popped or \<open>u\<close> marked visited in between.
  \<open>Pop\<close> never touches the index; the one operation that deletes the entry is
  \<open>Manager.Remove u\<close>, which does so while the job is still queued.
\<close>

theorem queue_index_entry_persists:
  assumes "Manager_Add m j = (None, m1)"
    and "\<forall>op \<in> set ops. op \<noteq> OpRemove (URL j)"
    and "URL j' = URL j"
  shows "Manager_Contains (run_queue_ops m1 ops) (URL j)
       \<and> fst (queue_Add (queue (run_queue_ops m1 ops)) j') = False
       \<and> fst (Manager_Add (run_queue_ops m1 ops) j') \<noteq> None
       \<and> Index (snd (queue_Pop (queue m1))) = Index (queue m1)
       \<and> fst (Manager_Remove m1 (URL j)) = True
       \<and> \<not> Manager_Contains (snd (Manager_Remove m1 (URL j))) (URL j)"
proof -
  let ?m = "run_queue_ops m1 ops"
  have i1: "index_get (Index (queue m1)) (URL j)" and q1: "j \<in> set (Jobs (queue m1))"
    using Manager_Add_marks [OF assms(1)] by simp_all
  have i: "index_get (Index (queue ?m)) (URL j)"
    using index_kept_by_run [OF i1 assms(2)] .
  have a: "Manager_Contains ?m (URL j)"
    using i by (simp add: Manager_Contains_def queue_Contains_def)
  have b: "fst (queue_Add (queue ?m) j') = False"
    using i assms(3) by (simp add: queue_Add_def)
  have c: "fst (Manager_Add ?m j') \<noteq> None"
    using i assms(3) by (simp add: Manager_Add_def queue_Add_def)
  have p: "Index (snd (queue_Pop (queue m1))) = Index (queue m1)"
    by (simp add: queue_Pop_def split: list.splits)
  from remove_first_finds [OF q1]
  obtain js' where r: "remove_first (URL j) (Jobs (queue m1)) = Some js'"
    by auto
  have d: "fst (Manager_Remove m1 (URL j)) = True"
    using i1 r by (simp add: Manager_Remove_def queue_Contains_def)
  have e: "\<not> Manager_Contains (snd (Manager_Remove m1 (URL j))) (URL j)"
    using i1 r
    by (simp add: Manager_Remove_def queue_Contains_def Manager_Contains_def index_get_def)
  from a b c p d e show ?thesis by blast
qed

text \<open>
  The theorem at a concrete run: \<open>/a\<close> is added, popped, marked visited, another URL is
  added and removed; \<open>/a\<close> is still indexed and a second job for it is refused.
\<close>

theorem queue_index_entry_persists_witness:
  "Manager_Contains
     (run_queue_ops
        (snd (Manager_Add NewManager \<lparr>ID = 1, ParentID = 0, URL = ''http://h/a'', Level = 0\<rparr>))
        [OpPop, OpMarkVisited ''http://h/a'',
         OpAdd \<lparr>ID = 2, ParentID = 1, URL = ''http://h/b'', Level = 1\<rparr>,
         OpRemove ''http://h/b'', OpPop])
     ''http://h/a''
   \<and> fst (queue_Add
        (queue (run_queue_ops
           (snd (Manager_Add NewManager \<lparr>ID = 1, ParentID = 0, URL = ''http://h/a'', Level = 0\<rparr>))
           [OpPop, OpMarkVisited ''http://h/a'',
            OpAdd \<lparr>ID = 2, ParentID = 1, URL = ''http://h/b'', Level = 1\<rparr>,
            OpRemove ''http://h/b'', OpPop]))
        \<lparr>ID = 3, ParentID = 2, URL = ''http://h/a'', Level = 2\<rparr>) = False"
proof -
  let ?j = "\<lparr>ID = 1, ParentID = 0, URL = ''http://h/a'', Level = 0\<rparr>"
  let ?j' = "\<lparr>ID = 3, ParentID = 2, URL = ''http://h/a'', Level = 2\<rparr>"
  let ?ops = "[OpPop, OpMarkVisited ''http://h/a'',
         OpAdd \<lparr>ID = 2, ParentID = 1, URL = ''http://h/b'', Level = 1\<rparr>,
         OpRemove ''http://h/b'', OpPop]"
  have h1: "Manager_Add NewManager ?j = (None, snd (Manager_Add NewManager ?j))"
    by (simp add: Manager_Add_def NewManager_def NewURLQueue_def queue_Add_def index_get_def)
  have h2: "\<forall>op \<in> set ?ops. op \<noteq> OpRemove (URL ?j)"
    by simp
  have h3: "URL ?j' = URL ?j"
    by simp
  from queue_index_entry_persists [OF h1 h2 h3] show ?thesis
    by simp
qed

section \<open>The chunk plan partitions the resource\<close>

lemma go_div_pos: "0 \<le> a \<Longrightarrow> 0 < b \<Longrightarrow> go_div a b = a div b"
  by (cases "a = 0") (simp_all add: go_div_def)

lemma go_mod_pos: "0 \<le> a \<Longrightarrow> 0 < b \<Longrightarrow> go_mod a b = a mod b"
  by (simp add: go_mod_def go_div_pos minus_mult_div_eq_mod)

lemma calculateNumChunks_pos:
  assumes "0 < cl" "0 < cs"
  shows "calculateNumChunks cl cs = (if cl mod cs \<noteq> 0 then cl div cs + 1 else cl div cs)"
  using assms by (simp add: calculateNumChunks_def go_div_pos go_mod_pos)

lemma calculateNumChunks_ceiling:
  assumes "0 < cl" "0 < cs"
  shows "calculateNumChunks cl cs = \<lceil>real_of_int cl / real_of_int cs\<rceil>"
proof -
  have c: "\<lceil>real_of_int cl / real_of_int cs\<rceil> = - (- cl div cs)"
    by (simp add: ceiling_divide_eq_div)
  have "- cl div cs = (if cl mod cs = 0 then - (cl div cs) else - (cl div cs) - 1)"
    using assms by (simp add: zdiv_zminus1_eq_if)
  with c show ?thesis
    by (simp add: calculateNumChunks_pos [OF assms])
qed

lemma calculateNumChunks_bounds:
  assumes "0 < cl" "0 < cs"
  shows "1 \<le> calculateNumChunks cl cs \<and> calculateNumChunks cl cs \<le> cl"
proof -
  have d: "cl div cs \<le> cl"
    using zdiv_mono2 [of cl 1 cs] assms by simp
  have nn: "0 \<le> cl div cs"
    using assms by (simp add: pos_imp_zdiv_nonneg_iff)
  show ?thesis
  proof (cases "cl mod cs = 0")
    case True
    have "cl = cs * (cl div cs) + cl mod cs" by simp
    with True have "cl = cs * (cl div cs)" by simp
    with assms have "cl div cs \<noteq> 0" by auto
    with nn True d show ?thesis
      by (simp add: calculateNumChunks_pos [OF assms])
  next
    case False
    then have "cs \<noteq> 1" by auto
    with assms have cs2: "2 \<le> cs" by simp
    have "cl div cs \<le> cl div 2"
      using zdiv_mono2 [of cl 2 cs] assms cs2 by simp
    moreover have "cl div 2 + 1 \<le> cl" using assms by presburger
    ultimately show ?thesis using False nn
      by (simp add: calculateNumChunks_pos [OF assms])
  qed
qed

lemma chunk_plan_eq:
  assumes "0 < cl" "0 < cs" "1 \<le> mt"
  defines "n \<equiv> min (calculateNumChunks cl cs) mt"
  shows "chunk_plan cl cs mt =
           Ok (map (new_chunk n (cl div n) (cl - (cl div n) * (n - 1))) [0..n - 1])"
    and "1 \<le> n" and "n \<le> cl"
proof -
  from calculateNumChunks_bounds [OF assms(1,2)] assms(3)
  show n1: "1 \<le> n" and ncl: "n \<le> cl" by (auto simp: n_def min_def)
  have m: "(if calculateNumChunks cl cs > mt then mt else calculateNumChunks cl cs) = n"
    by (simp add: n_def min_def)
  have "go_div cl n = cl div n"
    using assms(1) n1 by (simp add: go_div_pos)
  with n1 m show "chunk_plan cl cs mt =
           Ok (map (new_chunk n (cl div n) (cl - (cl div n) * (n - 1))) [0..n - 1])"
    by (simp add: chunk_plan_def Let_def)
qed

text \<open>A regular plan: n chunks of size c, the last one up to cl - 1.\<close>

lemma regular_plan:
  fixes n c cl :: int
  assumes n1: "1 \<le> n" and c1: "1 \<le> c" and ncl: "n * c \<le> cl"
  defines "chunks \<equiv> map (new_chunk n c (cl - c * (n - 1))) [0..n - 1]"
  shows "int (length chunks) = n"
    and "\<forall>i < length chunks. Index_chunk (chunks ! i) = int i \<and> Start (chunks ! i) = int i * c
           \<and> Size (chunks ! i) = End (chunks ! i) - Start (chunks ! i) + 1
           \<and> 0 < Size (chunks ! i)"
    and "\<forall>i. Suc i < length chunks \<longrightarrow>
           Size (chunks ! i) = c \<and> Start (chunks ! Suc i) = End (chunks ! i) + 1"
    and "Start (chunks ! 0) = 0"
    and "Size (last chunks) = cl - (n - 1) * c \<and> End (last chunks) = cl - 1"
    and "\<forall>i j. i < j \<and> j < length chunks \<longrightarrow>
           chunk_range (chunks ! i) \<inter> chunk_range (chunks ! j) = {}"
    and "(\<Union>k \<in> set chunks. chunk_range k) = {0..<cl}"
proof -
  have len: "length chunks = nat n"
    using n1 by (simp add: chunks_def)
  show "int (length chunks) = n" using len n1 by simp
  have nth: "chunks ! i = new_chunk n c (cl - c * (n - 1)) (int i)" if "i < length chunks" for i
    using that len n1 by (simp add: chunks_def)
  have st: "Start (chunks ! i) = int i * c" if "i < length chunks" for i
    using nth [OF that] by (simp add: new_chunk_def Let_def)
  have en: "End (chunks ! i) = (if int i = n - 1 then cl - 1 else int i * c + c - 1)"
    if "i < length chunks" for i
  proof (cases "int i = n - 1")
    case True
    have "(n - 1) * c + (cl - c * (n - 1)) - 1 = cl - 1" by (simp add: algebra_simps)
    with True nth [OF that] show ?thesis by (simp add: new_chunk_def Let_def)
  next
    case False
    with nth [OF that] show ?thesis by (simp add: new_chunk_def Let_def)
  qed
  have sz: "Size (chunks ! i) = End (chunks ! i) - Start (chunks ! i) + 1"
    if "i < length chunks" for i
    using nth [OF that] by (simp add: new_chunk_def Let_def)
  have ix: "Index_chunk (chunks ! i) = int i" if "i < length chunks" for i
    using nth [OF that] by (simp add: new_chunk_def Let_def)
  have lastc: "(n - 1) * c + c \<le> cl"
    using ncl by (simp add: algebra_simps)
  have pos: "0 < Size (chunks ! i)" if "i < length chunks" for i
  proof (cases "int i = n - 1")
    case True
    with sz [OF that] st [OF that] en [OF that] lastc c1 show ?thesis by simp
  next
    case False
    with sz [OF that] st [OF that] en [OF that] c1 show ?thesis by simp
  qed
  show "\<forall>i < length chunks. Index_chunk (chunks ! i) = int i \<and> Start (chunks ! i) = int i * c
           \<and> Size (chunks ! i) = End (chunks ! i) - Start (chunks ! i) + 1
           \<and> 0 < Size (chunks ! i)"
    using ix st sz pos by simp
  show "\<forall>i. Suc i < length chunks \<longrightarrow>
           Size (chunks ! i) = c \<and> Start (chunks ! Suc i) = End (chunks ! i) + 1"
  proof (intro allI impI)
    fix i assume a: "Suc i < length chunks"
    then have i: "i < length chunks" by simp
    from a len have "int i \<noteq> n - 1" by linarith
    with sz [OF i] st [OF i] en [OF i] st [OF a]
    show "Size (chunks ! i) = c \<and> Start (chunks ! Suc i) = End (chunks ! i) + 1"
      by (simp add: algebra_simps)
  qed
  have l0: "0 < length chunks" using len n1 by simp
  show "Start (chunks ! 0) = 0" using st [OF l0] by simp
  have ne: "chunks \<noteq> []" using l0 by auto
  have lst: "last chunks = chunks ! (length chunks - 1)"
    using ne by (simp add: last_conv_nth)
  have li: "length chunks - 1 < length chunks" using l0 by simp
  have lv: "int (length chunks - 1) = n - 1" using len n1 by simp
  show "Size (last chunks) = cl - (n - 1) * c \<and> End (last chunks) = cl - 1"
    using sz [OF li] st [OF li] en [OF li] lv lst by simp
  have before: "End (chunks ! i) < Start (chunks ! j)" if "i < j" "j < length chunks" for i j
  proof -
    from that have i: "i < length chunks" by simp
    from that len have ni: "int i \<noteq> n - 1" by linarith
    from that have "int i + 1 \<le> int j" by simp
    then have "(int i + 1) * c \<le> int j * c"
      using c1 by (intro mult_right_mono) simp_all
    with en [OF i] ni st [OF that(2)] show ?thesis by (simp add: algebra_simps)
  qed
  show "\<forall>i j. i < j \<and> j < length chunks \<longrightarrow>
           chunk_range (chunks ! i) \<inter> chunk_range (chunks ! j) = {}"
    using before by (fastforce simp: chunk_range_def)
  show "(\<Union>k \<in> set chunks. chunk_range k) = {0..<cl}"
  proof (intro equalityI subsetI)
    fix x assume "x \<in> (\<Union>k \<in> set chunks. chunk_range k)"
    then obtain i where i: "i < length chunks" and x: "Start (chunks ! i) \<le> x" "x \<le> End (chunks ! i)"
      by (auto simp: chunk_range_def in_set_conv_nth)
    have "0 \<le> int i * c" using c1 by simp
    with x(1) st [OF i] have x0: "0 \<le> x" by simp
    have "End (chunks ! i) \<le> cl - 1"
    proof (cases "int i = n - 1")
      case True
      with en [OF i] show ?thesis by simp
    next
      case False
      with i len have "int i + 1 \<le> n - 1" by linarith
      then have "(int i + 1) * c \<le> (n - 1) * c"
        using c1 by (intro mult_right_mono) simp_all
      with lastc c1 False en [OF i] show ?thesis by (simp add: algebra_simps)
    qed
    with x(2) x0 show "x \<in> {0..<cl}" by simp
  next
    fix x assume "x \<in> {0..<cl}"
    then have x0: "0 \<le> x" and xcl: "x < cl" by simp_all
    have cpos: "0 < c" using c1 by simp
    define k where "k = min (x div c) (n - 1)"
    have k0: "0 \<le> k" using x0 cpos n1 by (simp add: k_def pos_imp_zdiv_nonneg_iff)
    have kn: "k \<le> n - 1" by (simp add: k_def)
    have ki: "nat k < length chunks" using k0 kn len n1 by simp
    have ik: "int (nat k) = k" using k0 by simp
    have lo: "k * c \<le> x"
    proof -
      have "k * c \<le> (x div c) * c"
        using cpos by (intro mult_right_mono) (simp_all add: k_def)
      also have "\<dots> \<le> x" using cpos
        by (metis mult.commute pos_mod_sign add_le_cancel_left add.right_neutral mult_div_mod_eq)
      finally show ?thesis .
    qed
    have hi: "x \<le> End (chunks ! nat k)"
    proof (cases "k = n - 1")
      case True
      with en [OF ki] ik xcl show ?thesis by simp
    next
      case False
      with kn have "x div c < n - 1 \<and> k = x div c"
        unfolding k_def min_def by (auto split: if_splits)
      moreover have "x < (x div c) * c + c"
        using cpos
        by (metis mult.commute pos_mod_bound add_less_cancel_left mult_div_mod_eq)
      ultimately show ?thesis using en [OF ki] ik False by simp
    qed
    from lo hi st [OF ki] ik have "x \<in> chunk_range (chunks ! nat k)"
      by (simp add: chunk_range_def)
    moreover have "chunks ! nat k \<in> set chunks" using ki by simp
    ultimately show "x \<in> (\<Union>k \<in> set chunks. chunk_range k)"
      by blast
  qed
qed

text \<open>
  Claim C1.  For a positive content length, a positive configured chunk size and at least
  one thread, the plan of \<open>downloadWithChunks\<close> has \<open>n = min (ceil (cl / cs)) mt\<close> chunks;
  chunk \<open>i\<close> starts at \<open>i * floor (cl / n)\<close>, every \<open>Size\<close> is \<open>End - Start + 1\<close> and positive,
  every chunk but the last has size \<open>floor (cl / n)\<close> and the next chunk starts right after
  it, the last chunk takes the remainder and ends at \<open>cl - 1\<close>, the ranges are pairwise
  disjoint and their union is exactly \<open>{0..<cl}\<close>.
\<close>

theorem chunk_plan_partition:
  assumes "0 < cl" and "0 < cs" and "1 \<le> mt"
  shows "\<exists>chunks. chunk_plan cl cs mt = Ok chunks \<and>
          (let n = min \<lceil>real_of_int cl / real_of_int cs\<rceil> mt;
               c = \<lfloor>real_of_int cl / real_of_int n\<rfloor>
           in int (length chunks) = n
            \<and> (\<forall>i < length chunks.
                  Index_chunk (chunks ! i) = int i
                \<and> Start (chunks ! i) = int i * c
                \<and> Size (chunks ! i) = End (chunks ! i) - Start (chunks ! i) + 1
                \<and> 0 < Size (chunks ! i))
            \<and> (\<forall>i. Suc i < length chunks \<longrightarrow>
                  Size (chunks ! i) = c \<and> Start (chunks ! Suc i) = End (chunks ! i) + 1)
            \<and> Start (chunks ! 0) = 0
            \<and> Size (last chunks) = cl - (n - 1) * c
            \<and> End (last chunks) = cl - 1
            \<and> (\<forall>i j. i < j \<and> j < length chunks \<longrightarrow>
                  chunk_range (chunks ! i) \<inter> chunk_range (chunks ! j) = {})
            \<and> (\<Union>k \<in> set chunks. chunk_range k) = {0..<cl})"
proof -
  define n where "n = min (calculateNumChunks cl cs) mt"
  define c where "c = cl div n"
  define chunks where "chunks = map (new_chunk n c (cl - c * (n - 1))) [0..n - 1]"
  have p: "chunk_plan cl cs mt = Ok chunks" and n1: "1 \<le> n" and ncl: "n \<le> cl"
    using chunk_plan_eq [OF assms] by (simp_all add: n_def c_def chunks_def)
  have "n div n \<le> cl div n"
    using n1 ncl by (intro zdiv_mono1) simp_all
  with n1 have c1: "1 \<le> c" by (simp add: c_def)
  have "cl = n * (cl div n) + cl mod n" by simp
  moreover have "0 \<le> cl mod n" using n1 by simp
  ultimately have nc: "n * c \<le> cl" unfolding c_def by linarith
  have n': "min \<lceil>real_of_int cl / real_of_int cs\<rceil> mt = n"
    using calculateNumChunks_ceiling [OF assms(1,2)] by (simp add: n_def)
  have c': "\<lfloor>real_of_int cl / real_of_int n\<rfloor> = c"
    by (simp add: c_def floor_divide_of_int_eq)
  note r = regular_plan [OF n1 c1 nc, folded chunks_def]
  from p r show ?thesis
    unfolding Let_def n' c' by blast
qed

text \<open>Ten bytes, chunks of three, five threads: four chunks, the last one from 6 to 9.\<close>

theorem chunk_plan_partition_witness:
  "\<exists>chunks. chunk_plan 10 3 5 = Ok chunks
      \<and> length chunks = 4
      \<and> Start (chunks ! 3) = 6
      \<and> End (last chunks) = 9
      \<and> (\<Union>k \<in> set chunks. chunk_range k) = {0..<10}"
proof -
  have h: "(0::int) < 10" "(0::int) < 3" "(1::int) \<le> 5" by simp_all
  have "min \<lceil>real_of_int 10 / real_of_int 3\<rceil> (5::int) = 4" by simp
  moreover have "\<lfloor>real_of_int 10 / real_of_int 4\<rfloor> = 2" by simp
  ultimately show ?thesis
    using chunk_plan_partition [OF h] unfolding Let_def by fastforce
qed

section \<open>The estimated time of arrival\<close>

lemma two_powi_step: "(2::rat) powi (e + 1) = 2 powi e * 2"
  by (simp add: power_int_add)

lemma exponent_up_bounds:
  "exponent_up n x = Some e \<Longrightarrow> 1 \<le> x \<Longrightarrow> 2 powi e \<le> x \<and> x < 2 powi (e + 1)"
proof (induction n arbitrary: x e)
  case 0
  then show ?case by (auto split: if_splits)
next
  case (Suc n)
  show ?case
  proof (cases "x < 2")
    case True
    with Suc.prems show ?thesis by auto
  next
    case False
    with Suc.prems(1) obtain e' where e': "exponent_up n (x / 2) = Some e'" "e = e' + 1"
      by auto
    from False have "1 \<le> x / 2" by simp
    from Suc.IH [OF e'(1) this] have "2 powi e' \<le> x / 2" "x / 2 < 2 powi (e' + 1)" by auto
    then have "2 powi e' * 2 \<le> x" "x < 2 powi (e' + 1) * 2" by (simp_all add: field_simps)
    then show ?thesis
      unfolding e'(2) two_powi_step [of "e' + 1"] two_powi_step [of e'] by simp
  qed
qed

lemma exponent_down_bounds:
  "exponent_down n x = Some e \<Longrightarrow> 0 < x \<Longrightarrow> x < 1 \<Longrightarrow> 2 powi e \<le> x \<and> x < 2 powi (e + 1)"
proof (induction n arbitrary: x e)
  case 0
  then show ?case by simp
next
  case (Suc n)
  show ?case
  proof (cases "1 \<le> 2 * x")
    case True
    with Suc.prems have "e = - 1" by simp
    with True Suc.prems show ?thesis by (simp add: power_int_minus)
  next
    case False
    with Suc.prems(1) obtain e' where e': "exponent_down n (2 * x) = Some e'" "e = e' - 1"
      by auto
    from False Suc.prems have "0 < 2 * x" "2 * x < 1" by simp_all
    from Suc.IH [OF e'(1) this] have b: "2 powi e' \<le> 2 * x" "2 * x < 2 powi (e' + 1)" by auto
    have s: "(2::rat) powi e' = 2 powi (e' - 1) * 2"
      using two_powi_step [of "e' - 1"] by simp
    from b show ?thesis
      unfolding e'(2) using s two_powi_step [of e'] by simp
  qed
qed

lemma float64_exponent_bounds:
  assumes "float64_exponent x = Some e"
  shows "2 powi e \<le> \<bar>x\<bar> \<and> \<bar>x\<bar> < 2 powi (e + 1)"
proof (cases "1 \<le> \<bar>x\<bar>")
  case True
  with assms have "exponent_up 1023 \<bar>x\<bar> = Some e"
    by (simp add: float64_exponent_def split: if_splits)
  from exponent_up_bounds [OF this True] show ?thesis .
next
  case False
  with assms have "x \<noteq> 0" "exponent_down 1022 \<bar>x\<bar> = Some e"
    by (simp_all add: float64_exponent_def split: if_splits)
  from exponent_down_bounds [OF this(2)] this(1) False show ?thesis by simp
qed

lemma round_half_even_error: "\<bar>of_int (round_half_even m) - m\<bar> \<le> 1 / 2"
proof -
  have "of_int \<lfloor>m\<rfloor> \<le> m" "m < of_int \<lfloor>m\<rfloor> + 1" by linarith+
  then show ?thesis
    by (auto simp: round_half_even_def Let_def)
qed

lemma float64_error: "\<bar>float64 x - x\<bar> \<le> \<bar>x\<bar> / 2 ^ 53"
proof (cases "float64_exponent x")
  case None
  then show ?thesis by (simp add: float64_def)
next
  case (Some e)
  define ulp :: rat where "ulp = 2 powi (e - 52)"
  define k where "k = round_half_even (\<bar>x\<bar> / ulp)"
  have up: "0 < ulp" by (simp add: ulp_def)
  from float64_exponent_bounds [OF Some] have lo: "2 powi e \<le> \<bar>x\<bar>" by simp
  moreover have "0 < (2::rat) powi e" by simp
  ultimately have "0 < \<bar>x\<bar>" by linarith
  then have xn: "x \<noteq> 0" by simp
  have f: "float64 x = sgn x * of_int k * ulp"
    by (simp add: float64_def Some k_def ulp_def)
  have x: "x = sgn x * (\<bar>x\<bar> / ulp) * ulp"
    using up by (simp add: sgn_mult_abs)
  have "float64 x - x = sgn x * (of_int k - \<bar>x\<bar> / ulp) * ulp"
    by (subst (2) x) (simp add: f algebra_simps)
  then have "\<bar>float64 x - x\<bar> = \<bar>of_int k - \<bar>x\<bar> / ulp\<bar> * ulp"
    using xn up by (simp add: abs_mult abs_sgn_eq)
  also have "\<dots> \<le> 1 / 2 * ulp"
    using round_half_even_error [of "\<bar>x\<bar> / ulp"] up
    unfolding k_def by (intro mult_right_mono) simp_all
  also have "1 / 2 * ulp = 2 powi e / 2 ^ 53"
  proof -
    have "(2::rat) powi ((e - 52) + 52) = 2 powi (e - 52) * 2 powi 52"
      by (rule power_int_add) simp
    then have "(2::rat) powi e = 2 powi (e - 52) * 2 ^ 52" by simp
    then show ?thesis by (simp add: ulp_def)
  qed
  also have "\<dots> \<le> \<bar>x\<bar> / 2 ^ 53"
    using lo by (simp add: divide_right_mono)
  finally show ?thesis .
qed

lemma float64_0 [simp]: "float64 0 = 0"
  by (simp add: float64_def float64_exponent_def)

lemma float64_minus: "float64 (- x) = - float64 x"
  by (simp add: float64_def float64_exponent_def split: option.splits)

lemma float64_lower: "0 \<le> x \<Longrightarrow> x * (1 - 1 / 2 ^ 53) \<le> float64 x"
proof -
  assume a: "0 \<le> x"
  define d where "d = \<bar>x\<bar> / 2 ^ 53"
  have "\<bar>float64 x - x\<bar> \<le> d" unfolding d_def by (rule float64_error)
  then have "x - d \<le> float64 x" by linarith
  moreover have "x * (1 - 1 / 2 ^ 53) = x - d" using a by (simp add: d_def algebra_simps)
  ultimately show ?thesis by (simp only:)
qed

lemma float64_upper: "0 \<le> x \<Longrightarrow> float64 x \<le> x * (1 + 1 / 2 ^ 53)"
proof -
  assume a: "0 \<le> x"
  define d where "d = \<bar>x\<bar> / 2 ^ 53"
  have "\<bar>float64 x - x\<bar> \<le> d" unfolding d_def by (rule float64_error)
  then have "float64 x \<le> x + d" by linarith
  moreover have "x * (1 + 1 / 2 ^ 53) = x + d" using a by (simp add: d_def algebra_simps)
  ultimately show ?thesis by (simp only:)
qed

lemma float64_nonneg: "0 \<le> x \<Longrightarrow> 0 \<le> float64 x"
proof -
  assume a: "0 \<le> x"
  have "0 \<le> x * (1 - 1 / 2 ^ 53)" using a by simp
  with float64_lower [OF a] show ?thesis by linarith
qed

lemma eta_float_bounds:
  fixes r s G :: rat
  assumes r: "0 \<le> r" and s: "0 < s" and G: "0 \<le> G"
  defines "p \<equiv> float64 (float64 (float64 r / float64 s) * G)"
  shows "r * G / s * (1 - 1 / 2 ^ 50) \<le> p" and "p \<le> r * G / s * (1 + 1 / 2 ^ 50)"
proof -
  define U :: rat where "U = 1 + 1 / 2 ^ 53"
  define L :: rat where "L = 1 - 1 / 2 ^ 53"
  have UL: "0 < L" "L \<le> 1" "1 \<le> U" "0 < U" by (simp_all add: U_def L_def)
  have num_up: "U ^ 3 / L \<le> 1 + 1 / 2 ^ 50" by (simp add: U_def L_def power_divide)
  have num_lo: "1 - 1 / 2 ^ 50 \<le> L ^ 3 / U" by (simp add: U_def L_def power_divide)
  define a where "a = float64 r"
  define b where "b = float64 s"
  define c where "c = a / b"
  define q where "q = float64 c"
  have a: "r * L \<le> a" "a \<le> r * U" "0 \<le> a"
    using float64_lower [OF r] float64_upper [OF r] float64_nonneg [OF r]
    by (simp_all add: a_def U_def L_def)
  have s0: "0 \<le> s" using s by simp
  have b: "s * L \<le> b" "b \<le> s * U"
    using float64_lower [OF s0] float64_upper [OF s0] by (simp_all add: b_def U_def L_def)
  have sL: "0 < s * L" using s UL by simp
  then have b0: "0 < b" using b(1) by linarith
  have c0: "0 \<le> c" using a(3) b0 by (simp add: c_def)
  have rU: "0 \<le> r * U" using r UL by simp
  have c_up: "c \<le> (r * U) / (s * L)"
    unfolding c_def by (rule frac_le [OF rU a(2) sL b(1)])
  have c_lo: "(r * L) / (s * U) \<le> c"
    unfolding c_def by (rule frac_le [OF a(3) a(1) b0 b(2)])
  have q: "c * L \<le> q" "q \<le> c * U" "0 \<le> q"
    using float64_lower [OF c0] float64_upper [OF c0] float64_nonneg [OF c0]
    by (simp_all add: q_def U_def L_def)
  have t0: "0 \<le> q * G" using q(3) G by simp
  have p: "q * G * L \<le> p" "p \<le> q * G * U"
    using float64_lower [OF t0] float64_upper [OF t0]
    by (simp_all add: p_def q_def c_def a_def b_def U_def L_def)
  have E0: "0 \<le> r * G / s" using r G s by simp
  have "p \<le> q * G * U" by (rule p(2))
  also have "\<dots> \<le> (c * U) * G * U"
    using q(2) G UL by (intro mult_right_mono) simp_all
  also have "\<dots> \<le> ((r * U) / (s * L) * U) * G * U"
    using c_up G UL by (intro mult_right_mono) simp_all
  also have "\<dots> = r * G / s * (U ^ 3 / L)"
    using s UL by (simp add: field_simps power3_eq_cube)
  also have "\<dots> \<le> r * G / s * (1 + 1 / 2 ^ 50)"
    by (rule mult_left_mono [OF num_up E0])
  finally show "p \<le> r * G / s * (1 + 1 / 2 ^ 50)" .
  have "r * G / s * (1 - 1 / 2 ^ 50) \<le> r * G / s * (L ^ 3 / U)"
    by (rule mult_left_mono [OF num_lo E0])
  also have "\<dots> = ((r * L) / (s * U) * L) * G * L"
    using s UL by (simp add: field_simps power3_eq_cube)
  also have "\<dots> \<le> (c * L) * G * L"
    using c_lo G UL by (intro mult_right_mono) simp_all
  also have "\<dots> \<le> q * G * L"
    using q(1) G UL by (intro mult_right_mono) simp_all
  also have "\<dots> \<le> p" by (rule p(1))
  finally show "r * G / s * (1 - 1 / 2 ^ 50) \<le> p" .
qed

lemma float64_Second: "float64 (of_int Second) = of_int Second"
  by code_simp

lemma wrap64_id: "int64 x \<Longrightarrow> wrap64 x = x"
  by (simp add: wrap64_def int64_def)

lemma eta_float_abs:
  fixes r s G :: rat
  assumes s: "0 < s" and G: "0 \<le> G"
  defines "p \<equiv> float64 (float64 (float64 r / float64 s) * G)"
  shows "\<bar>p - r * G / s\<bar> \<le> \<bar>r * G / s\<bar> / 2 ^ 50"
    and "0 \<le> r \<Longrightarrow> 0 \<le> p" and "r \<le> 0 \<Longrightarrow> p \<le> 0"
proof -
  have pos: "\<bar>float64 (float64 (float64 x / float64 s) * G) - x * G / s\<bar> \<le> \<bar>x * G / s\<bar> / 2 ^ 50
             \<and> 0 \<le> float64 (float64 (float64 x / float64 s) * G)"
    if x: "0 \<le> x" for x
  proof -
    define E where "E = x * G / s"
    define y where "y = float64 (float64 (float64 x / float64 s) * G)"
    have E0: "0 \<le> E" using x G s by (simp add: E_def)
    have lo: "E * (1 - 1 / 2 ^ 50) \<le> y" and up: "y \<le> E * (1 + 1 / 2 ^ 50)"
      unfolding E_def y_def by (rule eta_float_bounds [OF x s G])+
    have e1: "E * (1 - 1 / 2 ^ 50) = E - E / 2 ^ 50" by (simp add: algebra_simps)
    have e2: "E * (1 + 1 / 2 ^ 50) = E + E / 2 ^ 50" by (simp add: algebra_simps)
    have d0: "0 \<le> E / 2 ^ 50" using E0 by simp
    have d1: "E / 2 ^ 50 \<le> E" using E0 by (simp add: field_simps)
    have ae: "\<bar>E\<bar> = E" using E0 by simp
    from lo up have "\<bar>y - E\<bar> \<le> E / 2 ^ 50" unfolding e1 e2 by linarith
    then have "\<bar>y - E\<bar> \<le> \<bar>E\<bar> / 2 ^ 50" by (simp only: ae)
    moreover have "0 \<le> y" using lo d1 unfolding e1 by linarith
    ultimately show ?thesis unfolding E_def y_def by (intro conjI)
  qed
  have neg: "float64 (float64 (float64 (- x) / float64 s) * G)
             = - float64 (float64 (float64 x / float64 s) * G)" for x
    by (simp add: float64_minus)
  show "0 \<le> r \<Longrightarrow> 0 \<le> p" using pos [of r] by (simp add: p_def)
  show "r \<le> 0 \<Longrightarrow> p \<le> 0" using pos [of "- r"] neg [of "- r"] by (simp add: p_def)
  show "\<bar>p - r * G / s\<bar> \<le> \<bar>r * G / s\<bar> / 2 ^ 50"
  proof (cases "0 \<le> r")
    case True
    then show ?thesis using pos [of r] by (simp add: p_def)
  next
    case False
    then have "0 \<le> - r" by simp
    from pos [OF this] neg [of "- r"]
    have "\<bar>- p - (- r) * G / s\<bar> \<le> \<bar>(- r) * G / s\<bar> / 2 ^ 50" by (simp add: p_def)
    moreover have "- p - (- r) * G / s = - (p - r * G / s)" by simp
    moreover have "\<bar>(- r) * G / s\<bar> = \<bar>r * G / s\<bar>" by simp
    ultimately show ?thesis by (simp only: abs_minus)
  qed
qed

lemma float_to_int64_in_range:
  assumes "\<bar>x\<bar> < 2 ^ 63"
  shows "float_to_int64 out_of_range x = (if 0 \<le> x then \<lfloor>x\<rfloor> else \<lceil>x\<rceil>)"
    and "\<bar>of_int (float_to_int64 out_of_range x) - x\<bar> < 1"
    and "0 \<le> x \<Longrightarrow> 0 \<le> float_to_int64 out_of_range x"
    and "x \<le> 0 \<Longrightarrow> float_to_int64 out_of_range x \<le> 0"
proof -
  define t where "t = (if 0 \<le> x then \<lfloor>x\<rfloor> else \<lceil>x\<rceil>)"
  have f: "of_int \<lfloor>x\<rfloor> \<le> x" "x < of_int \<lfloor>x\<rfloor> + 1" by linarith+
  have c: "x \<le> of_int \<lceil>x\<rceil>" "of_int \<lceil>x\<rceil> < x + 1" by linarith+
  have b: "- (2 ^ 63) < x" "x < 2 ^ 63" using assms by linarith+
  have "- (2 ^ 63) \<le> t \<and> t < 2 ^ 63"
  proof (cases "0 \<le> x")
    case True
    then have "0 \<le> \<lfloor>x\<rfloor>" by simp
    moreover have "\<lfloor>x\<rfloor> < 2 ^ 63"
    proof -
      have "of_int \<lfloor>x\<rfloor> < (2 ^ 63 :: rat)" using f(1) b(2) by linarith
      then show ?thesis by (metis of_int_less_numeral_power_cancel_iff)
    qed
    ultimately show ?thesis using True by (simp add: t_def)
  next
    case False
    then have "\<lceil>x\<rceil> \<le> 0" by (simp add: ceiling_le_zero)
    moreover have "- (2 ^ 63) \<le> \<lceil>x\<rceil>"
    proof -
      have "(- (2 ^ 63) :: rat) \<le> of_int \<lceil>x\<rceil>" using c(1) b(1) by linarith
      then show ?thesis by (metis of_int_le_iff of_int_minus of_int_numeral of_int_power)
    qed
    ultimately show ?thesis using False by (simp add: t_def)
  qed
  then have i: "int64 t" by (simp add: int64_def)
  then show r: "float_to_int64 out_of_range x = (if 0 \<le> x then \<lfloor>x\<rfloor> else \<lceil>x\<rceil>)"
    by (simp add: float_to_int64_def Let_def t_def)
  have "\<bar>of_int \<lfloor>x\<rfloor> - x\<bar> < 1" using f by linarith
  moreover have "\<bar>of_int \<lceil>x\<rceil> - x\<bar> < 1" using c by linarith
  ultimately show "\<bar>of_int (float_to_int64 out_of_range x) - x\<bar> < 1"
    unfolding r by (cases "0 \<le> x") (simp_all only: if_True if_False)
  show "0 \<le> x \<Longrightarrow> 0 \<le> float_to_int64 out_of_range x" unfolding r by simp
  show "x \<le> 0 \<Longrightarrow> float_to_int64 out_of_range x \<le> 0"
    unfolding r by (auto simp: ceiling_le_zero)
qed

lemma CalculateETA_in_range:
  assumes sp: "0 < speed" and nw: "int64 (tot - downloaded)"
    and rg: "\<bar>tot - downloaded\<bar> * Second \<le> 2 ^ 62 * speed"
  defines "E \<equiv> (of_int ((tot - downloaded) * Second) / of_int speed :: rat)"
  shows "CalculateETA out_of_range tot downloaded speed = CalculateETA other tot downloaded speed"
    and "downloaded \<le> tot \<Longrightarrow> 0 \<le> CalculateETA out_of_range tot downloaded speed"
    and "tot \<le> downloaded \<Longrightarrow> CalculateETA out_of_range tot downloaded speed \<le> 0"
    and "\<bar>of_int (CalculateETA out_of_range tot downloaded speed) - E\<bar> < 1 + \<bar>E\<bar> / 2 ^ 50"
proof -
  define r :: rat where "r = of_int (tot - downloaded)"
  define s :: rat where "s = of_int speed"
  define G :: rat where "G = of_int Second"
  define p where "p = float64 (float64 (float64 r / float64 s) * G)"
  have s0: "0 < s" using sp by (simp add: s_def)
  have G0: "0 \<le> G" by (simp add: G_def Second_def)
  have E: "E = r * G / s" by (simp add: E_def r_def G_def s_def)
  have b1: "\<bar>p - E\<bar> \<le> \<bar>E\<bar> / 2 ^ 50"
    unfolding E p_def by (rule eta_float_abs(1) [OF s0 G0])
  have b2: "0 \<le> r \<Longrightarrow> 0 \<le> p"
    unfolding p_def by (rule eta_float_abs(2) [OF s0 G0])
  have b3: "r \<le> 0 \<Longrightarrow> p \<le> 0"
    unfolding p_def by (rule eta_float_abs(3) [OF s0 G0])
  have S0: "0 \<le> Second" by (simp add: Second_def)
  have X: "\<bar>(tot - downloaded) * Second\<bar> = \<bar>tot - downloaded\<bar> * Second"
    using S0 by (simp add: abs_mult)
  have "\<bar>E\<bar> = \<bar>of_int ((tot - downloaded) * Second)\<bar> / of_int speed"
    unfolding E_def using sp by (simp only: abs_divide abs_of_pos of_int_0_less_iff)
  also have "\<dots> = of_int (\<bar>tot - downloaded\<bar> * Second) / of_int speed"
    by (simp only: of_int_abs [symmetric] X)
  also have "\<dots> \<le> of_int (2 ^ 62 * speed) / of_int speed"
  proof (rule divide_right_mono)
    show "(of_int (\<bar>tot - downloaded\<bar> * Second) :: rat) \<le> of_int (2 ^ 62 * speed)"
      using rg by (simp only: of_int_le_iff)
    show "0 \<le> (of_int speed :: rat)" using sp by simp
  qed
  also have "\<dots> = 2 ^ 62" using sp by simp
  finally have Eb: "\<bar>E\<bar> \<le> 2 ^ 62" .
  have "\<bar>p\<bar> \<le> \<bar>p - E\<bar> + \<bar>E\<bar>" by linarith
  also have "\<dots> \<le> \<bar>E\<bar> / 2 ^ 50 + \<bar>E\<bar>" using b1 by simp
  also have "\<dots> \<le> 2 ^ 62 / 2 ^ 50 + 2 ^ 62" using Eb by (intro add_mono divide_right_mono) simp_all
  also have "\<dots> < 2 ^ 63" by simp
  finally have pr: "\<bar>p\<bar> < 2 ^ 63" .
  have c: "CalculateETA f tot downloaded speed = float_to_int64 f p" for f
    using sp by (simp add: CalculateETA_def wrap64_id [OF nw] float64_Second p_def r_def s_def G_def)
  note t = float_to_int64_in_range [OF pr]
  show "CalculateETA out_of_range tot downloaded speed = CalculateETA other tot downloaded speed"
    unfolding c by (simp only: t(1))
  show "downloaded \<le> tot \<Longrightarrow> 0 \<le> CalculateETA out_of_range tot downloaded speed"
    unfolding c using b2 t(3) by (simp add: r_def)
  show "tot \<le> downloaded \<Longrightarrow> CalculateETA out_of_range tot downloaded speed \<le> 0"
    unfolding c using b3 t(4) by (simp add: r_def)
  have "\<bar>of_int (float_to_int64 out_of_range p) - E\<bar>
        \<le> \<bar>of_int (float_to_int64 out_of_range p) - p\<bar> + \<bar>p - E\<bar>" by linarith
  also have "\<dots> < 1 + \<bar>E\<bar> / 2 ^ 50" using t(2) [of out_of_range] b1 by linarith
  finally show "\<bar>of_int (CalculateETA out_of_range tot downloaded speed) - E\<bar> < 1 + \<bar>E\<bar> / 2 ^ 50"
    unfolding c .
qed

lemma CalculateETA_equal: "CalculateETA out_of_range tot tot speed = 0"
  by (simp add: CalculateETA_def wrap64_def float_to_int64_def int64_def)


text \<open>
  Claim C8, as amended.  \<open>CalculateETA\<close> returns 0 when \<open>speed \<le> 0\<close> and when
  \<open>downloaded = total\<close>.  It has no guard for \<open>downloaded > total\<close>.  When \<open>speed > 0\<close>,
  \<open>total - downloaded\<close> fits \<open>int64\<close> and \<open>|total - downloaded| * 10^9 \<le> 2^62 * speed\<close>, the
  \<open>float64\<close> product fits \<open>int64\<close> (the result does not depend on the implementation),
  the result is not negative when \<open>downloaded \<le> total\<close> and not positive when
  \<open>downloaded \<ge> total\<close>, and it differs from the exact \<open>(total - downloaded) * 10^9 / speed\<close>
  nanoseconds by less than one nanosecond plus the \<open>2^50\<close>-th part of that value: the
  roundings of \<open>float64\<close> and the truncation.
\<close>

theorem CalculateETA_float:
  "(speed \<le> 0 \<longrightarrow> CalculateETA out_of_range tot downloaded speed = 0)
   \<and> (downloaded = tot \<longrightarrow> CalculateETA out_of_range tot downloaded speed = 0)
   \<and> (0 < speed \<and> int64 (tot - downloaded) \<and> \<bar>tot - downloaded\<bar> * Second \<le> 2 ^ 62 * speed \<longrightarrow>
        (\<forall>other. CalculateETA other tot downloaded speed
                 = CalculateETA out_of_range tot downloaded speed)
        \<and> (downloaded \<le> tot \<longrightarrow> 0 \<le> CalculateETA out_of_range tot downloaded speed)
        \<and> (tot \<le> downloaded \<longrightarrow> CalculateETA out_of_range tot downloaded speed \<le> 0)
        \<and> \<bar>of_int (CalculateETA out_of_range tot downloaded speed)
             - (of_int ((tot - downloaded) * Second) / of_int speed :: rat)\<bar>
            < 1 + \<bar>of_int ((tot - downloaded) * Second) / of_int speed :: rat\<bar> / 2 ^ 50)"
proof (intro conjI impI allI)
  show "CalculateETA out_of_range tot downloaded speed = 0" if "speed \<le> 0"
    using that by (simp add: CalculateETA_def)
  show "CalculateETA out_of_range tot downloaded speed = 0" if "downloaded = tot"
    using that by (simp add: CalculateETA_equal)
next
  fix other
  assume "0 < speed \<and> int64 (tot - downloaded) \<and> \<bar>tot - downloaded\<bar> * Second \<le> 2 ^ 62 * speed"
  then show "CalculateETA other tot downloaded speed = CalculateETA out_of_range tot downloaded speed"
    using CalculateETA_in_range(1) by blast
next
  assume "0 < speed \<and> int64 (tot - downloaded) \<and> \<bar>tot - downloaded\<bar> * Second \<le> 2 ^ 62 * speed"
    and "downloaded \<le> tot"
  then show "0 \<le> CalculateETA out_of_range tot downloaded speed"
    using CalculateETA_in_range(2) by blast
next
  assume "0 < speed \<and> int64 (tot - downloaded) \<and> \<bar>tot - downloaded\<bar> * Second \<le> 2 ^ 62 * speed"
    and "tot \<le> downloaded"
  then show "CalculateETA out_of_range tot downloaded speed \<le> 0"
    using CalculateETA_in_range(3) by blast
next
  assume "0 < speed \<and> int64 (tot - downloaded) \<and> \<bar>tot - downloaded\<bar> * Second \<le> 2 ^ 62 * speed"
  then show "\<bar>of_int (CalculateETA out_of_range tot downloaded speed)
             - (of_int ((tot - downloaded) * Second) / of_int speed :: rat)\<bar>
            < 1 + \<bar>of_int ((tot - downloaded) * Second) / of_int speed :: rat\<bar> / 2 ^ 50"
    using CalculateETA_in_range(4) by blast
qed

text \<open>
  41 bytes at 5 bytes per second: the exact value is 8.2 s, and the code returns
  8199999999 ns, whatever the implementation does out of range.  With nothing left or
  with speed 0 the result is 0.
\<close>

theorem CalculateETA_float_witness:
  "(0::int) < 5 \<and> int64 (41 - 0) \<and> \<bar>41 - 0\<bar> * Second \<le> 2 ^ 62 * 5
   \<and> CalculateETA amd64_out_of_range 41 0 5 = 8199999999
   \<and> (\<forall>other. CalculateETA other 41 0 5 = 8199999999)
   \<and> \<bar>(8199999999 :: rat) - 8200000000\<bar> < 1 + 8200000000 / 2 ^ 50
   \<and> CalculateETA amd64_out_of_range 100 100 10 = 0
   \<and> CalculateETA amd64_out_of_range 100 50 0 = 0"
proof -
  have h: "(0::int) < 5 \<and> int64 (41 - 0) \<and> \<bar>41 - 0\<bar> * Second \<le> 2 ^ 62 * 5"
    by (simp add: int64_def Second_def)
  have v: "CalculateETA amd64_out_of_range 41 0 5 = 8199999999" by code_simp
  from CalculateETA_float [of 5 amd64_out_of_range 41 0] h
  have a: "\<forall>other. CalculateETA other 41 0 5 = CalculateETA amd64_out_of_range 41 0 5"
    and b: "\<bar>of_int (CalculateETA amd64_out_of_range 41 0 5)
             - (of_int ((41 - 0) * Second) / of_int 5 :: rat)\<bar>
            < 1 + \<bar>of_int ((41 - 0) * Second) / of_int 5 :: rat\<bar> / 2 ^ 50"
    by blast+
  have b': "\<bar>(8199999999 :: rat) - 8200000000\<bar> < 1 + 8200000000 / 2 ^ 50"
    using b unfolding v by (simp add: Second_def)
  have t3: "CalculateETA amd64_out_of_range 100 100 10 = 0"
    using CalculateETA_float [of 10 amd64_out_of_range 100 100] by simp
  have t4: "CalculateETA amd64_out_of_range 100 50 0 = 0"
    using CalculateETA_float [of 0 amd64_out_of_range 100 50] by simp
  from h v a b' t3 t4 show ?thesis by (simp only: v simp_thms) 
qed


text \<open>
  Claim C8 as stated fails: with 150 of 100 bytes done at 10 bytes per second the code
  returns minus five seconds, where the claim says 0 and that no result is negative.
\<close>

theorem CalculateETA_negative_counterexample:
  "CalculateETA amd64_out_of_range 100 150 10 = - 5000000000"
  by code_simp

section \<open>Saving the resume state\<close>

lemma show_int_small:
  "show_int 0 = ''0''" "show_int 2 = ''2''" "show_int 9 = ''9''" "show_int 10 = ''10''"
  by (simp_all add: show_int_def show_nat.simps digit_char_def)

lemma json_one_chunk:
  "json_MarshalIndent (map chunk_state [one_chunk]) =
     ''['' @ [CHR 0x0A] @ ''  {'' @ [CHR 0x0A]
     @ ''    '' @ [CHR 0x22] @ ''index'' @ [CHR 0x22] @ '': 0,'' @ [CHR 0x0A]
     @ ''    '' @ [CHR 0x22] @ ''start'' @ [CHR 0x22] @ '': 0,'' @ [CHR 0x0A]
     @ ''    '' @ [CHR 0x22] @ ''end'' @ [CHR 0x22] @ '': 9,'' @ [CHR 0x0A]
     @ ''    '' @ [CHR 0x22] @ ''size'' @ [CHR 0x22] @ '': 10,'' @ [CHR 0x0A]
     @ ''    '' @ [CHR 0x22] @ ''completed'' @ [CHR 0x22] @ '': 10,'' @ [CHR 0x0A]
     @ ''    '' @ [CHR 0x22] @ ''status'' @ [CHR 0x22] @ '': 2'' @ [CHR 0x0A]
     @ ''  }'' @ [CHR 0x0A] @ '']''"
  by (simp add: json_MarshalIndent_def json_ChunkState_def json_field_def chunk_state_def
      one_chunk_def show_int_small)

text \<open>
  Claim C5, as amended.  \<open>saveDownloadState\<close> writes the encoded records to
  \<open>outputPath + ".wget2go.state"\<close> with \<open>os.WriteFile\<close>, on the state file itself: when the
  operating system refuses neither the open nor the write, the file system passes through
  exactly two states, the state file empty and the state file holding the encoding, and
  no other file is touched (there is no temporary file and no rename).  For a non-empty
  list of chunks the encoding is the JSON array of the records.
\<close>

theorem saveDownloadState_in_place:
  assumes "refusal e FsCreate (createStateFileName outputPath) = None"
    and "refusal e FsWrite (createStateFileName outputPath) = None"
  shows "createStateFileName outputPath = outputPath @ ''.wget2go.state''
       \<and> saveDownloadState_steps e w outputPath chunks =
           (Inr (),
            [w\<lparr>files := (files w)(createStateFileName outputPath \<mapsto> [])\<rparr>,
             w\<lparr>files := (files w)(createStateFileName outputPath \<mapsto>
                   json_MarshalIndent (map chunk_state chunks))\<rparr>])
       \<and> saveDownloadState e w outputPath chunks =
           (Inr (),
            w\<lparr>files := (files w)(createStateFileName outputPath \<mapsto>
                   json_MarshalIndent (map chunk_state chunks))\<rparr>)
       \<and> (chunks \<noteq> [] \<longrightarrow>
            json_MarshalIndent (map chunk_state chunks) =
              ''['' @ [CHR 0x0A]
                @ join_with ('','' @ [CHR 0x0A]) (map (json_ChunkState \<circ> chunk_state) chunks)
                @ [CHR 0x0A] @ '']'')"
  using assms
  by (simp add: createStateFileName_def saveDownloadState_steps_def saveDownloadState_def
      os_WriteFile_steps_def os_WriteFile_def Let_def json_MarshalIndent_def)

text \<open>Saving one chunk over an older state file.\<close>

theorem saveDownloadState_in_place_witness:
  "saveDownloadState_steps quiet_env \<lparr>files = [''out.wget2go.state'' \<mapsto> ''old''], sent = []\<rparr>
      ''out'' [one_chunk] =
     (Inr (),
      [\<lparr>files = [''out.wget2go.state'' \<mapsto> []], sent = []\<rparr>,
       \<lparr>files = [''out.wget2go.state'' \<mapsto> json_MarshalIndent (map chunk_state [one_chunk])],
        sent = []\<rparr>])"
proof -
  have h: "refusal quiet_env FsCreate (createStateFileName ''out'') = None"
    "refusal quiet_env FsWrite (createStateFileName ''out'') = None"
    by (simp_all add: quiet_env_def)
  from saveDownloadState_in_place [OF h, of "\<lparr>files = [''out.wget2go.state'' \<mapsto> ''old''], sent = []\<rparr>" "[one_chunk]"]
  show ?thesis by (simp add: createStateFileName_def)
qed

text \<open>
  Claim C5 as stated fails: the save is not atomic.  Over an older state file, the first
  state the file system passes through has the state file truncated to nothing, neither
  its old content nor the new one.
\<close>

theorem saveDownloadState_not_atomic_counterexample:
  "hd (snd (saveDownloadState_steps quiet_env
              \<lparr>files = [''out.wget2go.state'' \<mapsto> ''old''], sent = []\<rparr> ''out'' [one_chunk]))
     = \<lparr>files = [''out.wget2go.state'' \<mapsto> []], sent = []\<rparr>
   \<and> \<not> (\<forall>e w outputPath chunks.
        \<forall>s \<in> set (snd (saveDownloadState_steps e w outputPath chunks)).
          files s (createStateFileName outputPath) = files w (createStateFileName outputPath)
        \<or> files s (createStateFileName outputPath) =
             Some (json_MarshalIndent (map chunk_state chunks)))"
proof (intro conjI notI)
  show "hd (snd (saveDownloadState_steps quiet_env
              \<lparr>files = [''out.wget2go.state'' \<mapsto> ''old''], sent = []\<rparr> ''out'' [one_chunk]))
     = \<lparr>files = [''out.wget2go.state'' \<mapsto> []], sent = []\<rparr>"
    by (simp add: saveDownloadState_steps_def os_WriteFile_steps_def quiet_env_def
        createStateFileName_def Let_def)
  assume a: "\<forall>e w outputPath chunks.
        \<forall>s \<in> set (snd (saveDownloadState_steps e w outputPath chunks)).
          files s (createStateFileName outputPath) = files w (createStateFileName outputPath)
        \<or> files s (createStateFileName outputPath) =
             Some (json_MarshalIndent (map chunk_state chunks))"
  let ?w = "\<lparr>files = [''out.wget2go.state'' \<mapsto> ''old''], sent = []\<rparr>"
  let ?s = "\<lparr>files = [''out.wget2go.state'' \<mapsto> []], sent = []\<rparr>"
  have "?s \<in> set (snd (saveDownloadState_steps quiet_env ?w ''out'' [one_chunk]))"
    by (simp add: saveDownloadState_steps_def os_WriteFile_steps_def quiet_env_def
        createStateFileName_def Let_def)
  with a have "files ?s (createStateFileName ''out'') = files ?w (createStateFileName ''out'')
        \<or> files ?s (createStateFileName ''out'') =
             Some (json_MarshalIndent (map chunk_state [one_chunk]))"
    by blast
  then show False
    by (simp add: createStateFileName_def json_MarshalIndent_def)
qed

section \<open>The end of a chunked download\<close>

lemma deleteStateFile_other:
  "p \<noteq> createStateFileName outputPath \<Longrightarrow>
     files (snd (deleteStateFile e w outputPath)) p = files w p"
  by (auto simp: deleteStateFile_def os_Remove_def split: option.splits sum.splits)

lemma deleteStateFile_sent:
  "sent (snd (deleteStateFile e w outputPath)) = sent w"
  by (auto simp: deleteStateFile_def os_Remove_def split: option.splits sum.splits)

lemma deleteStateFile_state:
  "files (snd (deleteStateFile e w outputPath)) (createStateFileName outputPath) =
     (if refusal e FsStat (createStateFileName outputPath) = None
         \<and> refusal e FsRemove (createStateFileName outputPath) = None
      then None else files w (createStateFileName outputPath))"
  by (auto simp: deleteStateFile_def os_Remove_def FileExists_def os_Stat_def
      split: option.splits sum.splits)

lemma temp_not_state: "outputPath @ ''.tmp'' \<noteq> createStateFileName outputPath"
  by (simp add: createStateFileName_def)

lemma finish_stat_error:
  "os_Stat e w (outputPath @ ''.tmp'') = Inl err \<Longrightarrow>
     downloadWithChunks_finish e w outputPath cl = (Err (msg_get_info_failed @ err), w)"
  by (simp add: downloadWithChunks_finish_def)

lemma finish_mismatch:
  "os_Stat e w (outputPath @ ''.tmp'') = Inr n \<Longrightarrow> n \<noteq> cl \<Longrightarrow>
     downloadWithChunks_finish e w outputPath cl = (Err (size_mismatch cl n), w)"
  by (simp add: downloadWithChunks_finish_def)

lemma os_Stat_Inr:
  "os_Stat e w p = Inr n \<longleftrightarrow>
     refusal e FsStat p = None \<and> (\<exists>content. files w p = Some content \<and> n = int (length content))"
  by (auto simp: os_Stat_def split: option.splits)

lemma finish_match:
  assumes "os_Stat e w (outputPath @ ''.tmp'') = Inr cl"
  shows "(fst (downloadWithChunks_finish e w outputPath cl) = Ok ()
            \<longleftrightarrow> refusal e FsRename (outputPath @ ''.tmp'') = None)"
    and "files (snd (downloadWithChunks_finish e w outputPath cl)) (createStateFileName outputPath)
           = files (snd (deleteStateFile e w outputPath)) (createStateFileName outputPath)"
    and "fst (downloadWithChunks_finish e w outputPath cl) = Ok () \<Longrightarrow>
           files (snd (downloadWithChunks_finish e w outputPath cl)) (outputPath @ ''.tmp'') = None
         \<and> files (snd (downloadWithChunks_finish e w outputPath cl)) outputPath
             = files w (outputPath @ ''.tmp'')"
proof -
  from assms obtain content where c: "files w (outputPath @ ''.tmp'') = Some content"
    by (auto simp: os_Stat_Inr)
  let ?w1 = "snd (deleteStateFile e w outputPath)"
  have c1: "files ?w1 (outputPath @ ''.tmp'') = Some content"
    using c deleteStateFile_other [OF temp_not_state] by simp
  have ne: "createStateFileName outputPath \<noteq> outputPath"
    "createStateFileName outputPath \<noteq> outputPath @ ''.tmp''"
    by (simp_all add: createStateFileName_def)
  show "(fst (downloadWithChunks_finish e w outputPath cl) = Ok ()
            \<longleftrightarrow> refusal e FsRename (outputPath @ ''.tmp'') = None)"
    using assms c1
    by (auto simp: downloadWithChunks_finish_def Let_def os_Rename_def split: option.splits)
  show "files (snd (downloadWithChunks_finish e w outputPath cl)) (createStateFileName outputPath)
           = files (snd (deleteStateFile e w outputPath)) (createStateFileName outputPath)"
    using assms c1 ne
    by (auto simp: downloadWithChunks_finish_def Let_def os_Rename_def split: option.splits)
  show "files (snd (downloadWithChunks_finish e w outputPath cl)) (outputPath @ ''.tmp'') = None
         \<and> files (snd (downloadWithChunks_finish e w outputPath cl)) outputPath
             = files w (outputPath @ ''.tmp'')"
    if "fst (downloadWithChunks_finish e w outputPath cl) = Ok ()"
    using that assms c1 c
    by (auto simp: downloadWithChunks_finish_def Let_def os_Rename_def split: option.splits)
qed

lemma downloadWithChunks_Ok:
  assumes "fst (downloadWithChunks e cfg w urlStr outputPath fileInfo) = Ok ()"
  shows "\<exists>w2. downloadWithChunks e cfg w urlStr outputPath fileInfo
               = downloadWithChunks_finish e w2 outputPath (ContentLength fileInfo)"
  using assms
  by (auto simp: downloadWithChunks_def split: go_result.splits prod.splits sum.splits option.splits)

text \<open>
  Claim C2, as amended.  After \<open>downloadChunks\<close> has returned without error (\<open>w2\<close> is the
  state it left), \<open>downloadWithChunks\<close> stats the temporary file: an error of the stat is
  returned; a size other than the \<open>ContentLength\<close> of the \<open>HEAD\<close> request gives the
  size-mismatch error and changes nothing.  When the size matches, the state file is
  deleted if the operating system allows it (the error of \<open>deleteStateFile\<close> is dropped)
  and the temporary file is renamed; the operation succeeds exactly when the rename is
  not refused.  So after a successful chunked download the temporary file is gone and
  the output file has the announced length; the state file is gone provided its removal
  was not refused.
\<close>

theorem chunked_download_completion:
  "(\<forall>err. os_Stat e w2 (outputPath @ ''.tmp'') = Inl err \<longrightarrow>
       downloadWithChunks_finish e w2 outputPath cl = (Err (msg_get_info_failed @ err), w2))
   \<and> (\<forall>n. os_Stat e w2 (outputPath @ ''.tmp'') = Inr n \<and> n \<noteq> cl \<longrightarrow>
       downloadWithChunks_finish e w2 outputPath cl = (Err (size_mismatch cl n), w2))
   \<and> (os_Stat e w2 (outputPath @ ''.tmp'') = Inr cl \<longrightarrow>
         (fst (downloadWithChunks_finish e w2 outputPath cl) = Ok ()
            \<longleftrightarrow> refusal e FsRename (outputPath @ ''.tmp'') = None)
       \<and> files (snd (downloadWithChunks_finish e w2 outputPath cl))
            (createStateFileName outputPath)
           = (if refusal e FsStat (createStateFileName outputPath) = None
                 \<and> refusal e FsRemove (createStateFileName outputPath) = None
              then None else files w2 (createStateFileName outputPath)))
   \<and> (fst (downloadWithChunks e cfg w urlStr outputPath fileInfo) = Ok () \<longrightarrow>
         files (snd (downloadWithChunks e cfg w urlStr outputPath fileInfo))
           (outputPath @ ''.tmp'') = None
       \<and> (\<exists>content.
             files (snd (downloadWithChunks e cfg w urlStr outputPath fileInfo)) outputPath
               = Some content
           \<and> int (length content) = ContentLength fileInfo)
       \<and> (refusal e FsStat (createStateFileName outputPath) = None
            \<and> refusal e FsRemove (createStateFileName outputPath) = None \<longrightarrow>
           files (snd (downloadWithChunks e cfg w urlStr outputPath fileInfo))
             (createStateFileName outputPath) = None))"
proof (intro conjI allI impI)
  fix err assume "os_Stat e w2 (outputPath @ ''.tmp'') = Inl err"
  then show "downloadWithChunks_finish e w2 outputPath cl = (Err (msg_get_info_failed @ err), w2)"
    by (rule finish_stat_error)
next
  fix n assume "os_Stat e w2 (outputPath @ ''.tmp'') = Inr n \<and> n \<noteq> cl"
  then show "downloadWithChunks_finish e w2 outputPath cl = (Err (size_mismatch cl n), w2)"
    by (simp add: finish_mismatch)
next
  assume s: "os_Stat e w2 (outputPath @ ''.tmp'') = Inr cl"
  show "(fst (downloadWithChunks_finish e w2 outputPath cl) = Ok ())
          = (refusal e FsRename (outputPath @ ''.tmp'') = None)"
    using finish_match(1) [OF s] .
  show "files (snd (downloadWithChunks_finish e w2 outputPath cl)) (createStateFileName outputPath)
           = (if refusal e FsStat (createStateFileName outputPath) = None
                 \<and> refusal e FsRemove (createStateFileName outputPath) = None
              then None else files w2 (createStateFileName outputPath))"
    using finish_match(2) [OF s] by (simp only: deleteStateFile_state)
next
  let ?r = "downloadWithChunks e cfg w urlStr outputPath fileInfo"
  let ?cl = "ContentLength fileInfo"
  assume ok: "fst ?r = Ok ()"
  from downloadWithChunks_Ok [OF ok]
  obtain w2 where r: "?r = downloadWithChunks_finish e w2 outputPath ?cl" by blast
  have s: "os_Stat e w2 (outputPath @ ''.tmp'') = Inr ?cl"
  proof (cases "os_Stat e w2 (outputPath @ ''.tmp'')")
    case (Inl err)
    with ok r show ?thesis by (simp add: finish_stat_error)
  next
    case (Inr n)
    with ok r show ?thesis by (cases "n = ?cl") (simp_all add: finish_mismatch)
  qed
  from s obtain content where c: "files w2 (outputPath @ ''.tmp'') = Some content"
    and l: "?cl = int (length content)"
    by (auto simp: os_Stat_Inr)
  from ok r have ok2: "fst (downloadWithChunks_finish e w2 outputPath ?cl) = Ok ()" by simp
  from finish_match(3) [OF s ok2] r c
  show "files (snd ?r) (outputPath @ ''.tmp'') = None" by simp
  from finish_match(3) [OF s ok2] r c l
  show "\<exists>content. files (snd ?r) outputPath = Some content \<and> int (length content) = ?cl"
    by simp
  assume "refusal e FsStat (createStateFileName outputPath) = None
            \<and> refusal e FsRemove (createStateFileName outputPath) = None"
  with finish_match(2) [OF s] r
  show "files (snd ?r) (createStateFileName outputPath) = None"
    by (simp add: deleteStateFile_state)
qed

text \<open>A download of ten bytes in two chunks, with nothing refused.\<close>

theorem chunked_download_completion_witness:
  "fst (downloadWithChunks ten_env small_cfg empty_world ''http://h/f'' ''out'' ten_info) = Ok ()
   \<and> files (snd (downloadWithChunks ten_env small_cfg empty_world ''http://h/f'' ''out'' ten_info))
        ''out.tmp'' = None
   \<and> files (snd (downloadWithChunks ten_env small_cfg empty_world ''http://h/f'' ''out'' ten_info))
        ''out.wget2go.state'' = None"
proof -
  have ok: "fst (downloadWithChunks ten_env small_cfg empty_world ''http://h/f'' ''out'' ten_info)
              = Ok ()"
    by code_simp
  have r: "refusal ten_env FsStat (createStateFileName ''out'') = None
         \<and> refusal ten_env FsRemove (createStateFileName ''out'') = None"
    by (simp add: ten_env_def quiet_env_def)
  from chunked_download_completion
         [of ten_env _ "''out''" _ small_cfg empty_world "''http://h/f''" ten_info] ok r
  show ?thesis by (simp add: createStateFileName_def)
qed

text \<open>
  Claim C2 as stated fails where the state file cannot be removed: the same download
  succeeds, the output is complete, and the state file is still there.
\<close>

theorem chunked_download_state_left_counterexample:
  "fst (downloadWithChunks sticky_env small_cfg empty_world ''http://h/f'' ''out'' ten_info) = Ok ()
   \<and> files (snd (downloadWithChunks sticky_env small_cfg empty_world ''http://h/f'' ''out'' ten_info))
        ''out'' = Some ''0123456789''
   \<and> files (snd (downloadWithChunks sticky_env small_cfg empty_world ''http://h/f'' ''out'' ten_info))
        ''out.wget2go.state'' \<noteq> None"
  by code_simp

section \<open>Resuming a single-stream download\<close>

lemma downloadSingle_range_resume:
  assumes "Continue cfg" and "os_Stat e w outputPath = Inr s" and "0 < s"
  shows "downloadSingle_range e cfg w outputPath = Inr (s, ''bytes='' @ show_int s @ ''-'')"
  using assms by (simp add: downloadSingle_range_def FileExists_def GetFileSize_def)

lemma downloadSingle_on_response:
  assumes "downloadSingle_range e cfg w outputPath = Inr (fileSize0, rangeHeader)"
    and "server e (sent w) \<lparr>req_verb = ''GET'', req_url = urlStr, req_range = rangeHeader\<rparr>
           = Response resp"
  shows "downloadSingle e cfg w urlStr outputPath =
           downloadSingle_response e
             (w\<lparr>sent := sent w @ [\<lparr>req_verb = ''GET'', req_url = urlStr, req_range = rangeHeader\<rparr>]\<rparr>)
             outputPath rangeHeader fileSize0 resp"
  using assms by (simp add: downloadSingle_def downloadSingle_response_def Get_def Let_def)

lemma copy_append_sent: "sent (snd (copy_append e w p content readErr)) = sent w"
  by (auto simp: copy_append_def split: option.splits)

lemma downloadSingle_response_sent:
  "sent (snd (downloadSingle_response e w1 outputPath rangeHeader fileSize0 resp)) = sent w1"
proof -
  have c: "sent w3 = sent w2" if "copy_append e w2 p content readErr = (x, w3)"
    for w2 w3 p content readErr x
    using copy_append_sent [of e w2 p content readErr] that by simp
  show ?thesis
    by (auto simp: downloadSingle_response_def os_Create_def dest: c
        split: sum.splits prod.splits option.splits if_splits)
qed

lemma downloadSingle_response_206:
  assumes "rangeHeader \<noteq> ''''" and "resp_StatusCode resp = 206" and "0 < fileSize0"
    and "fst (downloadSingle_response e w1 outputPath rangeHeader fileSize0 resp) = Ok ()"
  shows "\<exists>old content z. files w1 outputPath = Some old
           \<and> body_stream e resp = Inr (content, None, z)
           \<and> files (snd (downloadSingle_response e w1 outputPath rangeHeader fileSize0 resp)) outputPath
               = Some (old @ content)"
  using assms
  by (auto simp: downloadSingle_response_def downloadSingle_status_def os_OpenFile_append_def
      copy_append_def split: sum.splits prod.splits option.splits if_splits)

lemma downloadSingle_response_200:
  assumes "rangeHeader \<noteq> ''''" and "resp_StatusCode resp = 200"
    and "fst (downloadSingle_response e w1 outputPath rangeHeader fileSize0 resp) = Ok ()"
  shows "\<exists>content z. body_stream e resp = Inr (content, None, z)
           \<and> files (snd (downloadSingle_response e w1 outputPath rangeHeader fileSize0 resp)) outputPath
               = Some content"
  using assms
  by (auto simp: downloadSingle_response_def downloadSingle_status_def os_Create_def
      copy_append_def split: sum.splits prod.splits option.splits if_splits)

lemma downloadSingle_response_other:
  assumes "rangeHeader \<noteq> ''''" and "resp_StatusCode resp \<noteq> 206" and "resp_StatusCode resp \<noteq> 200"
  shows "downloadSingle_response e w1 outputPath rangeHeader fileSize0 resp
           = (Err (msg_http_error @ show_int (resp_StatusCode resp)), w1)"
  using assms by (simp add: downloadSingle_response_def downloadSingle_status_def)

lemma body_stream_identity:
  "identity_encoded resp \<Longrightarrow> body_stream e resp = Inr (resp_Body resp, resp_BodyError resp, False)"
  by (simp add: identity_encoded_def body_stream_def Let_def)

lemma downloadSingle_resume_response:
  assumes "Continue cfg" and "os_Stat e w outputPath = Inr s" and "0 < s"
    and "server e (sent w)
           \<lparr>req_verb = ''GET'', req_url = urlStr, req_range = ''bytes='' @ show_int s @ ''-''\<rparr>
           = Response resp"
  shows "sent (snd (downloadSingle e cfg w urlStr outputPath)) =
           sent w @ [\<lparr>req_verb = ''GET'', req_url = urlStr,
                       req_range = ''bytes='' @ show_int s @ ''-''\<rparr>]
       \<and> (resp_StatusCode resp = 206 \<and> fst (downloadSingle e cfg w urlStr outputPath) = Ok () \<longrightarrow>
            (\<exists>old content z. files w outputPath = Some old
               \<and> body_stream e resp = Inr (content, None, z)
               \<and> files (snd (downloadSingle e cfg w urlStr outputPath)) outputPath
                    = Some (old @ content)))
       \<and> (resp_StatusCode resp = 200 \<and> fst (downloadSingle e cfg w urlStr outputPath) = Ok () \<longrightarrow>
            (\<exists>content z. body_stream e resp = Inr (content, None, z)
               \<and> files (snd (downloadSingle e cfg w urlStr outputPath)) outputPath = Some content))
       \<and> (resp_StatusCode resp \<noteq> 206 \<and> resp_StatusCode resp \<noteq> 200 \<longrightarrow>
            fst (downloadSingle e cfg w urlStr outputPath)
              = Err (msg_http_error @ show_int (resp_StatusCode resp))
          \<and> files (snd (downloadSingle e cfg w urlStr outputPath)) = files w)
       \<and> (fst (downloadSingle e cfg w urlStr outputPath) = Ok () \<and> identity_encoded resp
            \<and> (resp_StatusCode resp = 206 \<and> resp_Body resp = drop (nat s) resource
                  \<and> nat s \<le> length resource
                \<or> resp_StatusCode resp = 200 \<and> resp_Body resp = resource) \<longrightarrow>
            (\<exists>final. files (snd (downloadSingle e cfg w urlStr outputPath)) outputPath = Some final
               \<and> length final = length resource))"
proof -
  let ?rh = "''bytes='' @ show_int s @ ''-''"
  let ?req = "\<lparr>req_verb = ''GET'', req_url = urlStr, req_range = ?rh\<rparr>"
  let ?w1 = "w\<lparr>sent := sent w @ [?req]\<rparr>"
  let ?r = "downloadSingle e cfg w urlStr outputPath"
  have ne: "?rh \<noteq> ''''" by simp
  have eq: "?r = downloadSingle_response e ?w1 outputPath ?rh s resp"
    using downloadSingle_on_response [OF downloadSingle_range_resume [OF assms(1-3)] assms(4)] .
  from assms(2) obtain old where old: "files w outputPath = Some old" and ls: "s = int (length old)"
    by (auto simp: os_Stat_Inr)
  have a: "sent (snd ?r) = sent w @ [?req]"
    by (simp add: eq downloadSingle_response_sent)
  have b: "\<exists>old content z. files w outputPath = Some old
               \<and> body_stream e resp = Inr (content, None, z)
               \<and> files (snd ?r) outputPath = Some (old @ content)"
    if "resp_StatusCode resp = 206" "fst ?r = Ok ()"
    using downloadSingle_response_206 [OF ne that(1) assms(3), of e ?w1 outputPath] that(2) eq
    by simp
  have c: "\<exists>content z. body_stream e resp = Inr (content, None, z)
               \<and> files (snd ?r) outputPath = Some content"
    if "resp_StatusCode resp = 200" "fst ?r = Ok ()"
    using downloadSingle_response_200 [OF ne that(1), of e ?w1 outputPath s] that(2) eq by simp
  have d: "fst ?r = Err (msg_http_error @ show_int (resp_StatusCode resp)) \<and> files (snd ?r) = files w"
    if "resp_StatusCode resp \<noteq> 206" "resp_StatusCode resp \<noteq> 200"
    using downloadSingle_response_other [OF ne that, of e ?w1 outputPath s] eq by simp
  have f: "\<exists>final. files (snd ?r) outputPath = Some final \<and> length final = length resource"
    if ok: "fst ?r = Ok ()" and idn: "identity_encoded resp"
      and srv: "resp_StatusCode resp = 206 \<and> resp_Body resp = drop (nat s) resource
                  \<and> nat s \<le> length resource
                \<or> resp_StatusCode resp = 200 \<and> resp_Body resp = resource"
  proof -
    from srv show ?thesis
    proof
      assume h: "resp_StatusCode resp = 206 \<and> resp_Body resp = drop (nat s) resource
                  \<and> nat s \<le> length resource"
      with b ok obtain old' content z where
        "files w outputPath = Some old'" "body_stream e resp = Inr (content, None, z)"
        "files (snd ?r) outputPath = Some (old' @ content)"
        by blast
      with old body_stream_identity [OF idn, of e] h ls
      show ?thesis by auto
    next
      assume h: "resp_StatusCode resp = 200 \<and> resp_Body resp = resource"
      with c ok obtain content z where
        "body_stream e resp = Inr (content, None, z)"
        "files (snd ?r) outputPath = Some content"
        by blast
      with body_stream_identity [OF idn, of e] h
      show ?thesis by auto
    qed
  qed
  from a b c d f show ?thesis by blast
qed

text \<open>
  Claim C4.  In \<open>downloadSingle\<close> with \<open>Continue\<close> set and an output file of size \<open>s > 0\<close>,
  the request is sent with \<open>Range: bytes=s-\<close>.  When the server answers, exactly this one
  request has been sent, and: on 206 a run that succeeds has appended the body (decoded
  as \<open>Content-Encoding\<close> says) to the old content; on 200 a run that succeeds has replaced
  the file by the body of that same response, written from offset 0; on any other
  status the operation fails with the HTTP error and leaves the files as they were.
  If the server honours the range (206 with the resource from byte \<open>s\<close> on) or sends
  the whole resource (200), without compression, a successful run leaves a file as long
  as the resource.
\<close>

theorem downloadSingle_resume:
  assumes "Continue cfg" and "os_Stat e w outputPath = Inr s" and "0 < s"
  shows "downloadSingle_range e cfg w outputPath = Inr (s, ''bytes='' @ show_int s @ ''-'')
       \<and> (\<forall>resp.
            server e (sent w)
              \<lparr>req_verb = ''GET'', req_url = urlStr, req_range = ''bytes='' @ show_int s @ ''-''\<rparr>
              = Response resp \<longrightarrow>
            sent (snd (downloadSingle e cfg w urlStr outputPath)) =
              sent w @ [\<lparr>req_verb = ''GET'', req_url = urlStr,
                          req_range = ''bytes='' @ show_int s @ ''-''\<rparr>]
          \<and> (resp_StatusCode resp = 206
                \<and> fst (downloadSingle e cfg w urlStr outputPath) = Ok () \<longrightarrow>
               (\<exists>old content z. files w outputPath = Some old
                  \<and> body_stream e resp = Inr (content, None, z)
                  \<and> files (snd (downloadSingle e cfg w urlStr outputPath)) outputPath
                       = Some (old @ content)))
          \<and> (resp_StatusCode resp = 200
                \<and> fst (downloadSingle e cfg w urlStr outputPath) = Ok () \<longrightarrow>
               (\<exists>content z. body_stream e resp = Inr (content, None, z)
                  \<and> files (snd (downloadSingle e cfg w urlStr outputPath)) outputPath
                       = Some content))
          \<and> (resp_StatusCode resp \<noteq> 206 \<and> resp_StatusCode resp \<noteq> 200 \<longrightarrow>
               fst (downloadSingle e cfg w urlStr outputPath)
                 = Err (msg_http_error @ show_int (resp_StatusCode resp))
             \<and> files (snd (downloadSingle e cfg w urlStr outputPath)) = files w)
          \<and> (fst (downloadSingle e cfg w urlStr outputPath) = Ok () \<and> identity_encoded resp
               \<and> (resp_StatusCode resp = 206 \<and> resp_Body resp = drop (nat s) resource
                     \<and> nat s \<le> length resource
                   \<or> resp_StatusCode resp = 200 \<and> resp_Body resp = resource) \<longrightarrow>
               (\<exists>final.
                  files (snd (downloadSingle e cfg w urlStr outputPath)) outputPath = Some final
                \<and> length final = length resource)))"
proof (intro conjI allI impI)
  show "downloadSingle_range e cfg w outputPath = Inr (s, ''bytes='' @ show_int s @ ''-'')"
    using assms by (rule downloadSingle_range_resume)
next
  fix resp
  assume r: "server e (sent w)
              \<lparr>req_verb = ''GET'', req_url = urlStr, req_range = ''bytes='' @ show_int s @ ''-''\<rparr>
              = Response resp"
  note t = downloadSingle_resume_response [OF assms r, of resource]
  show "sent (snd (downloadSingle e cfg w urlStr outputPath)) =
              sent w @ [\<lparr>req_verb = ''GET'', req_url = urlStr,
                          req_range = ''bytes='' @ show_int s @ ''-''\<rparr>]"
    using t by blast
  show "\<exists>old content z. files w outputPath = Some old
                  \<and> body_stream e resp = Inr (content, None, z)
                  \<and> files (snd (downloadSingle e cfg w urlStr outputPath)) outputPath
                       = Some (old @ content)"
    if "resp_StatusCode resp = 206 \<and> fst (downloadSingle e cfg w urlStr outputPath) = Ok ()"
    using t that by blast
  show "\<exists>content z. body_stream e resp = Inr (content, None, z)
                  \<and> files (snd (downloadSingle e cfg w urlStr outputPath)) outputPath
                       = Some content"
    if "resp_StatusCode resp = 200 \<and> fst (downloadSingle e cfg w urlStr outputPath) = Ok ()"
    using t that by blast
  show "fst (downloadSingle e cfg w urlStr outputPath)
                 = Err (msg_http_error @ show_int (resp_StatusCode resp))"
    if "resp_StatusCode resp \<noteq> 206 \<and> resp_StatusCode resp \<noteq> 200"
    using t that by blast
  show "files (snd (downloadSingle e cfg w urlStr outputPath)) = files w"
    if "resp_StatusCode resp \<noteq> 206 \<and> resp_StatusCode resp \<noteq> 200"
    using t that by blast
  show "\<exists>final.
                  files (snd (downloadSingle e cfg w urlStr outputPath)) outputPath = Some final
                \<and> length final = length resource"
    if "fst (downloadSingle e cfg w urlStr outputPath) = Ok () \<and> identity_encoded resp
               \<and> (resp_StatusCode resp = 206 \<and> resp_Body resp = drop (nat s) resource
                     \<and> nat s \<le> length resource
                   \<or> resp_StatusCode resp = 200 \<and> resp_Body resp = resource)"
    using t that by blast
qed

text \<open>
  Four of ten bytes are on disk; the server sends the other six with status 206.
\<close>

theorem downloadSingle_resume_witness:
  "fst (downloadSingle ten_env resume_cfg partial_world ''http://h/f'' ''out'') = Ok ()
   \<and> sent (snd (downloadSingle ten_env resume_cfg partial_world ''http://h/f'' ''out''))
       = [\<lparr>req_verb = ''GET'', req_url = ''http://h/f'', req_range = ''bytes=4-''\<rparr>]
   \<and> files (snd (downloadSingle ten_env resume_cfg partial_world ''http://h/f'' ''out'')) ''out''
       = Some ''0123456789''"
proof -
  let ?resp = "plain_response 206 6 ''456789''"
  have ok: "fst (downloadSingle ten_env resume_cfg partial_world ''http://h/f'' ''out'') = Ok ()"
    by code_simp
  have h1: "Continue resume_cfg"
    by (simp add: resume_cfg_def)
  have h2: "os_Stat ten_env partial_world ''out'' = Inr 4"
    by (simp add: os_Stat_def ten_env_def quiet_env_def partial_world_def)
  have h3: "(0::int) < 4" by simp
  have s4: "show_int 4 = ''4''"
    by (simp add: show_int_def show_nat.simps digit_char_def)
  have h4: "server ten_env (sent partial_world)
           \<lparr>req_verb = ''GET'', req_url = ''http://h/f'', req_range = ''bytes='' @ show_int 4 @ ''-''\<rparr>
           = Response ?resp"
    by (simp add: s4 ten_env_def range_server_def parse_range_def parse_nat_def is_digit_def
        digits_value_def Let_def eval_nat_numeral)
  have st: "resp_StatusCode ?resp = 206"
    by (simp add: plain_response_def)
  have bs: "body_stream ten_env ?resp = Inr (''456789'', None, False)"
    by (simp add: body_stream_def plain_response_def header_table_def ToLower_def Let_def)
  from downloadSingle_resume [OF h1 h2 h3, of "''http://h/f''" "''0123456789''"] h4 ok st bs s4
  show ?thesis
    by (auto simp: partial_world_def)
qed

section \<open>The probe and the fallback to a single stream\<close>

lemma prefix_Contains: "prefix sub s \<Longrightarrow> Contains s sub"
  by (cases s) auto

lemma Contains_append_left: "Contains s sub \<Longrightarrow> Contains (p @ s) sub"
  by (induction p) auto

lemma unsupported_is_classified:
  "isRangeNotSupportedError (Some (msg_range_unsupported @ x))"
proof -
  have "prefix kw_server_no_range (msg_range_unsupported @ x)"
    by (simp add: kw_server_no_range_def msg_range_unsupported_def)
  then show ?thesis
    by (simp add: isRangeNotSupportedError_def prefix_Contains)
qed

lemma DownloadRange_not_206:
  assumes "Get e w urlStr (range_header a b) = (Inr resp, w')" and "resp_StatusCode resp \<noteq> 206"
  shows "DownloadRange e w urlStr a b
           = (Inl (msg_range_unsupported @ show_int (resp_StatusCode resp)), w')"
  using assms by (simp add: DownloadRange_def)

lemma DownloadRange_sent:
  "sent (snd (DownloadRange e w urlStr a b)) =
     (case server e (sent w) \<lparr>req_verb = ''GET'', req_url = urlStr, req_range = range_header a b\<rparr> of
        NewRequestError m \<Rightarrow> sent w
      | _ \<Rightarrow> sent w @ [\<lparr>req_verb = ''GET'', req_url = urlStr, req_range = range_header a b\<rparr>])"
  by (auto simp: DownloadRange_def Get_def Let_def split: transport.splits)

lemma probe_header: "range_header 0 0 = ''bytes=0-0''"
  by (simp add: range_header_def show_int_def show_nat.simps digit_char_def)

lemma Download_chunks_cases:
  assumes "getFileInfo e w urlStr = (Inr fileInfo, w0)" and "shouldUseChunks cfg fileInfo"
  shows "Download e cfg w urlStr outputPath =
           (case DownloadRange e w0 urlStr 0 0 of
              (Inl rangeErr, w1) \<Rightarrow>
                if isRangeNotSupportedError (Some rangeErr)
                then downloadSingle e cfg w1 urlStr (getOutputPath e cfg outputPath urlStr)
                else Download_chunked e cfg w1 urlStr (getOutputPath e cfg outputPath urlStr) fileInfo
            | (Inr _, w1) \<Rightarrow>
                Download_chunked e cfg w1 urlStr (getOutputPath e cfg outputPath urlStr) fileInfo)"
  using assms by (simp add: Download_def Let_def)

lemma Contains_iff: "Contains s sub \<longleftrightarrow> (\<exists>p q. s = p @ sub @ q)"
proof (induction s)
  case Nil
  then show ?case by auto
next
  case (Cons c s)
  show ?case
  proof
    assume "Contains (c # s) sub"
    then consider "prefix sub (c # s)" | "Contains s sub" by auto
    then show "\<exists>p q. c # s = p @ sub @ q"
    proof cases
      case 1
      then obtain q where "c # s = sub @ q" by (auto simp: prefix_def)
      then have "c # s = [] @ sub @ q" by simp
      then show ?thesis by blast
    next
      case 2
      with Cons.IH obtain p q where "s = p @ sub @ q" by blast
      then have "c # s = (c # p) @ sub @ q" by simp
      then show ?thesis by blast
    qed
  next
    assume "\<exists>p q. c # s = p @ sub @ q"
    then obtain p q where e: "c # s = p @ sub @ q" by blast
    show "Contains (c # s) sub"
    proof (cases p)
      case Nil
      with e have "prefix sub (c # s)" by (simp add: prefix_def)
      then show ?thesis by simp
    next
      case (Cons a p')
      with e have "s = p' @ sub @ q" by simp
      with Cons.IH have "Contains s sub" by blast
      then show ?thesis by simp
    qed
  qed
qed

lemma classified_by_text:
  "isRangeNotSupportedError (Some err) \<longleftrightarrow>
     Contains err kw_no_range \<or> Contains err ''range not supported''"
proof -
  have k: "kw_server_no_range = [CHR 0xE6, CHR 0x9C, CHR 0x8D, CHR 0xE5, CHR 0x8A, CHR 0xA1,
             CHR 0xE5, CHR 0x99, CHR 0xA8] @ kw_no_range"
    by (simp add: kw_server_no_range_def kw_no_range_def)
  have "Contains err kw_no_range" if "Contains err kw_server_no_range"
  proof -
    from that obtain p q where "err = p @ kw_server_no_range @ q"
      by (auto simp: Contains_iff)
    then have "err = (p @ [CHR 0xE6, CHR 0x9C, CHR 0x8D, CHR 0xE5, CHR 0x8A, CHR 0xA1,
             CHR 0xE5, CHR 0x99, CHR 0xA8]) @ kw_no_range @ q"
      by (simp add: k)
    then show ?thesis unfolding Contains_iff by blast
  qed
  then show ?thesis by (auto simp: isRangeNotSupportedError_def)
qed

text \<open>
  The fallback as the code has it.  When \<open>shouldUseChunks\<close> holds, \<open>Download\<close> first calls
  \<open>DownloadRange\<close> for the bytes 0 to 0 (the header \<open>Range: bytes=0-0\<close>), which sends the
  request unless it cannot be built.  It falls back to \<open>downloadSingle\<close> exactly when the
  probe, or else the chunked attempt, returns an error that \<open>isRangeNotSupportedError\<close>
  accepts; a probe error that is not accepted goes on to the chunked attempt, and an
  error of the attempt that is not accepted is returned.  \<open>DownloadRange\<close> fails on every
  status but 206, with an error that is accepted.  The classification reads the text of
  the message: an error is accepted exactly when its message contains the third keyword
  or the words \<open>range not supported\<close>.
\<close>

theorem Download_fallback:
  assumes "getFileInfo e w urlStr = (Inr fileInfo, w0)" and "shouldUseChunks cfg fileInfo"
  shows "range_header 0 0 = ''bytes=0-0''
       \<and> sent (snd (DownloadRange e w0 urlStr 0 0)) =
           (case server e (sent w0)
                   \<lparr>req_verb = ''GET'', req_url = urlStr, req_range = range_header 0 0\<rparr> of
              NewRequestError m \<Rightarrow> sent w0
            | _ \<Rightarrow> sent w0 @ [\<lparr>req_verb = ''GET'', req_url = urlStr,
                                  req_range = range_header 0 0\<rparr>])
       \<and> (\<forall>rangeErr w1.
            DownloadRange e w0 urlStr 0 0 = (Inl rangeErr, w1)
              \<and> isRangeNotSupportedError (Some rangeErr) \<longrightarrow>
            Download e cfg w urlStr outputPath
              = downloadSingle e cfg w1 urlStr (getOutputPath e cfg outputPath urlStr))
       \<and> (\<forall>rangeErr w1.
            DownloadRange e w0 urlStr 0 0 = (Inl rangeErr, w1)
              \<and> \<not> isRangeNotSupportedError (Some rangeErr) \<longrightarrow>
            Download e cfg w urlStr outputPath
              = Download_chunked e cfg w1 urlStr (getOutputPath e cfg outputPath urlStr) fileInfo)
       \<and> (\<forall>resp w1.
            DownloadRange e w0 urlStr 0 0 = (Inr resp, w1) \<longrightarrow>
            Download e cfg w urlStr outputPath
              = Download_chunked e cfg w1 urlStr (getOutputPath e cfg outputPath urlStr) fileInfo)
       \<and> (\<forall>w1 p err w2.
            downloadWithChunks e cfg w1 urlStr p fileInfo = (Err err, w2) \<longrightarrow>
            Download_chunked e cfg w1 urlStr p fileInfo
              = (if isRangeNotSupportedError (Some err) then downloadSingle e cfg w2 urlStr p
                 else (Err err, w2)))
       \<and> (\<forall>w1 p r w2.
            downloadWithChunks e cfg w1 urlStr p fileInfo = (r, w2) \<and> (\<forall>err. r \<noteq> Err err) \<longrightarrow>
            Download_chunked e cfg w1 urlStr p fileInfo = (r, w2))
       \<and> (\<forall>w' a b resp w''.
            Get e w' urlStr (range_header a b) = (Inr resp, w'') \<and> resp_StatusCode resp \<noteq> 206 \<longrightarrow>
            DownloadRange e w' urlStr a b
              = (Inl (msg_range_unsupported @ show_int (resp_StatusCode resp)), w'')
          \<and> isRangeNotSupportedError
               (Some (msg_range_unsupported @ show_int (resp_StatusCode resp))))
       \<and> (\<forall>err. isRangeNotSupportedError (Some err) \<longleftrightarrow>
                   Contains err kw_no_range \<or> Contains err ''range not supported'')"
proof -
  note c = Download_chunks_cases [OF assms, of outputPath]
  have a: "Download e cfg w urlStr outputPath
              = downloadSingle e cfg w1 urlStr (getOutputPath e cfg outputPath urlStr)"
    if "DownloadRange e w0 urlStr 0 0 = (Inl rangeErr, w1)
          \<and> isRangeNotSupportedError (Some rangeErr)" for rangeErr w1
    using that c by simp
  have b: "Download e cfg w urlStr outputPath
              = Download_chunked e cfg w1 urlStr (getOutputPath e cfg outputPath urlStr) fileInfo"
    if "DownloadRange e w0 urlStr 0 0 = (Inl rangeErr, w1)
          \<and> \<not> isRangeNotSupportedError (Some rangeErr)" for rangeErr w1
    using that c by simp
  have b': "Download e cfg w urlStr outputPath
              = Download_chunked e cfg w1 urlStr (getOutputPath e cfg outputPath urlStr) fileInfo"
    if "DownloadRange e w0 urlStr 0 0 = (Inr resp, w1)" for resp w1
    using that c by simp
  have d: "Download_chunked e cfg w1 urlStr p fileInfo
              = (if isRangeNotSupportedError (Some err) then downloadSingle e cfg w2 urlStr p
                 else (Err err, w2))"
    if "downloadWithChunks e cfg w1 urlStr p fileInfo = (Err err, w2)" for w1 p err w2
    using that by (simp add: Download_chunked_def)
  have d': "Download_chunked e cfg w1 urlStr p fileInfo = (r, w2)"
    if "downloadWithChunks e cfg w1 urlStr p fileInfo = (r, w2) \<and> (\<forall>err. r \<noteq> Err err)"
    for w1 p r w2
    using that by (cases r) (simp_all add: Download_chunked_def)
  have f: "DownloadRange e w' urlStr a b
              = (Inl (msg_range_unsupported @ show_int (resp_StatusCode resp)), w'')
          \<and> isRangeNotSupportedError
               (Some (msg_range_unsupported @ show_int (resp_StatusCode resp)))"
    if "Get e w' urlStr (range_header a b) = (Inr resp, w'') \<and> resp_StatusCode resp \<noteq> 206"
    for w' a b resp w''
    using that by (simp add: DownloadRange_not_206 unsupported_is_classified)
  from probe_header DownloadRange_sent [of e w0 urlStr 0 0] a b b' d d' f classified_by_text
  show ?thesis by blast
qed

text \<open>
  The server announces ranges but answers the probe with 200: \<open>Download\<close> continues as
  \<open>downloadSingle\<close> from the state after the probe, and the file is complete.
\<close>

theorem Download_fallback_witness:
  "Download norange_env small_cfg empty_world ''http://h/f'' ''out''
     = downloadSingle norange_env small_cfg
         \<lparr>files = Map.empty,
          sent = [\<lparr>req_verb = ''HEAD'', req_url = ''http://h/f'', req_range = ''''\<rparr>,
                  \<lparr>req_verb = ''GET'', req_url = ''http://h/f'', req_range = ''bytes=0-0''\<rparr>]\<rparr>
         ''http://h/f'' ''out''
   \<and> fst (Download norange_env small_cfg empty_world ''http://h/f'' ''out'') = Ok ()
   \<and> files (snd (Download norange_env small_cfg empty_world ''http://h/f'' ''out'')) ''out''
       = Some ''0123456789''"
proof -
  let ?head = "\<lparr>req_verb = ''HEAD'', req_url = ''http://h/f'', req_range = ''''\<rparr>"
  let ?probe = "\<lparr>req_verb = ''GET'', req_url = ''http://h/f'', req_range = ''bytes=0-0''\<rparr>"
  let ?w0 = "\<lparr>files = Map.empty, sent = [?head]\<rparr>"
  let ?w1 = "\<lparr>files = Map.empty, sent = [?head, ?probe]\<rparr>"
  have p10: "ParseInt_dropping_error (show_int 10) = 10"
    by (simp add: ParseInt_dropping_error_def is_digit_def digits_value_def show_int_def
        show_nat.simps digit_char_def)
  have s200: "show_int 200 = ''200''"
    by (simp add: show_int_def show_nat.simps digit_char_def)
  have h1: "getFileInfo norange_env empty_world ''http://h/f'' = (Inr ten_info, ?w0)"
    by (simp add: getFileInfo_def Head_def norange_env_def quiet_env_def empty_world_def
        parseResponse_def plain_response_def header_table_def ten_info_def p10 Let_def)
  have h2: "shouldUseChunks small_cfg ten_info"
    by (simp add: shouldUseChunks_def small_cfg_def ten_info_def)
  have pr: "DownloadRange norange_env ?w0 ''http://h/f'' 0 0
              = (Inl (msg_range_unsupported @ ''200''), ?w1)"
    by (simp add: DownloadRange_def Get_def norange_env_def quiet_env_def plain_response_def
        probe_header s200 Let_def)
  have cl: "isRangeNotSupportedError (Some (msg_range_unsupported @ ''200''))"
    by (rule unsupported_is_classified)
  have op: "getOutputPath norange_env small_cfg ''out'' ''http://h/f'' = ''out''"
    by (simp add: getOutputPath_def)
  have ok: "fst (Download norange_env small_cfg empty_world ''http://h/f'' ''out'') = Ok ()"
    by code_simp
  have fl: "files (snd (Download norange_env small_cfg empty_world ''http://h/f'' ''out'')) ''out''
       = Some ''0123456789''"
    by code_simp
  from Download_fallback [OF h1 h2, of "''out''"] pr cl op ok fl
  show ?thesis by simp
qed

text \<open>
  Claim C3 holds of what the code sets out to do (its comment at the probe: other errors,
  such as network problems, still try the chunked download) and fails on the code for a
  network error whose text holds the words the classification looks for.  Here the probe
  cannot connect: there is no response and no status, and the error of \<open>http.Client.Do\<close>
  quotes the URL, whose query holds \<open>range not supported\<close>.  \<open>Download\<close> takes it for
  a server without range support and falls back to the single stream instead of trying
  the chunks: after the probe the only request is a \<open>GET\<close> with no range.
\<close>

theorem Download_network_error_misclassified:
  "server flaky_env [\<lparr>req_verb = ''HEAD'', req_url = worded_url, req_range = ''''\<rparr>]
      \<lparr>req_verb = ''GET'', req_url = worded_url, req_range = ''bytes=0-0''\<rparr>
     = DoError refused_connection
   \<and> fst (Download flaky_env small_cfg empty_world worded_url ''out'') = Ok ()
   \<and> sent (snd (Download flaky_env small_cfg empty_world worded_url ''out''))
       = [\<lparr>req_verb = ''HEAD'', req_url = worded_url, req_range = ''''\<rparr>,
          \<lparr>req_verb = ''GET'', req_url = worded_url, req_range = ''bytes=0-0''\<rparr>,
          \<lparr>req_verb = ''GET'', req_url = worded_url, req_range = ''''\<rparr>]"
proof (intro conjI)
  show "server flaky_env [\<lparr>req_verb = ''HEAD'', req_url = worded_url, req_range = ''''\<rparr>]
      \<lparr>req_verb = ''GET'', req_url = worded_url, req_range = ''bytes=0-0''\<rparr>
     = DoError refused_connection"
    by (simp add: flaky_env_def quiet_env_def)
  show "fst (Download flaky_env small_cfg empty_world worded_url ''out'') = Ok ()"
    by code_simp
  show "sent (snd (Download flaky_env small_cfg empty_world worded_url ''out''))
       = [\<lparr>req_verb = ''HEAD'', req_url = worded_url, req_range = ''''\<rparr>,
          \<lparr>req_verb = ''GET'', req_url = worded_url, req_range = ''bytes=0-0''\<rparr>,
          \<lparr>req_verb = ''GET'', req_url = worded_url, req_range = ''''\<rparr>]"
    by code_simp
qed

section \<open>The values the link extractor skips\<close>

text \<open>
  Claim C7 fails on the code for \<open>mailto:\<close> and \<open>tel:\<close>.  \<open>Parser.extractURLs\<close> skips an
  empty value, \<open>#\<close>, and the values that begin with \<open>javascript:\<close> or \<open>data:\<close>, and no
  others: for \<open><a href="mailto:user@example.com">\<close> and \<open><a href="tel:+15551234">\<close> it
  appends a \<open>ParsedURL\<close> with the value as its URL.  \<open>HTMLExtractor.resolveURL\<close>, the other
  extractor of the repository, returns the empty string on both values, its sign for a
  value to skip.
\<close>

theorem extractURLs_keeps_mailto_and_tel:
  "(case extractURLs example_lib (\<lambda>style. []) mailto_link ''http://example.com/'' new_ParsedResult of
      Ok result \<Rightarrow> URLs result | Err e \<Rightarrow> [] | Panic e \<Rightarrow> [])
   = [\<lparr>pu_URL = ''mailto:user@example.com'', pu_Attr = ''href'', pu_Tag = ''a'', pu_Position = 0\<rparr>]
   \<and> (case extractURLs example_lib (\<lambda>style. []) tel_link ''http://example.com/'' new_ParsedResult of
         Ok result \<Rightarrow> URLs result | Err e \<Rightarrow> [] | Panic e \<Rightarrow> [])
     = [\<lparr>pu_URL = ''tel:+15551234'', pu_Attr = ''href'', pu_Tag = ''a'', pu_Position = 0\<rparr>]
   \<and> resolveURL example_lib (http_url ''example.com'' ''/'') ''mailto:user@example.com'' = []
   \<and> resolveURL example_lib (http_url ''example.com'' ''/'') ''tel:+15551234'' = []"
proof (intro conjI)
  show "(case extractURLs example_lib (\<lambda>style. []) mailto_link ''http://example.com/'' new_ParsedResult of
           Ok result \<Rightarrow> URLs result | Err e \<Rightarrow> [] | Panic e \<Rightarrow> [])
        = [\<lparr>pu_URL = ''mailto:user@example.com'', pu_Attr = ''href'', pu_Tag = ''a'', pu_Position = 0\<rparr>]"
    by code_simp
  show "(case extractURLs example_lib (\<lambda>style. []) tel_link ''http://example.com/'' new_ParsedResult of
           Ok result \<Rightarrow> URLs result | Err e \<Rightarrow> [] | Panic e \<Rightarrow> [])
        = [\<lparr>pu_URL = ''tel:+15551234'', pu_Attr = ''href'', pu_Tag = ''a'', pu_Position = 0\<rparr>]"
    by code_simp
  show "resolveURL example_lib (http_url ''example.com'' ''/'') ''mailto:user@example.com'' = []"
    by code_simp
  show "resolveURL example_lib (http_url ''example.com'' ''/'') ''tel:+15551234'' = []"
    by code_simp
qed

section \<open>The robots.txt query\<close>




lemma match_end [simp]: "rx_match_here [EndText] b s = (s = [])"
  by simp


































section \<open>The robots.txt parser is total and lenient\<close>








text \<open>
  A pattern goes to \<open>regexp.MustCompile\<close> as the file has it, but for \<open>*\<close>.  After a rule
  with an opening parenthesis that is not closed, the query does not return: the
  expression \<open>^/(draft.*$\<close> does not compile and \<open>MustCompile\<close> panics.
\<close>

lemma unclosed_group_panics:
  "rules (snd (Parse NewParser robots_open_paren ''wget2go''))
     = [\<lparr>UserAgent = ''*'', Disallow = [''/(draft''], Allow = [], CrawlDelay = 0, Sitemaps = []\<rparr>]
   \<and> IsPathAllowed (snd (Parse NewParser robots_open_paren ''wget2go'')) ''/index.html'' ''wget2go''
       = Panicked (''regexp: Compile('' @ [CHR 0x60] @ ''^/(draft.*$'' @ [CHR 0x60]
                   @ ''): error parsing regexp: missing closing ): ''
                   @ [CHR 0x60] @ ''^/(draft.*$'' @ [CHR 0x60])"
proof (intro conjI)
  show "rules (snd (Parse NewParser robots_open_paren ''wget2go''))
     = [\<lparr>UserAgent = ''*'', Disallow = [''/(draft''], Allow = [], CrawlDelay = 0, Sitemaps = []\<rparr>]"
    by code_simp
  show "IsPathAllowed (snd (Parse NewParser robots_open_paren ''wget2go'')) ''/index.html'' ''wget2go''
       = Panicked (''regexp: Compile('' @ [CHR 0x60] @ ''^/(draft.*$'' @ [CHR 0x60]
                   @ ''): error parsing regexp: missing closing ): ''
                   @ [CHR 0x60] @ ''^/(draft.*$'' @ [CHR 0x60])"
    by code_simp
qed

end
